theory Spec2Isabelle
  imports Main "HOL-Library.AList"
begin

section \<open>The deploy command of the Webiny CLI\<close>

text \<open>
  A shallow embedding of the class \<open>Deploy\<close>. Every method becomes a function that takes
  the state of the run and returns an outcome with the new state. The state records, in
  the order in which they happen, all effects of the run that the outside can observe
  (log lines, subprocesses, calls of the remote service, sleeps, reads and writes of
  files), so that statements such as "before any network call" are statements about
  the trace. The collaborators that are not part of the class (the remote service, the
  build subprocess, the archiver, the package discovery and the person at the prompt)
  are fields of a record \<open>world\<close>.
\<close>

subsection \<open>Data\<close>

text \<open>A JavaScript error: its \<open>code\<close> property (absent on a TypeError) and its message.\<close>

datatype jserror = JsError (err_code: "string option") (err_message: string)

text \<open>What \<open>undefined.x\<close> throws.\<close>

definition typeError :: "string \<Rightarrow> jserror" where
  "typeError prop = JsError None (''Cannot read property '' @ prop @ '' of undefined'')"

record package =
  pkg_name :: string
  pkg_root :: string
  pkg_path :: string
  pkg_type :: string
  pkg_ssr :: bool
  pkg_env :: "(string \<times> string) list"
  pkg_scripts :: "(string \<times> string) list"

text \<open>A local file of a deploy: \<open>{ key, hash, abs, type }\<close>.\<close>

record filerecord =
  f_key :: string
  f_hash :: string
  f_abs :: string
  f_type :: string

text \<open>An entry of \<open>deploy.files\<close>, and the deploy record the service returns.\<close>

record deployfile =
  df_key :: string
  df_type :: string
  df_required :: bool

record deployrecord =
  d_id :: string
  d_files :: "deployfile list"
  d_url :: "string option"

text \<open>An entry of the answer of \<open>presignFiles\<close>: the key and the upload target.\<close>

record presignedfile =
  p_key :: string
  p_presigned :: string

text \<open>The answer of \<open>isDeployActive\<close>.\<close>

record activeresponse =
  r_active :: bool
  r_url :: "string option"

record site =
  site_id :: string
  site_name :: string
  site_customHostname :: "string option"
  site_freeHostname :: "string option"

text \<open>
  The two configuration files. A file is absent (\<open>None\<close>), present without a usable
  JSON object (\<open>Some None\<close>: \<open>readJsonSync\<close> with \<open>throws: false\<close> gives \<open>null\<close>), or
  holds an object, kept as an association list of keys and values.
\<close>

datatype cfgpath = WebinyConfigPath | ProjectConfigPath

type_synonym config = "(string \<times> string) list"

type_synonym cfgfile = "config option option"

datatype level = LError | LInfo | LLog | LSuccess

text \<open>What the archiver emits while it runs, in order.\<close>

datatype archevent =
    ArchWarning jserror
  | ArchError jserror
  | ArchProgress nat nat
  | ArchClose string

datatype event =
    Log level string
  | ConsoleLog
  | Execa string string "(string \<times> string) list"
  | ListPackages
  | PromptToken string
  | PromptSite "(string \<times> string) list"
  | UiBottomBar string
  | SdkWhoami string
  | SdkSites
  | SdkGetFilesDigest string
  | SdkGetFileHash string
  | SdkCreateDeploy "string option" string string "filerecord list" "bool option"
  | SdkPresignFiles "string option" string "(string \<times> string) list"
  | SdkUploadPresignedFile string string
  | SdkActivateDeploy string
  | SdkIsDeployActive string
  | Sleep nat
  | Archive string string
  | FsReadFile string
  | FsWriteJson cfgpath config

text \<open>
  The calls of the remote service are the events that go over the network.
\<close>

fun isNetworkCall :: "event \<Rightarrow> bool" where
  "isNetworkCall (SdkWhoami _) = True"
| "isNetworkCall SdkSites = True"
| "isNetworkCall (SdkCreateDeploy _ _ _ _ _) = True"
| "isNetworkCall (SdkPresignFiles _ _ _) = True"
| "isNetworkCall (SdkUploadPresignedFile _ _) = True"
| "isNetworkCall (SdkActivateDeploy _) = True"
| "isNetworkCall (SdkIsDeployActive _) = True"
| "isNetworkCall _ = False"

text \<open>
  The state of a \<open>Deploy\<close> object and of the files it touches: the fields \<open>siteId\<close> and
  \<open>sdk\<close> (the client is identified by the token it was built with; \<open>None\<close> is \<open>null\<close>),
  the two configuration files, the content of the other files by path, and the trace.
\<close>

record dstate =
  siteId :: "string option"
  sdk :: "string option"
  webinyConfig :: cfgfile
  projectConfig :: cfgfile
  fsFiles :: "string \<Rightarrow> string option"
  trace :: "event list"

text \<open>
  The collaborators. The operations of the remote service answer as functions of their
  arguments; \<open>isDeployActive\<close> also gets the number of times the deploy was polled
  before, and \<open>whoami\<close> the number of earlier calls of \<open>whoami\<close>, so that their answers
  can change from one request to the next; \<open>getFileHash\<close> gets the content the file has
  when it is called. \<open>tokenAnswers\<close> is what the person types
  at the token prompt, one entry per attempt, and \<open>siteAnswer\<close> the position chosen in the
  list of sites.
\<close>

record world =
  WEBINY_ACCESS_TOKEN :: "string option"
  WEBINY_SITE_ID :: "string option"
  tempdir :: string
  listPackages :: "jserror + package list"
  execa :: "string \<Rightarrow> string \<Rightarrow> (string \<times> string) list \<Rightarrow> jserror + unit"
  archiver :: "string \<Rightarrow> archevent list"
  tokenAnswers :: "string list"
  siteAnswer :: nat
  sdk_whoami :: "string \<Rightarrow> nat \<Rightarrow> jserror + string option"
  sdk_sites :: "jserror + site list"
  sdk_getFilesDigest :: "string \<Rightarrow> jserror + filerecord list"
  sdk_getFileHash :: "string \<Rightarrow> string option \<Rightarrow> jserror + string"
  sdk_createDeploy ::
    "string option \<Rightarrow> string \<Rightarrow> string \<Rightarrow> filerecord list \<Rightarrow> bool option \<Rightarrow> jserror + deployrecord"
  sdk_presignFiles ::
    "string option \<Rightarrow> string \<Rightarrow> (string \<times> string) list \<Rightarrow> jserror + presignedfile list"
  sdk_uploadPresignedFile :: "string \<Rightarrow> string \<Rightarrow> jserror + unit"
  sdk_activateDeploy :: "string \<Rightarrow> jserror + unit"
  sdk_isDeployActive :: "string \<Rightarrow> nat \<Rightarrow> jserror + activeresponse"

subsection \<open>Outcomes and sequencing\<close>

text \<open>
  A method returns a value, throws (an async method rejects), ends the process with
  \<open>process.exit(n)\<close>, or waits for a promise that never settles.
\<close>

datatype 'a outcome = Return 'a | Throw jserror | Exit nat | Hang

type_synonym 'a prog = "dstate \<Rightarrow> 'a outcome \<times> dstate"

definition ret :: "'a \<Rightarrow> 'a prog" where
  "ret a s = (Return a, s)"

definition throw :: "jserror \<Rightarrow> 'a prog" where
  "throw e s = (Throw e, s)"

definition exit :: "nat \<Rightarrow> 'a prog" where
  "exit n s = (Exit n, s)"

definition hang :: "'a prog" where
  "hang s = (Hang, s)"

definition andThen :: "'a prog \<Rightarrow> ('a \<Rightarrow> 'b prog) \<Rightarrow> 'b prog" where
  "andThen m f s =
     (case m s of
        (Return a, s') \<Rightarrow> f a s'
      | (Throw e, s') \<Rightarrow> (Throw e, s')
      | (Exit n, s') \<Rightarrow> (Exit n, s')
      | (Hang, s') \<Rightarrow> (Hang, s'))"

text \<open>\<open>try { m } catch (err) { h err }\<close>: only a throw reaches the handler.\<close>

definition tryCatch :: "'a prog \<Rightarrow> (jserror \<Rightarrow> 'a prog) \<Rightarrow> 'a prog" where
  "tryCatch m h s =
     (case m s of
        (Throw e, s') \<Rightarrow> h e s'
      | r \<Rightarrow> r)"

definition emit :: "event \<Rightarrow> unit prog" where
  "emit e s = (Return (), s\<lparr>trace := trace s @ [e]\<rparr>)"

text \<open>Awaiting a promise that settled with an error or a value.\<close>

definition await :: "jserror + 'a \<Rightarrow> 'a prog" where
  "await r = (case r of Inl e \<Rightarrow> throw e | Inr a \<Rightarrow> ret a)"

text \<open>A line of the logger; the colours that \<open>chalk\<close> adds to a message are left out.\<close>

definition logger :: "level \<Rightarrow> string \<Rightarrow> unit prog" where
  "logger l msg = emit (Log l msg)"

text \<open>
  A call \<open>this.sdk.op(...)\<close>: with no client (\<open>this.sdk\<close> is \<open>null\<close>) the member access
  throws, otherwise the call is recorded and its answer awaited.
\<close>

definition sdkCall :: "string \<Rightarrow> (string \<Rightarrow> event) \<Rightarrow> (string \<Rightarrow> jserror + 'a) \<Rightarrow> 'a prog" where
  "sdkCall opname ev answer s =
     (case sdk s of
        None \<Rightarrow> throw (typeError opname) s
      | Some tok \<Rightarrow> andThen (emit (ev tok)) (\<lambda>_. await (answer tok)) s)"

text \<open>JavaScript truthiness of a string that may be \<open>undefined\<close> or \<open>null\<close>.\<close>

fun truthy :: "string option \<Rightarrow> bool" where
  "truthy None = False"
| "truthy (Some v) = (v \<noteq> [])"

text \<open>\<open>path.join(a, b)\<close> for the two places where the class uses it.\<close>

definition path_join :: "string \<Rightarrow> string \<Rightarrow> string" where
  "path_join a b = a @ ''/'' @ b"

subsection \<open>Configuration files\<close>

definition readJson :: "cfgpath \<Rightarrow> dstate \<Rightarrow> cfgfile" where
  "readJson p s = (case p of WebinyConfigPath \<Rightarrow> webinyConfig s | ProjectConfigPath \<Rightarrow> projectConfig s)"

text \<open>
  \<open>fs.ensureFileSync(p)\<close> creates an empty file when there is none, which then reads
  as \<open>null\<close>; \<open>fs.writeJsonSync(p, config)\<close> replaces the content.
\<close>

definition ensureFile :: "cfgpath \<Rightarrow> unit prog" where
  "ensureFile p s =
     (case p of
        WebinyConfigPath \<Rightarrow>
          (Return (), if webinyConfig s = None then s\<lparr>webinyConfig := Some None\<rparr> else s)
      | ProjectConfigPath \<Rightarrow>
          (Return (), if projectConfig s = None then s\<lparr>projectConfig := Some None\<rparr> else s))"

definition writeJson :: "cfgpath \<Rightarrow> config \<Rightarrow> unit prog" where
  "writeJson p c s =
     (case p of
        WebinyConfigPath \<Rightarrow>
          (Return (), s\<lparr>webinyConfig := Some (Some c), trace := trace s @ [FsWriteJson p c]\<rparr>)
      | ProjectConfigPath \<Rightarrow>
          (Return (), s\<lparr>projectConfig := Some (Some c), trace := trace s @ [FsWriteJson p c]\<rparr>))"

definition getAccessToken :: "world \<Rightarrow> dstate \<Rightarrow> string option" where
  "getAccessToken w s =
     (if truthy (WEBINY_ACCESS_TOKEN w) then WEBINY_ACCESS_TOKEN w
      else case readJson WebinyConfigPath s of
             None \<Rightarrow> None
           | Some None \<Rightarrow> None
           | Some (Some config) \<Rightarrow> map_of config ''accessToken'')"

definition getSiteId :: "world \<Rightarrow> dstate \<Rightarrow> string option" where
  "getSiteId w s =
     (if truthy (WEBINY_SITE_ID w) then WEBINY_SITE_ID w
      else case readJson ProjectConfigPath s of
             None \<Rightarrow> None
           | Some None \<Rightarrow> None
           | Some (Some config) \<Rightarrow> map_of config ''siteId'')"

definition storeAccessToken :: "string \<Rightarrow> unit prog" where
  "storeAccessToken accessToken =
     andThen (ensureFile WebinyConfigPath) (\<lambda>_ s.
       (let config = (case readJson WebinyConfigPath s of Some (Some c) \<Rightarrow> c | _ \<Rightarrow> [])
        in writeJson WebinyConfigPath (AList.update ''accessToken'' accessToken config) s))"

definition storeSiteId :: "string \<Rightarrow> unit prog" where
  "storeSiteId sid =
     andThen (ensureFile ProjectConfigPath) (\<lambda>_ s.
       (let config = (case readJson ProjectConfigPath s of Some (Some c) \<Rightarrow> c | _ \<Rightarrow> [])
        in writeJson ProjectConfigPath (AList.update ''siteId'' sid config) s))"

subsection \<open>Credentials and the client\<close>

definition validateCiRequirements :: "world \<Rightarrow> unit prog" where
  "validateCiRequirements w =
     andThen
       (if \<not> truthy (WEBINY_ACCESS_TOKEN w)
        then andThen (logger LError ''WEBINY_ACCESS_TOKEN is not set!'') (\<lambda>_. exit 1)
        else ret ())
       (\<lambda>_. if \<not> truthy (WEBINY_SITE_ID w)
            then andThen (logger LError ''WEBINY_SITE_ID is not set!'') (\<lambda>_. exit 1)
            else ret ())"

definition checkNetworkError :: "jserror \<Rightarrow> unit prog" where
  "checkNetworkError err =
     (if err_code err = Some ''ECONNREFUSED''
      then andThen (logger LError (err_message err)) (\<lambda>_. exit 1)
      else ret ())"

definition instantiateSDK :: "string \<Rightarrow> unit prog" where
  "instantiateSDK accessToken s = (Return (), s\<lparr>sdk := Some accessToken\<rparr>)"

definition howToCreateAToken :: "unit prog" where
  "howToCreateAToken =
     logger LInfo
       ''To create a token, log into your Webiny account and create a token in the account settings.''"

text \<open>The white space that \<open>String.prototype.trim\<close> removes, within ASCII.\<close>

definition isSpace :: "char \<Rightarrow> bool" where
  "isSpace c = (c \<in> {CHR '' '', CHR 0x09, CHR 0x0A, CHR 0x0B, CHR 0x0C, CHR 0x0D})"

definition trim :: "string \<Rightarrow> string" where
  "trim x = rev (dropWhile isSpace (rev (dropWhile isSpace x)))"

text \<open>
  \<open>this.sdk.whoami()\<close>: a fresh request with the token of the client; the service sees
  how many requests of this kind came before.
\<close>

fun isWhoami :: "event \<Rightarrow> bool" where
  "isWhoami (SdkWhoami tok) = True"
| "isWhoami e = False"

definition whoamiCount :: "dstate \<Rightarrow> nat" where
  "whoamiCount s = length (filter isWhoami (trace s))"

definition whoami :: "world \<Rightarrow> string option prog" where
  "whoami w s = sdkCall ''whoami'' SdkWhoami (\<lambda>tok. sdk_whoami w tok (whoamiCount s)) s"

text \<open>
  The function \<open>validate\<close> of the token prompt; \<open>False\<close> stands for the two messages it can
  return instead of \<open>true\<close>.
\<close>

definition validateToken :: "world \<Rightarrow> string \<Rightarrow> bool prog" where
  "validateToken w accessToken =
     (if trim accessToken = [] then ret False
      else
        andThen (instantiateSDK accessToken) (\<lambda>_.
        andThen (emit (UiBottomBar ''Verifying token...'')) (\<lambda>_.
        andThen (whoami w) (\<lambda>user.
          if \<not> truthy user then ret False else ret True))))"

text \<open>
  The token prompt. The prompt library calls \<open>validate\<close> on what was typed and asks again
  until \<open>validate\<close> returns \<open>true\<close>: a message returned by \<open>validate\<close> and a rejection of
  \<open>validate\<close> both make the answer invalid. The answer of the prompt is the accepted
  input; when the person stops typing before any input was accepted, the promise of the
  prompt never settles.
\<close>

primrec askForToken :: "world \<Rightarrow> string list \<Rightarrow> string prog" where
  "askForToken w [] = hang"
| "askForToken w (accessToken # later) =
     andThen (emit (PromptToken accessToken)) (\<lambda>_.
     andThen (tryCatch (validateToken w accessToken) (\<lambda>err. ret False)) (\<lambda>accepted.
       if accepted then ret accessToken else askForToken w later))"

definition ensureToken :: "world \<Rightarrow> unit prog" where
  "ensureToken w =
     andThen (askForToken w (tokenAnswers w)) (\<lambda>accessToken. storeAccessToken accessToken)"

text \<open>
  The site prompt: the choices are computed from \<open>sdk.sites()\<close>, each with the label
  \<open>name (customHostname || freeHostname)\<close> and the site's id as its value.
\<close>

definition siteChoice :: "site \<Rightarrow> string \<times> string" where
  "siteChoice st =
     (site_name st @ '' ('' @
        (if truthy (site_customHostname st) then the (site_customHostname st)
         else case site_freeHostname st of None \<Rightarrow> ''undefined'' | Some h \<Rightarrow> h) @ '')'',
      site_id st)"

definition askForSite :: "world \<Rightarrow> string prog" where
  "askForSite w =
     andThen (sdkCall ''sites'' (\<lambda>_. SdkSites) (\<lambda>_. sdk_sites w)) (\<lambda>sites.
       (let choices = map siteChoice sites in
        andThen (emit (PromptSite choices)) (\<lambda>_.
          if siteAnswer w < length choices then ret (snd (choices ! siteAnswer w))
          else hang)))"

definition setupSDK :: "world \<Rightarrow> unit prog" where
  "setupSDK w =
     tryCatch
       (\<lambda>s. (let accessToken = getAccessToken w s in
             if \<not> truthy accessToken then
               andThen
                 (logger LLog ''You are not logged in! Please enter your Personal Access Token.'')
                 (\<lambda>_. andThen howToCreateAToken (\<lambda>_. ensureToken w)) s
             else
               andThen (instantiateSDK (the accessToken)) (\<lambda>_.
               andThen (whoami w) (\<lambda>user.
                 if \<not> truthy user then
                   andThen (logger LError ''The existing token is invalid!'') (\<lambda>_.
                   andThen howToCreateAToken (\<lambda>_. ensureToken w))
                 else ret ())) s))
       (\<lambda>err. checkNetworkError err)"

subsection \<open>Polling for activation\<close>

definition sleep :: "nat \<Rightarrow> unit prog" where
  "sleep millis = emit (Sleep millis)"

definition pollCount :: "string \<Rightarrow> dstate \<Rightarrow> nat" where
  "pollCount did s = length (filter (\<lambda>e. e = SdkIsDeployActive did) (trace s))"

definition isDeployActive :: "world \<Rightarrow> string \<Rightarrow> activeresponse prog" where
  "isDeployActive w did s =
     sdkCall ''isDeployActive'' (\<lambda>_. SdkIsDeployActive did)
       (\<lambda>_. sdk_isDeployActive w did (pollCount did s)) s"

text \<open>
  The loop \<open>for (let i = 0; i < 10; i++)\<close> of \<open>waitTillActive\<close>; the numeric argument is
  the number of rounds that are left, \<open>10 - i\<close>.
\<close>

primrec waitRounds :: "world \<Rightarrow> deployrecord \<Rightarrow> nat \<Rightarrow> string option prog" where
  "waitRounds w deploy 0 = ret None"
| "waitRounds w deploy (Suc left) =
     andThen (sleep 5000) (\<lambda>_.
     andThen (isDeployActive w (d_id deploy)) (\<lambda>r.
       if r_active r then ret (r_url r) else waitRounds w deploy left))"

definition waitTillActive :: "world \<Rightarrow> deployrecord \<Rightarrow> string option prog" where
  "waitTillActive w deploy = waitRounds w deploy 10"

subsection \<open>Building and archiving\<close>

definition runExeca :: "world \<Rightarrow> string \<Rightarrow> string \<Rightarrow> (string \<times> string) list \<Rightarrow> unit prog" where
  "runExeca w script cwd env =
     andThen (emit (Execa script cwd env)) (\<lambda>_. await (execa w script cwd env))"

text \<open>
  \<open>ensureBuild(pkg)\<close>; \<open>pkg\<close> is \<open>undefined\<close> (\<open>None\<close>) when \<open>packages.find\<close> found nothing,
  and then reading \<open>pkg.root\<close> throws.
\<close>

definition ensureBuild :: "world \<Rightarrow> package option \<Rightarrow> unit prog" where
  "ensureBuild w pkgo =
     andThen (logger LInfo ''Running build...'') (\<lambda>_.
       case pkgo of
         None \<Rightarrow> throw (typeError ''root'')
       | Some pkg \<Rightarrow>
           andThen
             (runExeca w ''build'' (pkg_root pkg)
                (AList.update ''REACT_APP_ENV'' ''browser'' (pkg_env pkg))) (\<lambda>_.
             if pkg_ssr pkg then
               andThen
                 (if \<not> truthy (map_of (pkg_scripts pkg) ''build:ssr'')
                  then
                    andThen
                      (logger LError
                         (pkg_name pkg @ '' doesn't have a script '' @ [CHR 0x22] @ ''build:ssr''
                          @ [CHR 0x22] @ ''! This script is mandatory for SSR enabled apps.''))
                      (\<lambda>_. exit 1)
                  else ret ())
                 (\<lambda>_. runExeca w ''build:ssr'' (pkg_root pkg)
                         (AList.update ''REACT_APP_ENV'' ''ssr'' (pkg_env pkg)))
             else ret ()))"

fun showNat :: "nat \<Rightarrow> string" where
  "showNat n =
     (if n < 10 then [''0123456789'' ! n] else showNat (n div 10) @ [''0123456789'' ! (n mod 10)])"

declare showNat.simps [simp del]

definition writeFile :: "string \<Rightarrow> string \<Rightarrow> unit prog" where
  "writeFile path content s = (Return (), s\<lparr>fsFiles := (fsFiles s)(path := Some content)\<rparr>)"

text \<open>
  The handlers that \<open>createZip\<close> installs, run on the events of the archiver in order.
  The promise resolves when the output closes (the archive is then on disk) and rejects
  on an error or on a warning other than \<open>ENOENT\<close>; when neither happens it stays
  pending.
\<close>

primrec archiveEvents :: "string \<Rightarrow> archevent list \<Rightarrow> unit prog" where
  "archiveEvents outputPath [] = hang"
| "archiveEvents outputPath (ev # later) =
     (case ev of
        ArchWarning err \<Rightarrow>
          if err_code err = Some ''ENOENT''
          then andThen (logger LInfo (err_message err)) (\<lambda>_. archiveEvents outputPath later)
          else andThen (logger LError (err_message err)) (\<lambda>_. throw err)
      | ArchError err \<Rightarrow> andThen (logger LError (err_message err)) (\<lambda>_. throw err)
      | ArchProgress processed ntotal \<Rightarrow>
          andThen
            (logger LLog (''Processing files '' @ showNat processed @ ''/'' @ showNat ntotal @ ''...''))
            (\<lambda>_. archiveEvents outputPath later)
      | ArchClose content \<Rightarrow>
          andThen (writeFile outputPath content) (\<lambda>_.
            logger LSuccess ''Function archive created!''))"

definition createZip :: "world \<Rightarrow> string \<Rightarrow> string \<Rightarrow> unit prog" where
  "createZip w folderToZip outputPath =
     andThen (emit (Archive folderToZip outputPath)) (\<lambda>_.
       archiveEvents outputPath (archiver w folderToZip))"

subsection \<open>Uploading\<close>

definition readFile :: "string \<Rightarrow> (jserror + string) prog" where
  "readFile path s =
     (Return (case fsFiles s path of
                None \<Rightarrow> Inl (JsError (Some ''ENOENT'') (''ENOENT: no such file or directory, open '' @ path))
              | Some content \<Rightarrow> Inr content),
      s\<lparr>trace := trace s @ [FsReadFile path]\<rparr>)"

text \<open>\<open>Promise.all\<close> on settled promises: all values, or the first rejection.\<close>

primrec promiseAll :: "(jserror + 'a) list \<Rightarrow> jserror + 'a list" where
  "promiseAll [] = Inr []"
| "promiseAll (r # rs) =
     (case r of
        Inl e \<Rightarrow> Inl e
      | Inr a \<Rightarrow> (case promiseAll rs of Inl e \<Rightarrow> Inl e | Inr as \<Rightarrow> Inr (a # as)))"

text \<open>
  The first \<open>map\<close> of \<open>uploadFiles\<close> calls its callback on every presigned file. A callback
  whose lookup \<open>files.find(...)\<close> finds nothing throws on \<open>.abs\<close> before it reads
  anything; the others start reading their file. \<open>startReads\<close> gives the settled reads,
  \<open>lookupMisses\<close> says whether some callback threw at once. Completions are taken in the
  order of the list.
\<close>

definition localFile :: "filerecord list \<Rightarrow> presignedfile \<Rightarrow> filerecord option" where
  "localFile files file = find (\<lambda>f. f_key f = p_key file) files"

primrec startReads ::
  "filerecord list \<Rightarrow> presignedfile list \<Rightarrow> (jserror + presignedfile \<times> string) list prog" where
  "startReads files [] = ret []"
| "startReads files (file # later) =
     (case localFile files file of
        None \<Rightarrow> startReads files later
      | Some f \<Rightarrow>
          andThen (readFile (f_abs f)) (\<lambda>content.
          andThen (startReads files later) (\<lambda>rs.
            ret (map_sum id (Pair file) content # rs))))"

definition lookupMisses :: "filerecord list \<Rightarrow> presignedfile list \<Rightarrow> bool" where
  "lookupMisses files presignedFiles =
     list_ex (\<lambda>file. localFile files file = None) presignedFiles"

text \<open>The promise of an async callback: a throw becomes a rejection.\<close>

definition settle :: "'a prog \<Rightarrow> (jserror + 'a) prog" where
  "settle m s =
     (case m s of
        (Return a, s') \<Rightarrow> (Return (Inr a), s')
      | (Throw e, s') \<Rightarrow> (Return (Inl e), s')
      | (Exit n, s') \<Rightarrow> (Exit n, s')
      | (Hang, s') \<Rightarrow> (Hang, s'))"

text \<open>
  The second \<open>map\<close> of \<open>uploadFiles\<close> calls \<open>uploadPresignedFile\<close> for every prepared file
  before any of the calls has finished; \<open>startUploads\<close> gives the settled calls. The
  callbacks then go on after their \<open>await\<close>, and each call that succeeded logs the key
  of its file.
\<close>

primrec startUploads :: "world \<Rightarrow> (presignedfile \<times> string) list \<Rightarrow> (jserror + unit) list prog" where
  "startUploads w [] = ret []"
| "startUploads w (fc # later) =
     andThen
       (settle
          (sdkCall ''uploadPresignedFile''
             (\<lambda>_. SdkUploadPresignedFile (p_presigned (fst fc)) (snd fc))
             (\<lambda>_. sdk_uploadPresignedFile w (p_presigned (fst fc)) (snd fc)))) (\<lambda>r.
     andThen (startUploads w later) (\<lambda>rs. ret (r # rs)))"

primrec finishUploads :: "((presignedfile \<times> string) \<times> (jserror + unit)) list \<Rightarrow> unit prog" where
  "finishUploads [] = ret ()"
| "finishUploads (x # later) =
     andThen
       (case snd x of
          Inl e \<Rightarrow> ret ()
        | Inr u \<Rightarrow> logger LSuccess (p_key (fst (fst x))))
       (\<lambda>_. finishUploads later)"

definition requiredFiles :: "deployrecord \<Rightarrow> (string \<times> string) list" where
  "requiredFiles deploy = map (\<lambda>f. (df_key f, df_type f)) (filter df_required (d_files deploy))"

text \<open>The \<open>catch\<close> block of \<open>uploadFiles\<close>: \<open>this.checkNetworkError(err); throw err;\<close>\<close>

definition onUploadError :: "jserror \<Rightarrow> unit prog" where
  "onUploadError err = andThen (checkNetworkError err) (\<lambda>_. throw err)"

definition uploadFiles :: "world \<Rightarrow> deployrecord \<Rightarrow> filerecord list \<Rightarrow> unit prog" where
  "uploadFiles w deploy files =
     tryCatch
       (andThen
          (\<lambda>s. sdkCall ''presignFiles''
                 (\<lambda>_. SdkPresignFiles (siteId s) (d_id deploy) (requiredFiles deploy))
                 (\<lambda>_. sdk_presignFiles w (siteId s) (d_id deploy) (requiredFiles deploy)) s)
          (\<lambda>presignedFiles.
       andThen (startReads files presignedFiles) (\<lambda>reads.
       andThen
          (if lookupMisses files presignedFiles then throw (typeError ''abs'')
           else await (promiseAll reads)) (\<lambda>filesToUpload.
       andThen (startUploads w filesToUpload) (\<lambda>uploads.
       andThen (finishUploads (zip filesToUpload uploads)) (\<lambda>_.
       andThen (await (promiseAll uploads)) (\<lambda>_. ret ())))))))
       onUploadError"

subsection \<open>Deploying one package\<close>

text \<open>
  The \<open>catch\<close> block that \<open>deployApp\<close> and \<open>deployFunction\<close> share: only the error code
  \<open>NO_CHANGES_DETECTED\<close> lets the method return \<open>null\<close>.
\<close>

definition onCreateError :: "jserror \<Rightarrow> deployrecord option prog" where
  "onCreateError err =
     andThen (checkNetworkError err) (\<lambda>_.
     andThen (logger LInfo (err_message err)) (\<lambda>_.
       if err_code err \<noteq> Some ''NO_CHANGES_DETECTED'' then exit 1 else ret None))"

definition createDeploy ::
  "world \<Rightarrow> package \<Rightarrow> filerecord list \<Rightarrow> bool option \<Rightarrow> deployrecord prog" where
  "createDeploy w pkg files opts s =
     sdkCall ''createDeploy''
       (\<lambda>_. SdkCreateDeploy (siteId s) (pkg_type pkg) (pkg_path pkg) files opts)
       (\<lambda>_. sdk_createDeploy w (siteId s) (pkg_type pkg) (pkg_path pkg) files opts) s"

definition deployApp :: "world \<Rightarrow> package \<Rightarrow> deployrecord option prog" where
  "deployApp w pkg =
     (let buildPath = path_join (pkg_root pkg) ''build'' in
      andThen (logger LLog ''Preparing deploy files...'') (\<lambda>_.
      andThen
        (sdkCall ''getFilesDigest'' (\<lambda>_. SdkGetFilesDigest buildPath)
           (\<lambda>_. sdk_getFilesDigest w buildPath)) (\<lambda>files.
      andThen (logger LLog ''Creating a new deploy...'') (\<lambda>_.
        tryCatch
          (andThen (createDeploy w pkg files (Some (pkg_ssr pkg))) (\<lambda>deploy.
           andThen
             (logger LLog ''Uploading files (only new and modified files will be uploaded)...'')
             (\<lambda>_.
           andThen (uploadFiles w deploy files) (\<lambda>_. ret (Some deploy)))))
          onCreateError))))"

definition getFileHash :: "world \<Rightarrow> string \<Rightarrow> string prog" where
  "getFileHash w path s =
     sdkCall ''getFileHash'' (\<lambda>_. SdkGetFileHash path)
       (\<lambda>_. sdk_getFileHash w path (fsFiles s path)) s"

definition deployFunction :: "world \<Rightarrow> package \<Rightarrow> deployrecord option prog" where
  "deployFunction w pkg =
     (let buildPath = path_join (pkg_root pkg) ''build'' in
      andThen (logger LLog ''Preparing deploy files...'') (\<lambda>_.
        (let zipFile = path_join (tempdir w) ''function.zip'' in
         andThen (createZip w buildPath zipFile) (\<lambda>_.
         andThen (logger LLog ''Creating a new deploy...'') (\<lambda>_.
           tryCatch
             (andThen (getFileHash w zipFile) (\<lambda>zipHash.
                (let files =
                   [\<lparr>f_key = ''function.zip'', f_hash = zipHash, f_abs = zipFile,
                     f_type = ''application/zip''\<rparr>]
                 in
                 andThen (createDeploy w pkg files None) (\<lambda>deploy.
                 andThen (logger LLog ''Uploading function...'') (\<lambda>_.
                 andThen (uploadFiles w deploy files) (\<lambda>_. ret (Some deploy)))))))
             onCreateError)))))"

definition deployPackage :: "world \<Rightarrow> package option \<Rightarrow> deployrecord option prog" where
  "deployPackage w pkgo =
     andThen
       (tryCatch (ensureBuild w pkgo)
          (\<lambda>err. andThen (logger LError (err_message err)) (\<lambda>_. exit 1))) (\<lambda>_.
       case pkgo of
         None \<Rightarrow> throw (typeError ''type'')
       | Some pkg \<Rightarrow> if pkg_type pkg = ''app'' then deployApp w pkg else deployFunction w pkg)"

subsection \<open>The command\<close>

definition activationFailed :: string where
  "activationFailed =
     ''Deploy activation failed. Please retry your deploy one more time, then contact Webiny support.''"

definition activateDeploy :: "world \<Rightarrow> string \<Rightarrow> unit prog" where
  "activateDeploy w did =
     sdkCall ''activateDeploy'' (\<lambda>_. SdkActivateDeploy did) (\<lambda>_. sdk_activateDeploy w did)"

text \<open>
  The object \<open>deploys\<close> of the batch branch is an association list from package names to
  deploy records, in the order in which the names were first stored.
\<close>

type_synonym deploys = "(string \<times> deployrecord) list"

text \<open>
  \<open>Object.keys\<close> and \<open>Object.values\<close> of such an object: first the names that are
  written like an array index (a decimal number below \<open>2^32 - 1\<close> with no leading zero),
  by increasing number, then the other names in the order in which they were stored.
\<close>

definition digitValue :: "char \<Rightarrow> nat" where
  "digitValue c = length (takeWhile (\<lambda>d. d \<noteq> c) ''0123456789'')"

definition indexValue :: "string \<Rightarrow> nat" where
  "indexValue k = foldl (\<lambda>n c. 10 * n + digitValue c) 0 k"

definition isArrayIndex :: "string \<Rightarrow> bool" where
  "isArrayIndex k =
     (k \<noteq> [] \<and> list_all (\<lambda>c. c \<in> set ''0123456789'') k
      \<and> (k = ''0'' \<or> hd k \<noteq> CHR ''0'') \<and> indexValue k < 4294967295)"

definition objectKeys :: "(string \<times> 'a) list \<Rightarrow> string list" where
  "objectKeys obj =
     sort_key indexValue (filter isArrayIndex (map fst obj))
     @ filter (\<lambda>k. \<not> isArrayIndex k) (map fst obj)"

definition objectValues :: "(string \<times> 'a) list \<Rightarrow> 'a list" where
  "objectValues obj = List.map_filter (map_of obj) (objectKeys obj)"

text \<open>
  The assignment \<open>deploys[name] = deploy\<close>. On a plain object the name \<open>__proto__\<close> is the
  accessor of the prototype, so that assigning to it stores no property of the object.
\<close>

definition storeDeploy :: "string \<Rightarrow> deployrecord \<Rightarrow> deploys \<Rightarrow> deploys" where
  "storeDeploy name d deploys =
     (if name = ''__proto__'' then deploys else AList.update name d deploys)"

text \<open>The first loop of the batch branch, over \<open>packages\<close>.\<close>

primrec createDeploys :: "world \<Rightarrow> package list \<Rightarrow> deploys \<Rightarrow> deploys prog" where
  "createDeploys w [] deploys = ret deploys"
| "createDeploys w (pkg # later) deploys =
     andThen (emit ConsoleLog) (\<lambda>_.
     andThen (logger LLog (''Deploying '' @ pkg_name pkg @ '' ('' @ pkg_root pkg @ '')'')) (\<lambda>_.
     andThen (deployPackage w (Some pkg)) (\<lambda>deploy.
       case deploy of
         None \<Rightarrow> createDeploys w later deploys
       | Some d \<Rightarrow> createDeploys w later (storeDeploy (pkg_name pkg) d deploys))))"

text \<open>The second loop, over \<open>folders = Object.keys(deploys)\<close>.\<close>

primrec activateDeploys :: "world \<Rightarrow> string list \<Rightarrow> deploys \<Rightarrow> deploys prog" where
  "activateDeploys w [] deploys = ret deploys"
| "activateDeploys w (folder # later) deploys =
     (case map_of deploys folder of
        None \<Rightarrow> throw (typeError ''id'')
      | Some deploy \<Rightarrow>
          andThen (logger LLog (''Activating '' @ folder @ ''...'')) (\<lambda>_.
          andThen (activateDeploy w (d_id deploy)) (\<lambda>_.
          andThen (waitTillActive w deploy) (\<lambda>url.
            if \<not> truthy url
            then andThen (logger LError activationFailed) (\<lambda>_. exit 1)
            else activateDeploys w later
                   (AList.update folder (deploy\<lparr>d_url := url\<rparr>) deploys)))))"

primrec logUrls :: "deployrecord list \<Rightarrow> unit prog" where
  "logUrls [] = ret ()"
| "logUrls (deploy # later) =
     andThen (logger LLog (case d_url deploy of None \<Rightarrow> ''undefined'' | Some u \<Rightarrow> u))
       (\<lambda>_. logUrls later)"

definition deploySingle :: "world \<Rightarrow> string \<Rightarrow> package list \<Rightarrow> unit prog" where
  "deploySingle w name packages =
     (let pkg = find (\<lambda>p. pkg_name p = name) packages in
      andThen (deployPackage w pkg) (\<lambda>deploy.
        case deploy of
          None \<Rightarrow> ret ()
        | Some deploy \<Rightarrow>
            andThen (logger LLog ''Activating new deploy...\<newline>'') (\<lambda>_.
            andThen (activateDeploy w (d_id deploy)) (\<lambda>_.
            andThen (waitTillActive w deploy) (\<lambda>url.
            andThen
              (if \<not> truthy url
               then andThen (logger LError activationFailed) (\<lambda>_. exit 1)
               else ret ()) (\<lambda>_.
            andThen (logger LSuccess ''Deploy completed!\<newline>'') (\<lambda>_.
              logger LInfo (''Open '' @ the url @ '' to see your newly deployed app!''))))))))"

definition deployBatch :: "world \<Rightarrow> package list \<Rightarrow> unit prog" where
  "deployBatch w packages =
     andThen (createDeploys w packages []) (\<lambda>deploys.
     andThen (if objectKeys deploys = [] then exit 0 else ret ()) (\<lambda>_.
     andThen (logger LSuccess ''Deploys created successfully!'') (\<lambda>_.
     andThen (activateDeploys w (objectKeys deploys) deploys) (\<lambda>deploys.
     andThen (logger LSuccess ''Deploy process completed!\<newline>'') (\<lambda>_.
     andThen (logger LInfo ''Your apps/functions were deployed to these URLs:'') (\<lambda>_.
     andThen (logUrls (objectValues deploys)) (\<lambda>_. exit 0)))))))"

text \<open>
  \<open>deploy({ name, ...opts })\<close>, with \<open>ci\<close> the truth value of \<open>opts.ci\<close>.
\<close>

definition deploy :: "world \<Rightarrow> string option \<Rightarrow> bool \<Rightarrow> unit prog" where
  "deploy w name ci =
     andThen (if ci then validateCiRequirements w else ret ()) (\<lambda>_.
     andThen (setupSDK w) (\<lambda>_.
     andThen (\<lambda>s. (Return (), s\<lparr>siteId := getSiteId w s\<rparr>)) (\<lambda>_.
     andThen
       (\<lambda>s. if \<not> truthy (siteId s)
            then andThen (askForSite w) (\<lambda>sid.
                 andThen (\<lambda>s. (Return (), s\<lparr>siteId := Some sid\<rparr>)) (\<lambda>_. storeSiteId sid)) s
            else ret () s) (\<lambda>_.
     andThen (andThen (emit ListPackages) (\<lambda>_. await (listPackages w))) (\<lambda>packages.
       if truthy name then deploySingle w (the name) packages
       else deployBatch w packages)))))"

text \<open>A fresh \<open>Deploy\<close> object on a machine with the given files.\<close>

definition initial :: "cfgfile \<Rightarrow> cfgfile \<Rightarrow> (string \<Rightarrow> string option) \<Rightarrow> dstate" where
  "initial wc pc files =
     \<lparr>siteId = None, sdk = None, webinyConfig = wc, projectConfig = pc, fsFiles = files,
      trace = []\<rparr>"

subsection \<open>Reading a trace\<close>

text \<open>The time a trace spends sleeping, in milliseconds.\<close>

primrec sleptMillis :: "event list \<Rightarrow> nat" where
  "sleptMillis [] = 0"
| "sleptMillis (e # es) = (case e of Sleep n \<Rightarrow> n | _ \<Rightarrow> 0) + sleptMillis es"

text \<open>
  Every call of \<open>isDeployActive\<close> in the trace comes directly after a sleep of \<open>ms\<close>
  milliseconds; \<open>prev\<close> is the event before the trace.
\<close>

primrec pollsFollowSleep :: "nat \<Rightarrow> event option \<Rightarrow> event list \<Rightarrow> bool" where
  "pollsFollowSleep ms prev [] = True"
| "pollsFollowSleep ms prev (e # es) =
     ((case e of SdkIsDeployActive _ \<Rightarrow> prev = Some (Sleep ms) | _ \<Rightarrow> True)
      \<and> pollsFollowSleep ms (Some e) es)"

text \<open>The lists of files for which presigned targets are requested in a trace.\<close>

primrec presignRequests :: "event list \<Rightarrow> (string \<times> string) list list" where
  "presignRequests [] = []"
| "presignRequests (e # es) =
     (case e of SdkPresignFiles sid did required \<Rightarrow> [required] | _ \<Rightarrow> []) @ presignRequests es"

text \<open>The uploads in a trace, as pairs of target and content.\<close>

primrec uploadsOf :: "event list \<Rightarrow> (string \<times> string) list" where
  "uploadsOf [] = []"
| "uploadsOf (e # es) =
     (case e of SdkUploadPresignedFile target content \<Rightarrow> [(target, content)] | _ \<Rightarrow> []) @ uploadsOf es"

text \<open>The configuration files written in a trace, in order.\<close>

primrec writesOf :: "event list \<Rightarrow> (cfgpath \<times> config) list" where
  "writesOf [] = []"
| "writesOf (e # es) = (case e of FsWriteJson p c \<Rightarrow> [(p, c)] | _ \<Rightarrow> []) @ writesOf es"

text \<open>The lists of files submitted to \<open>createDeploy\<close> in a trace.\<close>

primrec createDeployFiles :: "event list \<Rightarrow> filerecord list list" where
  "createDeployFiles [] = []"
| "createDeployFiles (e # es) =
     (case e of SdkCreateDeploy sid ty path files opts \<Rightarrow> [files] | _ \<Rightarrow> []) @ createDeployFiles es"

subsection \<open>Stages of a run\<close>

text \<open>
  What the first \<open>map\<close> of \<open>uploadFiles\<close> makes of a presigned file whose local file was
  found, and what is then uploaded for a list of presigned files: each target with the
  content of the local file that has the same key.
\<close>

definition readResult ::
  "filerecord list \<Rightarrow> (string \<Rightarrow> string option) \<Rightarrow> presignedfile \<Rightarrow> jserror + presignedfile \<times> string" where
  "readResult files fs file =
     (case fs (f_abs (the (localFile files file))) of
        None \<Rightarrow>
          Inl (JsError (Some ''ENOENT'')
                 (''ENOENT: no such file or directory, open '' @ f_abs (the (localFile files file))))
      | Some content \<Rightarrow> Inr (file, content))"

definition payloads ::
  "filerecord list \<Rightarrow> (string \<Rightarrow> string option) \<Rightarrow> presignedfile list \<Rightarrow> (string \<times> string) list" where
  "payloads files fs ps =
     map (\<lambda>p. (p_presigned p, the (fs (f_abs (the (localFile files p)))))) ps"

text \<open>
  Every presigned file has a local file that can be read, and the service accepts the
  upload of its content.
\<close>

definition uploadable ::
  "world \<Rightarrow> filerecord list \<Rightarrow> (string \<Rightarrow> string option) \<Rightarrow> presignedfile list \<Rightarrow> bool" where
  "uploadable w files fs ps =
     list_all
       (\<lambda>p. case localFile files p of
              None \<Rightarrow> False
            | Some f \<Rightarrow>
                (case fs (f_abs f) of
                   None \<Rightarrow> False
                 | Some content \<Rightarrow> sdk_uploadPresignedFile w (p_presigned p) content = Inr ()))
       ps"

text \<open>Every presigned file has a local file with its key that can be read.\<close>

definition readable ::
  "filerecord list \<Rightarrow> (string \<Rightarrow> string option) \<Rightarrow> presignedfile list \<Rightarrow> bool" where
  "readable files fs ps =
     list_all
       (\<lambda>p. case localFile files p of
              None \<Rightarrow> False
            | Some f \<Rightarrow> (case fs (f_abs f) of None \<Rightarrow> False | Some content \<Rightarrow> True))
       ps"

text \<open>Every presigned file has a local file with its key.\<close>

definition allMatched :: "filerecord list \<Rightarrow> presignedfile list \<Rightarrow> bool" where
  "allMatched files ps = list_all (\<lambda>file. list_ex (\<lambda>f. f_key f = p_key file) files) ps"

text \<open>Every file that the deploy marks as required has a local file with its key.\<close>

definition requiredMatched :: "filerecord list \<Rightarrow> deployrecord \<Rightarrow> bool" where
  "requiredMatched files deployRecord =
     list_all (\<lambda>kt. list_ex (\<lambda>f. f_key f = fst kt) files) (requiredFiles deployRecord)"

text \<open>The events of \<open>deployApp\<close> up to and including the call of \<open>createDeploy\<close>.\<close>

definition appPrefix :: "dstate \<Rightarrow> package \<Rightarrow> filerecord list \<Rightarrow> event list" where
  "appPrefix s pkg files =
     [Log LLog ''Preparing deploy files...'',
      SdkGetFilesDigest (path_join (pkg_root pkg) ''build''),
      Log LLog ''Creating a new deploy...'',
      SdkCreateDeploy (siteId s) (pkg_type pkg) (pkg_path pkg) files (Some (pkg_ssr pkg))]"

text \<open>
  The steps of \<open>deploy\<close> before it branches on \<open>name\<close>: the CI check, the client, the site
  id, and the discovery of the packages, which is what they return.
\<close>

definition prepare :: "world \<Rightarrow> bool \<Rightarrow> package list prog" where
  "prepare w ci =
     andThen (if ci then validateCiRequirements w else ret ()) (\<lambda>_.
     andThen (setupSDK w) (\<lambda>_.
     andThen (\<lambda>s. (Return (), s\<lparr>siteId := getSiteId w s\<rparr>)) (\<lambda>_.
     andThen
       (\<lambda>s. if \<not> truthy (siteId s)
            then andThen (askForSite w) (\<lambda>sid.
                 andThen (\<lambda>s. (Return (), s\<lparr>siteId := Some sid\<rparr>)) (\<lambda>_. storeSiteId sid)) s
            else ret () s) (\<lambda>_.
     andThen (emit ListPackages) (\<lambda>_. await (listPackages w))))))"

text \<open>
  The archive with which \<open>createZip\<close> resolves, if it does: the content at the close of
  the output, unless the archiver fails first.
\<close>

primrec archiveOf :: "archevent list \<Rightarrow> string option" where
  "archiveOf [] = None"
| "archiveOf (ev # later) =
     (case ev of
        ArchWarning err \<Rightarrow> if err_code err = Some ''ENOENT'' then archiveOf later else None
      | ArchError err \<Rightarrow> None
      | ArchProgress processed ntotal \<Rightarrow> archiveOf later
      | ArchClose content \<Rightarrow> Some content)"

text \<open>The one file record of a function deploy, for a given hash of the archive.\<close>

definition zipRecord :: "world \<Rightarrow> string \<Rightarrow> filerecord" where
  "zipRecord w zipHash =
     \<lparr>f_key = ''function.zip'', f_hash = zipHash, f_abs = path_join (tempdir w) ''function.zip'',
      f_type = ''application/zip''\<rparr>"

subsection \<open>Properties of the events of a run\<close>

text \<open>
  Running \<open>m\<close> from \<open>s\<close> only appends events with the property \<open>P\<close> to the trace;
  \<open>adds P m\<close> says so for every state.
\<close>

definition addsAt :: "(event \<Rightarrow> bool) \<Rightarrow> 'a prog \<Rightarrow> dstate \<Rightarrow> bool" where
  "addsAt P m s = (\<exists>t. trace (snd (m s)) = trace s @ t \<and> list_all P t)"

definition adds :: "(event \<Rightarrow> bool) \<Rightarrow> 'a prog \<Rightarrow> bool" where
  "adds P m = (\<forall>s. addsAt P m s)"

text \<open>An event that is not a write of a configuration file.\<close>

fun noWrite :: "event \<Rightarrow> bool" where
  "noWrite (FsWriteJson p c) = False"
| "noWrite e = True"

text \<open>
  An event that respects the environment: it is not a write of the project file while
  the site id comes from the environment, and when it is a write of the global file,
  the access token it stores was typed at the token prompt.
\<close>

definition envKept :: "world \<Rightarrow> event \<Rightarrow> bool" where
  "envKept w e =
     (case e of
        FsWriteJson p c \<Rightarrow>
          (case p of
             ProjectConfigPath \<Rightarrow> \<not> truthy (WEBINY_SITE_ID w)
           | WebinyConfigPath \<Rightarrow>
               list_ex (\<lambda>a. map_of c ''accessToken'' = Some a) (tokenAnswers w))
      | _ \<Rightarrow> True)"

text \<open>An event that is not a write of the global configuration file.\<close>

fun notGlobalWrite :: "event \<Rightarrow> bool" where
  "notGlobalWrite (FsWriteJson WebinyConfigPath c) = False"
| "notGlobalWrite e = True"

text \<open>An event that is not a call of \<open>createDeploy\<close>, and one that is not an upload either.\<close>

fun notCreate :: "event \<Rightarrow> bool" where
  "notCreate (SdkCreateDeploy sid ty path files opts) = False"
| "notCreate e = True"

fun quiet :: "event \<Rightarrow> bool" where
  "quiet (SdkCreateDeploy sid ty path files opts) = False"
| "quiet (SdkUploadPresignedFile target content) = False"
| "quiet e = True"

subsection \<open>Scenarios\<close>

text \<open>
  Concrete packages, a concrete remote service and concrete machines, on which the
  theorems below are instantiated. The service of \<open>exampleWorld\<close> always knows the token
  \<open>token-1\<close>, reports no changes for the package path \<open>/unchanged\<close>, asks for every
  file of any other deploy, and reports a deploy active from the third poll on.
\<close>

definition webApp :: package where
  "webApp =
     \<lparr>pkg_name = ''web-app'', pkg_root = ''/repo/web-app'', pkg_path = ''/'',
      pkg_type = ''app'', pkg_ssr = False, pkg_env = [], pkg_scripts = []\<rparr>"

definition unchangedApp :: package where
  "unchangedApp =
     \<lparr>pkg_name = ''unchanged-app'', pkg_root = ''/repo/unchanged-app'', pkg_path = ''/unchanged'',
      pkg_type = ''app'', pkg_ssr = False, pkg_env = [], pkg_scripts = []\<rparr>"

definition apiFn :: package where
  "apiFn =
     \<lparr>pkg_name = ''api-fn'', pkg_root = ''/repo/api-fn'', pkg_path = ''/api'',
      pkg_type = ''function'', pkg_ssr = False, pkg_env = [], pkg_scripts = []\<rparr>"

definition webAppFiles :: "filerecord list" where
  "webAppFiles =
     [\<lparr>f_key = ''index.html'', f_hash = ''a1'', f_abs = ''/repo/web-app/build/index.html'',
       f_type = ''text/html''\<rparr>,
      \<lparr>f_key = ''main.js'', f_hash = ''b2'', f_abs = ''/repo/web-app/build/main.js'',
       f_type = ''application/javascript''\<rparr>]"

definition noChanges :: jserror where
  "noChanges = JsError (Some ''NO_CHANGES_DETECTED'') ''No changes detected.''"

definition exampleWorld :: world where
  "exampleWorld =
     \<lparr>WEBINY_ACCESS_TOKEN = Some ''token-1'',
      WEBINY_SITE_ID = Some ''site-1'',
      tempdir = ''/tmp'',
      listPackages = Inr [unchangedApp, webApp],
      execa = (\<lambda>script cwd env. Inr ()),
      archiver = (\<lambda>folder. [ArchProgress 3 3, ArchClose ''zip-bytes'']),
      tokenAnswers = [],
      siteAnswer = 0,
      sdk_whoami = (\<lambda>tok n. if tok = ''token-1'' then Inr (Some ''user-1'') else Inr None),
      sdk_sites = Inr [],
      sdk_getFilesDigest = (\<lambda>path. Inr webAppFiles),
      sdk_getFileHash = (\<lambda>path content. Inr ''c3''),
      sdk_createDeploy = (\<lambda>sid ty path files opts.
         if path = ''/unchanged'' then Inl noChanges
         else Inr \<lparr>d_id = ''deploy-1'',
                   d_files = map (\<lambda>f. \<lparr>df_key = f_key f, df_type = f_type f, df_required = True\<rparr>) files,
                   d_url = None\<rparr>),
      sdk_presignFiles = (\<lambda>sid did required.
         Inr (map (\<lambda>kt. \<lparr>p_key = fst kt, p_presigned = ''https://upload/'' @ fst kt\<rparr>) required)),
      sdk_uploadPresignedFile = (\<lambda>target content. Inr ()),
      sdk_activateDeploy = (\<lambda>did. Inr ()),
      sdk_isDeployActive = (\<lambda>did n.
         Inr \<lparr>r_active = (2 \<le> n), r_url = Some ''https://web-app.example.com''\<rparr>)\<rparr>"

text \<open>The same service, except that no deploy ever becomes active.\<close>

definition neverActiveWorld :: world where
  "neverActiveWorld =
     exampleWorld\<lparr>sdk_isDeployActive := (\<lambda>did n. Inr \<lparr>r_active = False, r_url = None\<rparr>)\<rparr>"

text \<open>A CI machine on which only the access token is set.\<close>

definition ciWorld :: world where
  "ciWorld = exampleWorld\<lparr>WEBINY_SITE_ID := None\<rparr>"

text \<open>The files in the build directory of the web app.\<close>

definition exampleFiles :: "string \<Rightarrow> string option" where
  "exampleFiles =
     (\<lambda>path. if path = ''/repo/web-app/build/index.html'' then Some ''<html></html>''
             else if path = ''/repo/web-app/build/main.js'' then Some ''main();''
             else None)"

text \<open>A machine with no configuration files, before and after the client was set up.\<close>

definition freshState :: dstate where
  "freshState = initial None None exampleFiles"

definition readyState :: dstate where
  "readyState = freshState\<lparr>siteId := Some ''site-1'', sdk := Some ''token-1''\<rparr>"

definition exampleDeploy :: deployrecord where
  "exampleDeploy = \<lparr>d_id = ''deploy-1'', d_files = [], d_url = None\<rparr>"

text \<open>The same service, except that every deploy is active at once.\<close>

definition activeAtOnceWorld :: world where
  "activeAtOnceWorld =
     exampleWorld\<lparr>sdk_isDeployActive :=
       (\<lambda>did n. Inr \<lparr>r_active = True, r_url = Some ''https://web-app.example.com''\<rparr>)\<rparr>"

text \<open>A deploy of the web app of which the service only asks for \<open>index.html\<close>.\<close>

definition partialDeploy :: deployrecord where
  "partialDeploy =
     \<lparr>d_id = ''deploy-2'',
      d_files =
        [\<lparr>df_key = ''index.html'', df_type = ''text/html'', df_required = True\<rparr>,
         \<lparr>df_key = ''main.js'', df_type = ''application/javascript'', df_required = False\<rparr>],
      d_url = None\<rparr>"

text \<open>
  A service that returns presigned targets for both files of the web app, whatever it
  was asked for.
\<close>

definition eagerWorld :: world where
  "eagerWorld =
     exampleWorld\<lparr>sdk_presignFiles :=
       (\<lambda>sid did required.
          Inr [\<lparr>p_key = ''index.html'', p_presigned = ''https://upload/index.html''\<rparr>,
               \<lparr>p_key = ''main.js'', p_presigned = ''https://upload/main.js''\<rparr>])\<rparr>"

text \<open>A service that returns two presigned targets for the archive of a function.\<close>

definition doubleTargetWorld :: world where
  "doubleTargetWorld =
     exampleWorld\<lparr>sdk_presignFiles :=
       (\<lambda>sid did required.
          Inr [\<lparr>p_key = ''function.zip'', p_presigned = ''https://upload/first''\<rparr>,
               \<lparr>p_key = ''function.zip'', p_presigned = ''https://upload/second''\<rparr>])\<rparr>"

text \<open>A service that hands out a presigned target for a key nobody asked for.\<close>

definition strayKeyWorld :: world where
  "strayKeyWorld =
     exampleWorld\<lparr>sdk_presignFiles :=
       (\<lambda>sid did required. Inr [\<lparr>p_key = ''other.css'', p_presigned = ''https://upload/other.css''\<rparr>])\<rparr>"

text \<open>
  A deploy of the web app that also requires \<open>ghost.css\<close>, which is not among the local
  files, and a service that returns no presigned target for that key.
\<close>

definition ghostDeploy :: deployrecord where
  "ghostDeploy =
     \<lparr>d_id = ''deploy-3'',
      d_files =
        [\<lparr>df_key = ''index.html'', df_type = ''text/html'', df_required = True\<rparr>,
         \<lparr>df_key = ''ghost.css'', df_type = ''text/css'', df_required = True\<rparr>],
      d_url = None\<rparr>"

definition ghostWorld :: world where
  "ghostWorld =
     exampleWorld\<lparr>sdk_presignFiles :=
       (\<lambda>sid did required.
          Inr (map (\<lambda>kt. \<lparr>p_key = fst kt, p_presigned = ''https://upload/'' @ fst kt\<rparr>)
                 (filter (\<lambda>kt. fst kt \<noteq> ''ghost.css'') required)))\<rparr>"

text \<open>The deploy record that the example service creates for the files of the web app.\<close>

definition webAppDeploy :: deployrecord where
  "webAppDeploy =
     \<lparr>d_id = ''deploy-1'',
      d_files =
        [\<lparr>df_key = ''index.html'', df_type = ''text/html'', df_required = True\<rparr>,
         \<lparr>df_key = ''main.js'', df_type = ''application/javascript'', df_required = True\<rparr>],
      d_url = None\<rparr>"

text \<open>A service whose \<open>whoami\<close> fails with an error that is not a refused connection.\<close>

definition whoamiDownWorld :: world where
  "whoamiDownWorld =
     exampleWorld\<lparr>sdk_whoami :=
       (\<lambda>tok n. Inl (JsError (Some ''ETIMEDOUT'') ''connect ETIMEDOUT''))\<rparr>"

text \<open>
  A machine whose environment holds an access token that the service does not know,
  with a person who types the valid one at the prompt, and a global configuration file
  that holds still another token.
\<close>

definition staleTokenWorld :: world where
  "staleTokenWorld =
     exampleWorld\<lparr>WEBINY_ACCESS_TOKEN := Some ''stale'', tokenAnswers := ['' '', ''token-1'']\<rparr>"

text \<open>
  A service that refuses the first \<open>whoami\<close> request and accepts every later one, with a
  person who types the token of the environment at the prompt.
\<close>

definition flakyWorld :: world where
  "flakyWorld =
     exampleWorld\<lparr>sdk_whoami := (\<lambda>tok n. if n = 0 then Inr None else Inr (Some ''user-1'')),
                   tokenAnswers := [''token-1'']\<rparr>"

text \<open>A machine with both configuration files in place.\<close>

definition storedState :: dstate where
  "storedState =
     initial (Some (Some [(''accessToken'', ''old-token'')])) (Some (Some [(''siteId'', ''site-0'')]))
       exampleFiles"

section \<open>Properties\<close>

subsection \<open>Sequencing\<close>

lemma andThen_ret [simp]: "andThen (ret a) f s = f a s"
  by (simp add: andThen_def ret_def)

lemma andThen_throw [simp]: "andThen (throw e) f s = (Throw e, s)"
  by (simp add: andThen_def throw_def)

lemma andThen_exit [simp]: "andThen (exit n) f s = (Exit n, s)"
  by (simp add: andThen_def exit_def)

lemma andThen_hang [simp]: "andThen hang f s = (Hang, s)"
  by (simp add: andThen_def hang_def)

lemma andThen_emit [simp]: "andThen (emit e) f s = f () (s\<lparr>trace := trace s @ [e]\<rparr>)"
  by (simp add: andThen_def emit_def)

lemma andThen_logger [simp]:
  "andThen (logger l m) f s = f () (s\<lparr>trace := trace s @ [Log l m]\<rparr>)"
  by (simp add: logger_def)

lemma andThen_assoc: "andThen (andThen m f) g = andThen m (\<lambda>a. andThen (f a) g)"
  by (rule ext) (simp add: andThen_def split: prod.splits outcome.splits)

lemma andThen_Return: "m s = (Return a, s') \<Longrightarrow> andThen m f s = f a s'"
  by (simp add: andThen_def)

lemma andThen_Throw: "m s = (Throw e, s') \<Longrightarrow> andThen m f s = (Throw e, s')"
  by (simp add: andThen_def)

lemma andThen_Exit: "m s = (Exit n, s') \<Longrightarrow> andThen m f s = (Exit n, s')"
  by (simp add: andThen_def)

lemma andThen_Hang: "m s = (Hang, s') \<Longrightarrow> andThen m f s = (Hang, s')"
  by (simp add: andThen_def)

lemma sdkCall_some:
  "sdk s = Some tok \<Longrightarrow>
   sdkCall n ev ans s =
     (case ans tok of
        Inl e \<Rightarrow> (Throw e, s\<lparr>trace := trace s @ [ev tok]\<rparr>)
      | Inr a \<Rightarrow> (Return a, s\<lparr>trace := trace s @ [ev tok]\<rparr>))"
  by (simp add: sdkCall_def await_def throw_def ret_def split: sum.splits)

lemma sdkCall_none: "sdk s = None \<Longrightarrow> sdkCall n ev ans s = (Throw (typeError n), s)"
  by (simp add: sdkCall_def throw_def)

subsection \<open>Continuous integration\<close>

text \<open>
  C4. When \<open>deploy\<close> runs with the \<open>ci\<close> flag and the access token or the site id is not
  set in the environment (or is empty), the process exits with code 1. All that has
  happened by then is one error line of the logger: the client has not been set up and
  no remote operation was called.
\<close>

theorem ci_missing_variable_exits_before_network:
  assumes "\<not> truthy (WEBINY_ACCESS_TOKEN w) \<or> \<not> truthy (WEBINY_SITE_ID w)"
  shows "\<exists>msg. deploy w name True s = (Exit 1, s\<lparr>trace := trace s @ [Log LError msg]\<rparr>)
           \<and> filter isNetworkCall (trace (snd (deploy w name True s))) = filter isNetworkCall (trace s)
           \<and> sdk (snd (deploy w name True s)) = sdk s"
  using assms
  by (auto simp: deploy_def validateCiRequirements_def andThen_assoc)

theorem ci_missing_variable_exits_before_network_witness:
  "\<exists>msg. deploy ciWorld None True freshState
            = (Exit 1, freshState\<lparr>trace := trace freshState @ [Log LError msg]\<rparr>)
         \<and> filter isNetworkCall (trace (snd (deploy ciWorld None True freshState)))
            = filter isNetworkCall (trace freshState)
         \<and> sdk (snd (deploy ciWorld None True freshState)) = sdk freshState"
  using ci_missing_variable_exits_before_network [of ciWorld None freshState]
  by (simp add: ciWorld_def exampleWorld_def)

subsection \<open>Polling\<close>

lemma isDeployActive_some:
  assumes "sdk s = Some tok" "sdk_isDeployActive w did (pollCount did s) = Inr r"
  shows "isDeployActive w did s = (Return r, s\<lparr>trace := trace s @ [SdkIsDeployActive did]\<rparr>)"
  using assms by (simp add: isDeployActive_def sdkCall_some)

lemma one_round:
  assumes "sdk s = Some tok" "sdk_isDeployActive w (d_id d) (pollCount (d_id d) s) = Inr r"
  shows "waitRounds w d (Suc m) s =
     (if r_active r
      then (Return (r_url r), s\<lparr>trace := trace s @ [Sleep 5000, SdkIsDeployActive (d_id d)]\<rparr>)
      else waitRounds w d m (s\<lparr>trace := trace s @ [Sleep 5000, SdkIsDeployActive (d_id d)]\<rparr>))"
proof -
  let ?s0 = "s\<lparr>trace := trace s @ [Sleep 5000]\<rparr>"
  have "isDeployActive w (d_id d) ?s0
          = (Return r, ?s0\<lparr>trace := trace ?s0 @ [SdkIsDeployActive (d_id d)]\<rparr>)"
    using assms by (intro isDeployActive_some[where tok=tok]) (simp_all add: pollCount_def)
  then show ?thesis
    by (simp add: sleep_def andThen_Return ret_def)
qed

text \<open>Rounds that all find the deploy inactive.\<close>

lemma rounds_inactive:
  assumes "sdk s = Some tok"
    and "\<forall>j<m. \<exists>r. sdk_isDeployActive w (d_id d) (pollCount (d_id d) s + j) = Inr r \<and> \<not> r_active r"
  shows "waitRounds w d m s =
     (Return None,
      s\<lparr>trace := trace s @ concat (replicate m [Sleep 5000, SdkIsDeployActive (d_id d)])\<rparr>)"
  using assms
proof (induction m arbitrary: s)
  case 0
  then show ?case by (simp add: ret_def)
next
  case (Suc m)
  let ?s1 = "s\<lparr>trace := trace s @ [Sleep 5000, SdkIsDeployActive (d_id d)]\<rparr>"
  from Suc.prems(2) obtain r
    where r: "sdk_isDeployActive w (d_id d) (pollCount (d_id d) s) = Inr r" "\<not> r_active r"
    by force
  have pc: "pollCount (d_id d) ?s1 = Suc (pollCount (d_id d) s)"
    by (simp add: pollCount_def)
  have "\<forall>j<m. \<exists>r. sdk_isDeployActive w (d_id d) (pollCount (d_id d) ?s1 + j) = Inr r \<and> \<not> r_active r"
  proof (intro allI impI)
    fix j assume "j < m"
    then have "Suc j < Suc m" by simp
    with Suc.prems(2)
    show "\<exists>r. sdk_isDeployActive w (d_id d) (pollCount (d_id d) ?s1 + j) = Inr r \<and> \<not> r_active r"
      unfolding pc by (metis add_Suc_shift)
  qed
  moreover have "sdk ?s1 = Some tok"
    using Suc.prems(1) by simp
  ultimately have "waitRounds w d m ?s1 =
      (Return None,
       ?s1\<lparr>trace := trace ?s1 @ concat (replicate m [Sleep 5000, SdkIsDeployActive (d_id d)])\<rparr>)"
    by (rule Suc.IH[rotated])
  then show ?case
    using one_round[OF Suc.prems(1) r(1), of m] r(2) by simp
qed

text \<open>Rounds of which the one with index \<open>k\<close> is the first to find the deploy active.\<close>

lemma rounds_active:
  assumes "sdk s = Some tok" "k < m"
    and "\<forall>j<k. \<exists>r. sdk_isDeployActive w (d_id d) (pollCount (d_id d) s + j) = Inr r \<and> \<not> r_active r"
    and "sdk_isDeployActive w (d_id d) (pollCount (d_id d) s + k) = Inr r" "r_active r"
  shows "waitRounds w d m s =
     (Return (r_url r),
      s\<lparr>trace := trace s @ concat (replicate (Suc k) [Sleep 5000, SdkIsDeployActive (d_id d)])\<rparr>)"
  using assms
proof (induction k arbitrary: s m)
  case 0
  then obtain m' where "m = Suc m'" by (cases m) auto
  then show ?case using one_round[of s tok w d r m'] 0 by simp
next
  case (Suc k)
  then obtain m' where m: "m = Suc m'" "k < m'" by (cases m) auto
  let ?s1 = "s\<lparr>trace := trace s @ [Sleep 5000, SdkIsDeployActive (d_id d)]\<rparr>"
  from Suc.prems(3) obtain r0
    where r0: "sdk_isDeployActive w (d_id d) (pollCount (d_id d) s) = Inr r0" "\<not> r_active r0"
    by force
  have pc: "pollCount (d_id d) ?s1 = Suc (pollCount (d_id d) s)"
    by (simp add: pollCount_def)
  have a: "\<forall>j<k. \<exists>r. sdk_isDeployActive w (d_id d) (pollCount (d_id d) ?s1 + j) = Inr r \<and> \<not> r_active r"
  proof (intro allI impI)
    fix j assume "j < k"
    then have "Suc j < Suc k" by simp
    with Suc.prems(3)
    show "\<exists>r. sdk_isDeployActive w (d_id d) (pollCount (d_id d) ?s1 + j) = Inr r \<and> \<not> r_active r"
      unfolding pc by (metis add_Suc_shift)
  qed
  have b: "sdk_isDeployActive w (d_id d) (pollCount (d_id d) ?s1 + k) = Inr r"
    using Suc.prems(4) unfolding pc by simp
  have c: "sdk ?s1 = Some tok"
    using Suc.prems(1) by simp
  have "waitRounds w d m' ?s1 =
      (Return (r_url r),
       ?s1\<lparr>trace := trace ?s1 @ concat (replicate (Suc k) [Sleep 5000, SdkIsDeployActive (d_id d)])\<rparr>)"
    using Suc.IH[OF c m(2) a b Suc.prems(5)] .
  then show ?case
    using one_round[OF Suc.prems(1) r0(1), of m'] r0(2) m by simp
qed

text \<open>
  C2. With a client in place: when every answer of \<open>isDeployActive\<close> for the deploy
  says it is not active, \<open>waitTillActive\<close> returns \<open>null\<close> after exactly ten rounds, each
  a sleep of 5000 milliseconds followed by one call of \<open>isDeployActive\<close>. When the
  answers of the first \<open>k\<close> rounds say it is not active and the next one, within the ten
  rounds, says it is, the routine returns the \<open>url\<close> of that answer after \<open>k + 1\<close> rounds
  and polls no further.
\<close>

theorem waitTillActive_ten_rounds_or_first_active:
  assumes "sdk s = Some tok"
  shows "((\<forall>n. \<exists>r. sdk_isDeployActive w (d_id d) n = Inr r \<and> \<not> r_active r) \<longrightarrow>
            waitTillActive w d s =
              (Return None,
               s\<lparr>trace := trace s @ concat (replicate 10 [Sleep 5000, SdkIsDeployActive (d_id d)])\<rparr>))
       \<and> (\<forall>k r. k < 10
              \<and> (\<forall>j<k. \<exists>r'. sdk_isDeployActive w (d_id d) (pollCount (d_id d) s + j) = Inr r'
                              \<and> \<not> r_active r')
              \<and> sdk_isDeployActive w (d_id d) (pollCount (d_id d) s + k) = Inr r \<and> r_active r \<longrightarrow>
            waitTillActive w d s =
              (Return (r_url r),
               s\<lparr>trace := trace s @
                    concat (replicate (Suc k) [Sleep 5000, SdkIsDeployActive (d_id d)])\<rparr>))"
proof (intro conjI allI impI)
  assume "\<forall>n. \<exists>r. sdk_isDeployActive w (d_id d) n = Inr r \<and> \<not> r_active r"
  then have "\<forall>j<10. \<exists>r. sdk_isDeployActive w (d_id d) (pollCount (d_id d) s + j) = Inr r \<and> \<not> r_active r"
    by blast
  from rounds_inactive[OF assms this]
  show "waitTillActive w d s =
      (Return None,
       s\<lparr>trace := trace s @ concat (replicate 10 [Sleep 5000, SdkIsDeployActive (d_id d)])\<rparr>)"
    by (simp add: waitTillActive_def)
next
  fix k r
  assume h: "k < 10
      \<and> (\<forall>j<k. \<exists>r'. sdk_isDeployActive w (d_id d) (pollCount (d_id d) s + j) = Inr r' \<and> \<not> r_active r')
      \<and> sdk_isDeployActive w (d_id d) (pollCount (d_id d) s + k) = Inr r \<and> r_active r"
  then have "waitRounds w d 10 s =
      (Return (r_url r),
       s\<lparr>trace := trace s @ concat (replicate (Suc k) [Sleep 5000, SdkIsDeployActive (d_id d)])\<rparr>)"
    by (intro rounds_active[OF assms]) auto
  then show "waitTillActive w d s =
      (Return (r_url r),
       s\<lparr>trace := trace s @ concat (replicate (Suc k) [Sleep 5000, SdkIsDeployActive (d_id d)])\<rparr>)"
    by (simp add: waitTillActive_def)
qed

theorem waitTillActive_ten_rounds_or_first_active_witness:
  "waitTillActive neverActiveWorld exampleDeploy readyState =
     (Return None,
      readyState\<lparr>trace := concat (replicate 10 [Sleep 5000, SdkIsDeployActive ''deploy-1''])\<rparr>)
   \<and> waitTillActive exampleWorld exampleDeploy readyState =
     (Return (Some ''https://web-app.example.com''),
      readyState\<lparr>trace := concat (replicate 3 [Sleep 5000, SdkIsDeployActive ''deploy-1''])\<rparr>)"
proof -
  have sdk: "sdk readyState = Some ''token-1''"
    by (simp add: readyState_def)
  have pc: "pollCount ''deploy-1'' readyState = 0" "trace readyState = []"
    by (simp_all add: pollCount_def readyState_def freshState_def initial_def)
  have never: "\<forall>n. \<exists>r. sdk_isDeployActive neverActiveWorld (d_id exampleDeploy) n = Inr r
                      \<and> \<not> r_active r"
    by (simp add: neverActiveWorld_def)
  have third: "(2::nat) < 10
      \<and> (\<forall>j<2. \<exists>r'. sdk_isDeployActive exampleWorld (d_id exampleDeploy)
                        (pollCount (d_id exampleDeploy) readyState + j) = Inr r' \<and> \<not> r_active r')
      \<and> sdk_isDeployActive exampleWorld (d_id exampleDeploy)
           (pollCount (d_id exampleDeploy) readyState + 2)
           = Inr \<lparr>r_active = True, r_url = Some ''https://web-app.example.com''\<rparr>
      \<and> r_active \<lparr>r_active = True, r_url = Some ''https://web-app.example.com''\<rparr>"
    by (simp add: exampleWorld_def exampleDeploy_def pc)
  from waitTillActive_ten_rounds_or_first_active[OF sdk, of neverActiveWorld exampleDeploy] never
  have a: "waitTillActive neverActiveWorld exampleDeploy readyState =
     (Return None,
      readyState\<lparr>trace := concat (replicate 10 [Sleep 5000, SdkIsDeployActive ''deploy-1''])\<rparr>)"
    by (simp add: pc exampleDeploy_def)
  from waitTillActive_ten_rounds_or_first_active[OF sdk, of exampleWorld exampleDeploy] third
  have "waitTillActive exampleWorld exampleDeploy readyState =
     (Return (r_url \<lparr>r_active = True, r_url = Some ''https://web-app.example.com''\<rparr>),
      readyState\<lparr>trace := trace readyState @
         concat (replicate (Suc 2) [Sleep 5000, SdkIsDeployActive (d_id exampleDeploy)])\<rparr>)"
    by blast
  then have b: "waitTillActive exampleWorld exampleDeploy readyState =
     (Return (Some ''https://web-app.example.com''),
      readyState\<lparr>trace := concat (replicate 3 [Sleep 5000, SdkIsDeployActive ''deploy-1''])\<rparr>)"
    by (simp add: pc exampleDeploy_def eval_nat_numeral)
  from a b show ?thesis by blast
qed

lemma waitRounds_shape:
  "\<exists>t. snd (waitRounds w d m s) = s\<lparr>trace := trace s @ t\<rparr>
      \<and> (\<forall>prev. pollsFollowSleep 5000 prev t) \<and> (0 < m \<longrightarrow> 5000 \<le> sleptMillis t)"
proof (induction m arbitrary: s)
  case 0
  show ?case by (intro exI[of _ "[]"]) (simp add: ret_def)
next
  case (Suc m)
  let ?s0 = "s\<lparr>trace := trace s @ [Sleep 5000]\<rparr>"
  let ?s1 = "s\<lparr>trace := trace s @ [Sleep 5000, SdkIsDeployActive (d_id d)]\<rparr>"
  show ?case
  proof (cases "sdk s")
    case None
    then have "isDeployActive w (d_id d) ?s0 = (Throw (typeError ''isDeployActive''), ?s0)"
      by (simp add: isDeployActive_def sdkCall_none)
    then have "waitRounds w d (Suc m) s = (Throw (typeError ''isDeployActive''), ?s0)"
      by (simp add: sleep_def andThen_Throw)
    then show ?thesis
      by (intro exI[of _ "[Sleep 5000]"]) simp
  next
    case (Some tok)
    show ?thesis
    proof (cases "sdk_isDeployActive w (d_id d) (pollCount (d_id d) s)")
      case (Inl e)
      then have "isDeployActive w (d_id d) ?s0 = (Throw e, ?s1)"
        using Some by (simp add: isDeployActive_def sdkCall_some pollCount_def)
      then have "waitRounds w d (Suc m) s = (Throw e, ?s1)"
        by (simp add: sleep_def andThen_Throw)
      then show ?thesis
        by (intro exI[of _ "[Sleep 5000, SdkIsDeployActive (d_id d)]"]) simp
    next
      case (Inr r)
      note step = one_round[OF Some Inr, of m]
      show ?thesis
      proof (cases "r_active r")
        case True
        with step show ?thesis
          by (intro exI[of _ "[Sleep 5000, SdkIsDeployActive (d_id d)]"]) simp
      next
        case False
        from Suc.IH[of ?s1] obtain t where
          t: "snd (waitRounds w d m ?s1) = ?s1\<lparr>trace := trace ?s1 @ t\<rparr>"
             "\<forall>prev. pollsFollowSleep 5000 prev t"
          by blast
        with step False show ?thesis
          by (intro exI[of _ "[Sleep 5000, SdkIsDeployActive (d_id d)] @ t"]) simp
      qed
    qed
  qed
qed

text \<open>
  C9. Whatever the service answers, what \<open>waitTillActive\<close> adds to the trace starts with
  a sleep, every call of \<open>isDeployActive\<close> in it comes directly after a sleep of 5000
  milliseconds, and at least 5000 milliseconds are slept. In particular, when the first
  answer says the deploy is active, the \<open>url\<close> is returned after one sleep of 5000
  milliseconds and one poll.
\<close>

theorem every_poll_follows_a_five_second_sleep:
  "(\<exists>t. snd (waitTillActive w d s) = s\<lparr>trace := trace s @ t\<rparr>
        \<and> pollsFollowSleep 5000 None t \<and> 5000 \<le> sleptMillis t)
   \<and> (\<forall>tok r. sdk s = Some tok
          \<and> sdk_isDeployActive w (d_id d) (pollCount (d_id d) s) = Inr r \<and> r_active r \<longrightarrow>
        waitTillActive w d s =
          (Return (r_url r), s\<lparr>trace := trace s @ [Sleep 5000, SdkIsDeployActive (d_id d)]\<rparr>))"
proof (intro conjI allI impI)
  from waitRounds_shape[of w d 10 s]
  show "\<exists>t. snd (waitTillActive w d s) = s\<lparr>trace := trace s @ t\<rparr>
        \<and> pollsFollowSleep 5000 None t \<and> 5000 \<le> sleptMillis t"
    unfolding waitTillActive_def by auto
next
  fix tok r
  assume h: "sdk s = Some tok
          \<and> sdk_isDeployActive w (d_id d) (pollCount (d_id d) s) = Inr r \<and> r_active r"
  then show "waitTillActive w d s =
          (Return (r_url r), s\<lparr>trace := trace s @ [Sleep 5000, SdkIsDeployActive (d_id d)]\<rparr>)"
    using one_round[of s tok w d r 9] by (simp add: waitTillActive_def eval_nat_numeral)
qed


theorem every_poll_follows_a_five_second_sleep_witness:
  "waitTillActive activeAtOnceWorld exampleDeploy readyState =
     (Return (Some ''https://web-app.example.com''),
      readyState\<lparr>trace := [Sleep 5000, SdkIsDeployActive ''deploy-1'']\<rparr>)
   \<and> sleptMillis [Sleep 5000, SdkIsDeployActive ''deploy-1''] = 5000"
proof -
  have h: "sdk readyState = Some ''token-1''
      \<and> sdk_isDeployActive activeAtOnceWorld (d_id exampleDeploy)
           (pollCount (d_id exampleDeploy) readyState)
          = Inr \<lparr>r_active = True, r_url = Some ''https://web-app.example.com''\<rparr>
      \<and> r_active \<lparr>r_active = True, r_url = Some ''https://web-app.example.com''\<rparr>"
    by (simp add: readyState_def activeAtOnceWorld_def)
  have tr: "trace readyState = []"
    by (simp add: readyState_def freshState_def initial_def)
  from every_poll_follows_a_five_second_sleep[of activeAtOnceWorld exampleDeploy readyState] h
  have "waitTillActive activeAtOnceWorld exampleDeploy readyState =
     (Return (r_url \<lparr>r_active = True, r_url = Some ''https://web-app.example.com''\<rparr>),
      readyState\<lparr>trace := trace readyState @ [Sleep 5000, SdkIsDeployActive (d_id exampleDeploy)]\<rparr>)"
    by blast
  then show ?thesis
    by (simp add: tr exampleDeploy_def)
qed

lemma tryCatch_Return: "m s = (Return a, s') \<Longrightarrow> tryCatch m h s = (Return a, s')"
  by (simp add: tryCatch_def)

lemma tryCatch_Throw: "m s = (Throw e, s') \<Longrightarrow> tryCatch m h s = h e s'"
  by (simp add: tryCatch_def)

lemma tryCatch_Exit: "m s = (Exit n, s') \<Longrightarrow> tryCatch m h s = (Exit n, s')"
  by (simp add: tryCatch_def)

lemma tryCatch_Hang: "m s = (Hang, s') \<Longrightarrow> tryCatch m h s = (Hang, s')"
  by (simp add: tryCatch_def)

subsection \<open>Uploading\<close>

lemma uploadsOf_append [simp]: "uploadsOf (a @ b) = uploadsOf a @ uploadsOf b"
  by (induction a) simp_all

lemma presignRequests_append [simp]: "presignRequests (a @ b) = presignRequests a @ presignRequests b"
  by (induction a) simp_all

lemma startReads_run:
  "\<exists>rs t. startReads files ps s = (Return rs, s\<lparr>trace := trace s @ t\<rparr>)
      \<and> uploadsOf t = [] \<and> presignRequests t = []
      \<and> (\<not> lookupMisses files ps \<longrightarrow> rs = map (readResult files (fsFiles s)) ps)"
proof (induction ps arbitrary: s)
  case Nil
  show ?case by (intro exI[of _ "[]"]) (simp add: ret_def lookupMisses_def)
next
  case (Cons p ps)
  show ?case
  proof (cases "localFile files p")
    case None
    with Cons.IH[of s] show ?thesis by (auto simp: lookupMisses_def)
  next
    case (Some f)
    let ?s1 = "s\<lparr>trace := trace s @ [FsReadFile (f_abs f)]\<rparr>"
    from Cons.IH[of ?s1] obtain rs t where
      h: "startReads files ps ?s1 = (Return rs, ?s1\<lparr>trace := trace ?s1 @ t\<rparr>)"
         "uploadsOf t = []" "presignRequests t = []"
         "\<not> lookupMisses files ps \<longrightarrow> rs = map (readResult files (fsFiles ?s1)) ps"
      by blast
    have rf: "readFile (f_abs f) s = (Return (map_sum id snd (readResult files (fsFiles s) p)), ?s1)"
      using Some by (simp add: readFile_def readResult_def split: option.splits)
    have "startReads files (p # ps) s =
        (Return (map_sum id (Pair p) (map_sum id snd (readResult files (fsFiles s) p)) # rs), ?s1\<lparr>trace := trace ?s1 @ t\<rparr>)"
      using Some rf h(1) by (simp add: andThen_Return ret_def)
    moreover have "map_sum id (Pair p) (map_sum id snd (readResult files (fsFiles s) p)) = readResult files (fsFiles s) p"
      by (simp add: readResult_def split: option.splits)
    ultimately show ?thesis using h(2,3,4) Some
      by (intro exI[of _ "readResult files (fsFiles s) p # rs"] exI[of _ "FsReadFile (f_abs f) # t"])
         (simp add: lookupMisses_def)
  qed
qed

lemma promiseAll_Inr: "promiseAll rs = Inr xs \<Longrightarrow> rs = map Inr xs"
  by (induction rs arbitrary: xs) (auto split: sum.splits)

lemma promiseAll_map_Inr [simp]: "promiseAll (map Inr xs) = Inr xs"
  by (induction xs) auto

lemma promiseAll_map_Inr_comp [simp]: "promiseAll (map (Inr \<circ> f) xs) = Inr (map f xs)"
  by (induction xs) auto

lemma startUploads_run:
  assumes "sdk s = Some tok"
  shows "startUploads w fcs s =
     (Return (map (\<lambda>fc. sdk_uploadPresignedFile w (p_presigned (fst fc)) (snd fc)) fcs),
      s\<lparr>trace := trace s @ map (\<lambda>fc. SdkUploadPresignedFile (p_presigned (fst fc)) (snd fc)) fcs\<rparr>)"
  using assms
proof (induction fcs arbitrary: s)
  case Nil
  show ?case by (simp add: ret_def)
next
  case (Cons fc fcs)
  let ?up = "SdkUploadPresignedFile (p_presigned (fst fc)) (snd fc)"
  let ?ans = "sdk_uploadPresignedFile w (p_presigned (fst fc)) (snd fc)"
  let ?s1 = "s\<lparr>trace := trace s @ [?up]\<rparr>"
  have m: "settle (sdkCall ''uploadPresignedFile'' (\<lambda>_. ?up) (\<lambda>_. ?ans)) s = (Return ?ans, ?s1)"
    using Cons.prems by (cases ?ans) (simp_all add: settle_def sdkCall_some)
  have "sdk ?s1 = Some tok"
    using Cons.prems by simp
  from Cons.IH[OF this] m show ?case
    by (simp add: andThen_Return ret_def)
qed

lemma uploadsOf_calls [simp]:
  "uploadsOf (map (\<lambda>fc. SdkUploadPresignedFile (p_presigned (fst fc)) (snd fc)) fcs)
     = map (\<lambda>fc. (p_presigned (fst fc), snd fc)) fcs"
  by (induction fcs) simp_all

lemma presignRequests_calls [simp]:
  "presignRequests (map (\<lambda>fc. SdkUploadPresignedFile (p_presigned (fst fc)) (snd fc)) fcs) = []"
  by (induction fcs) simp_all

lemma finishUploads_run:
  "\<exists>t. finishUploads xs s = (Return (), s\<lparr>trace := trace s @ t\<rparr>)
       \<and> uploadsOf t = [] \<and> presignRequests t = []"
proof (induction xs arbitrary: s)
  case Nil
  show ?case by (intro exI[of _ "[]"]) (simp add: ret_def)
next
  case (Cons x xs)
  show ?case
  proof (cases "snd x")
    case (Inl e)
    from Cons.IH[of s] Inl show ?thesis by simp
  next
    case (Inr u)
    let ?l = "Log LSuccess (p_key (fst (fst x)))"
    from Cons.IH[of "s\<lparr>trace := trace s @ [?l]\<rparr>"] obtain t where
      "finishUploads xs (s\<lparr>trace := trace s @ [?l]\<rparr>)
         = (Return (), s\<lparr>trace := trace s @ ?l # t\<rparr>)"
      "uploadsOf t = []" "presignRequests t = []"
      by auto
    with Inr show ?thesis
      by (intro exI[of _ "?l # t"]) simp
  qed
qed

lemma onUploadError_run:
  "onUploadError e s =
     (if err_code e = Some ''ECONNREFUSED''
      then (Exit 1, s\<lparr>trace := trace s @ [Log LError (err_message e)]\<rparr>)
      else (Throw e, s))"
  by (simp add: onUploadError_def checkNetworkError_def andThen_assoc throw_def)

lemma readResult_all:
  assumes "map (readResult files fs) ps = map Inr fcs"
  shows "fcs = map (\<lambda>p. (p, the (fs (f_abs (the (localFile files p)))))) ps"
  using assms
proof (induction ps arbitrary: fcs)
  case Nil
  then show ?case by simp
next
  case (Cons p ps)
  then obtain fc fcs' where fcs: "fcs = fc # fcs'" by (cases fcs) auto
  with Cons.prems have a: "readResult files fs p = Inr fc" "map (readResult files fs) ps = map Inr fcs'"
    by auto
  from a(1) have "fc = (p, the (fs (f_abs (the (localFile files p)))))"
    by (auto simp: readResult_def split: option.splits)
  with Cons.IH[OF a(2)] fcs show ?case by simp
qed

lemma reads_readable:
  assumes "\<not> lookupMisses files ps" "promiseAll (map (readResult files fs) ps) = Inr fcs"
  shows "readable files fs ps"
  using assms
proof (induction ps arbitrary: fcs)
  case Nil
  show ?case by (simp add: readable_def)
next
  case (Cons p ps)
  from Cons.prems(1) obtain f where
    f: "localFile files p = Some f" and nm: "\<not> lookupMisses files ps"
    by (auto simp: lookupMisses_def)
  from Cons.prems(2) obtain x xs where
    x: "readResult files fs p = Inr x" and xs: "promiseAll (map (readResult files fs) ps) = Inr xs"
    by (auto split: sum.splits)
  from x f obtain content where "fs (f_abs f) = Some content"
    by (auto simp: readResult_def split: option.splits)
  with Cons.IH[OF nm xs] f show ?case
    by (simp add: readable_def)
qed

lemma uploadFiles_run:
  assumes sdk: "sdk s = Some tok"
    and ps: "sdk_presignFiles w (siteId s) (d_id d) (requiredFiles d) = Inr ps"
  shows "\<exists>t. snd (uploadFiles w d files s)
               = s\<lparr>trace := trace s @ SdkPresignFiles (siteId s) (d_id d) (requiredFiles d) # t\<rparr>
     \<and> presignRequests t = []
     \<and> (lookupMisses files ps \<longrightarrow>
          fst (uploadFiles w d files s) = Throw (typeError ''abs'') \<and> uploadsOf t = [])
     \<and> (uploadsOf t = []
          \<or> readable files (fsFiles s) ps \<and> uploadsOf t = payloads files (fsFiles s) ps)
     \<and> (fst (uploadFiles w d files s) = Return () \<longrightarrow> uploadsOf t = payloads files (fsFiles s) ps)"
proof -
  let ?ev = "SdkPresignFiles (siteId s) (d_id d) (requiredFiles d)"
  let ?s1 = "s\<lparr>trace := trace s @ [?ev]\<rparr>"
  let ?presign = "\<lambda>s. sdkCall ''presignFiles''
                 (\<lambda>_. SdkPresignFiles (siteId s) (d_id d) (requiredFiles d))
                 (\<lambda>_. sdk_presignFiles w (siteId s) (d_id d) (requiredFiles d)) s"
  let ?k3 = "\<lambda>uploads. andThen (await (promiseAll uploads)) (\<lambda>_. ret ())"
  let ?k2 = "\<lambda>filesToUpload. andThen (startUploads w filesToUpload)
          (\<lambda>uploads. andThen (finishUploads (zip filesToUpload uploads)) (\<lambda>_. ?k3 uploads))"
  let ?k1 = "\<lambda>presignedFiles reads. andThen
          (if lookupMisses files presignedFiles then throw (typeError ''abs'')
           else await (promiseAll reads)) ?k2"
  let ?k0 = "\<lambda>presignedFiles. andThen (startReads files presignedFiles) (?k1 presignedFiles)"
  let ?body = "andThen ?presign ?k0"
  have up: "uploadFiles w d files = tryCatch ?body onUploadError"
    by (simp add: uploadFiles_def onUploadError_def[abs_def])
  have p1: "?presign s = (Return ps, ?s1)"
    using sdk ps by (simp add: sdkCall_some)
  from startReads_run[of files ps ?s1] obtain rs t1 where
    r: "startReads files ps ?s1 = (Return rs, ?s1\<lparr>trace := trace ?s1 @ t1\<rparr>)"
       "uploadsOf t1 = []" "presignRequests t1 = []"
       "\<not> lookupMisses files ps \<longrightarrow> rs = map (readResult files (fsFiles ?s1)) ps"
    by blast
  let ?s2 = "?s1\<lparr>trace := trace ?s1 @ t1\<rparr>"
  have body1: "?body s = ?k1 ps rs ?s2"
    using p1 r(1) by (simp add: andThen_Return)
  show ?thesis
  proof (cases "lookupMisses files ps")
    case True
    then have "?body s = (Throw (typeError ''abs''), ?s2)"
      unfolding body1 by simp
    then have "uploadFiles w d files s = (Throw (typeError ''abs''), ?s2)"
      unfolding up by (simp add: tryCatch_Throw onUploadError_run typeError_def)
    then show ?thesis using r(2,3) True
      by (intro exI[of _ t1]) simp
  next
    case False
    with r(4) have rs: "rs = map (readResult files (fsFiles s)) ps" by simp
    show ?thesis
    proof (cases "promiseAll rs")
      case (Inl e)
      then have "?body s = (Throw e, ?s2)"
        unfolding body1 using False by (simp add: await_def)
      then have u: "uploadFiles w d files s = onUploadError e ?s2"
        unfolding up by (simp add: tryCatch_Throw)
      show ?thesis
      proof (cases "err_code e = Some ''ECONNREFUSED''")
        case True
        with u show ?thesis using r(2,3) False
          by (intro exI[of _ "t1 @ [Log LError (err_message e)]"]) (simp add: onUploadError_run)
      next
        case False2: False
        with u show ?thesis using r(2,3) False
          by (intro exI[of _ "t1"]) (simp add: onUploadError_run)
      qed
    next
      case (Inr fcs)
      from reads_readable[OF False] Inr rs have rd: "readable files (fsFiles s) ps"
        by simp
      from promiseAll_Inr[OF Inr] rs have "fcs = map (\<lambda>p. (p, the (fsFiles s (f_abs (the (localFile files p)))))) ps"
        by (intro readResult_all) simp
      then have pay: "map (\<lambda>fc. (p_presigned (fst fc), snd fc)) fcs = payloads files (fsFiles s) ps"
        by (simp add: payloads_def comp_def)
      have sdk2: "sdk ?s2 = Some tok" using sdk by simp
      let ?us = "map (\<lambda>fc. sdk_uploadPresignedFile w (p_presigned (fst fc)) (snd fc)) fcs"
      let ?calls = "map (\<lambda>fc. SdkUploadPresignedFile (p_presigned (fst fc)) (snd fc)) fcs"
      let ?s2' = "?s2\<lparr>trace := trace ?s2 @ ?calls\<rparr>"
      note su = startUploads_run[OF sdk2, of w fcs]
      from finishUploads_run[of "zip fcs ?us" ?s2'] obtain t3 where
        fu: "finishUploads (zip fcs ?us) ?s2' = (Return (), ?s2'\<lparr>trace := trace ?s2' @ t3\<rparr>)"
            "uploadsOf t3 = []" "presignRequests t3 = []"
        by blast
      define t2 where "t2 = ?calls @ t3"
      have u: "uploadsOf t2 = map (\<lambda>fc. (p_presigned (fst fc), snd fc)) fcs" "presignRequests t2 = []"
        using fu(2,3) by (simp_all add: t2_def)
      let ?s3 = "?s2\<lparr>trace := trace ?s2 @ t2\<rparr>"
      have s3: "?s2'\<lparr>trace := trace ?s2' @ t3\<rparr> = ?s3"
        by (simp add: t2_def)
      have body2: "?body s = ?k3 ?us ?s3"
        unfolding body1 using False Inr su fu(1) s3 by (simp add: await_def andThen_Return)
      show ?thesis
      proof (cases "promiseAll ?us")
        case Inl2: (Inl e)
        then have "?body s = (Throw e, ?s3)"
          unfolding body2 by (simp add: await_def)
        then have v: "uploadFiles w d files s = onUploadError e ?s3"
          unfolding up by (simp add: tryCatch_Throw)
        show ?thesis
        proof (cases "err_code e = Some ''ECONNREFUSED''")
          case True
          with v show ?thesis using r(2,3) u pay rd False
            by (intro exI[of _ "t1 @ t2 @ [Log LError (err_message e)]"]) (simp add: onUploadError_run)
        next
          case False3: False
          with v show ?thesis using r(2,3) u pay rd False
            by (intro exI[of _ "t1 @ t2"]) (simp add: onUploadError_run)
        qed
      next
        case Inr2: (Inr xs)
        then have "?body s = (Return (), ?s3)"
          unfolding body2 by (simp add: await_def ret_def)
        then have "uploadFiles w d files s = (Return (), ?s3)"
          unfolding up by (simp add: tryCatch_Return)
        then show ?thesis using r(2,3) u pay rd False
          by (intro exI[of _ "t1 @ t2"]) simp
      qed
    qed
  qed
qed

lemma uploadFiles_presign_fails:
  assumes sdk: "sdk s = Some tok"
    and ps: "sdk_presignFiles w (siteId s) (d_id d) (requiredFiles d) = Inl e"
  shows "uploadFiles w d files s =
           onUploadError e (s\<lparr>trace := trace s @ [SdkPresignFiles (siteId s) (d_id d) (requiredFiles d)]\<rparr>)"
  using assms
  by (simp add: uploadFiles_def sdkCall_some andThen_Throw tryCatch_Throw)

text \<open>When every presigned file can be served, \<open>uploadFiles\<close> returns.\<close>

lemma uploadable_found:
  "uploadable w files fs ps \<Longrightarrow> \<not> lookupMisses files ps"
  by (auto simp: uploadable_def lookupMisses_def list_all_iff list_ex_iff split: option.splits)

lemma uploadable_reads:
  "uploadable w files fs ps \<Longrightarrow>
     map (readResult files fs) ps
       = map Inr (map (\<lambda>p. (p, the (fs (f_abs (the (localFile files p)))))) ps)"
  by (induction ps) (auto simp: uploadable_def readResult_def split: option.splits)

lemma uploadable_answers:
  "uploadable w files fs ps \<Longrightarrow>
     map (\<lambda>fc. sdk_uploadPresignedFile w (p_presigned (fst fc)) (snd fc))
         (map (\<lambda>p. (p, the (fs (f_abs (the (localFile files p)))))) ps)
       = map Inr (map (\<lambda>p. ()) ps)"
  by (induction ps) (auto simp: uploadable_def split: option.splits)

lemma uploadFiles_succeeds:
  assumes sdk: "sdk s = Some tok"
    and ps: "sdk_presignFiles w (siteId s) (d_id d) (requiredFiles d) = Inr ps"
    and ok: "uploadable w files (fsFiles s) ps"
  shows "fst (uploadFiles w d files s) = Return ()"
proof -
  let ?s1 = "s\<lparr>trace := trace s @ [SdkPresignFiles (siteId s) (d_id d) (requiredFiles d)]\<rparr>"
  let ?fcs = "map (\<lambda>p. (p, the (fsFiles s (f_abs (the (localFile files p)))))) ps"
  let ?us = "map (\<lambda>fc. sdk_uploadPresignedFile w (p_presigned (fst fc)) (snd fc)) ?fcs"
  let ?calls = "map (\<lambda>fc. SdkUploadPresignedFile (p_presigned (fst fc)) (snd fc)) ?fcs"
  note nm = uploadable_found[OF ok]
  have p1: "sdkCall ''presignFiles''
                 (\<lambda>_. SdkPresignFiles (siteId s) (d_id d) (requiredFiles d))
                 (\<lambda>_. sdk_presignFiles w (siteId s) (d_id d) (requiredFiles d)) s = (Return ps, ?s1)"
    using sdk ps by (simp add: sdkCall_some)
  from startReads_run[of files ps ?s1] nm obtain rs t1 where
    r: "startReads files ps ?s1 = (Return rs, ?s1\<lparr>trace := trace ?s1 @ t1\<rparr>)"
       "rs = map (readResult files (fsFiles s)) ps"
    by auto
  let ?s2 = "?s1\<lparr>trace := trace ?s1 @ t1\<rparr>"
  have pr: "promiseAll rs = Inr ?fcs"
    unfolding r(2) uploadable_reads[OF ok] by simp
  have "sdk ?s2 = Some tok"
    using sdk by simp
  note su = startUploads_run[OF this, of w ?fcs]
  let ?s3 = "?s2\<lparr>trace := trace ?s2 @ ?calls\<rparr>"
  from finishUploads_run[of "zip ?fcs ?us" ?s3] obtain t3 where
    fu: "finishUploads (zip ?fcs ?us) ?s3 = (Return (), ?s3\<lparr>trace := trace ?s3 @ t3\<rparr>)"
    by blast
  have pu: "promiseAll ?us = Inr (map (\<lambda>p. ()) ps)"
    unfolding uploadable_answers[OF ok] by simp
  have "andThen
          (\<lambda>s. sdkCall ''presignFiles''
                 (\<lambda>_. SdkPresignFiles (siteId s) (d_id d) (requiredFiles d))
                 (\<lambda>_. sdk_presignFiles w (siteId s) (d_id d) (requiredFiles d)) s)
          (\<lambda>presignedFiles.
       andThen (startReads files presignedFiles) (\<lambda>reads.
       andThen
          (if lookupMisses files presignedFiles then throw (typeError ''abs'')
           else await (promiseAll reads)) (\<lambda>filesToUpload.
       andThen (startUploads w filesToUpload) (\<lambda>uploads.
       andThen (finishUploads (zip filesToUpload uploads)) (\<lambda>_.
       andThen (await (promiseAll uploads)) (\<lambda>_. ret ())))))) s
      = (Return (), ?s3\<lparr>trace := trace ?s3 @ t3\<rparr>)"
    using p1 r(1) nm pr su fu pu
    by (simp add: andThen_Return await_def ret_def)
  then show ?thesis
    by (simp add: uploadFiles_def tryCatch_Return)
qed

text \<open>
  C8, as amended. With a client in place, \<open>uploadFiles\<close> asks for presigned targets exactly
  once, and the list it sends is the list of the \<open>key\<close> and \<open>type\<close> of those entries of
  \<open>deploy.files\<close> whose \<open>required\<close> flag is set, in their order. What is uploaded follows
  the answer of the service, not the flags: when the request fails, nothing is uploaded;
  otherwise the uploads are none or, for every presigned file of the answer in order, its
  target with the content read from the local file that has its key; and when every presigned
  file of the answer has a readable local file and the service accepts it, \<open>uploadFiles\<close>
  returns after exactly these uploads.
\<close>

theorem presign_request_is_the_required_subset_and_uploads_follow_the_answer:
  assumes "sdk s = Some tok"
  shows "\<exists>t. snd (uploadFiles w d files s) = s\<lparr>trace := trace s @ t\<rparr>
     \<and> presignRequests t = [map (\<lambda>f. (df_key f, df_type f)) (filter df_required (d_files d))]
     \<and> (case sdk_presignFiles w (siteId s) (d_id d)
                 (map (\<lambda>f. (df_key f, df_type f)) (filter df_required (d_files d))) of
           Inl e \<Rightarrow> uploadsOf t = []
         | Inr ps \<Rightarrow>
             (uploadsOf t = []
              \<or> readable files (fsFiles s) ps \<and> uploadsOf t = payloads files (fsFiles s) ps)
             \<and> (uploadable w files (fsFiles s) ps \<longrightarrow>
                  fst (uploadFiles w d files s) = Return ()
                  \<and> uploadsOf t = payloads files (fsFiles s) ps))"
proof (cases "sdk_presignFiles w (siteId s) (d_id d) (requiredFiles d)")
  case (Inl e)
  let ?ev = "SdkPresignFiles (siteId s) (d_id d) (requiredFiles d)"
  show ?thesis
  proof (cases "err_code e = Some ''ECONNREFUSED''")
    case True
    then show ?thesis using uploadFiles_presign_fails[OF assms Inl, of files] Inl
      by (intro exI[of _ "[?ev, Log LError (err_message e)]"])
         (simp add: onUploadError_run requiredFiles_def)
  next
    case False
    then show ?thesis using uploadFiles_presign_fails[OF assms Inl, of files] Inl
      by (intro exI[of _ "[?ev]"]) (simp add: onUploadError_run requiredFiles_def)
  qed
next
  case (Inr ps)
  from uploadFiles_run[OF assms Inr, of files] obtain t where
    t: "snd (uploadFiles w d files s)
               = s\<lparr>trace := trace s @ SdkPresignFiles (siteId s) (d_id d) (requiredFiles d) # t\<rparr>"
       "presignRequests t = []"
       "uploadsOf t = []
        \<or> readable files (fsFiles s) ps \<and> uploadsOf t = payloads files (fsFiles s) ps"
       "fst (uploadFiles w d files s) = Return () \<longrightarrow> uploadsOf t = payloads files (fsFiles s) ps"
    by blast
  have "uploadable w files (fsFiles s) ps \<longrightarrow>
          fst (uploadFiles w d files s) = Return () \<and> uploadsOf t = payloads files (fsFiles s) ps"
    using uploadFiles_succeeds[OF assms Inr, of files] t(4) by blast
  then show ?thesis using t(1,2,3) Inr
    by (intro exI[of _ "SdkPresignFiles (siteId s) (d_id d) (requiredFiles d) # t"])
       (simp add: requiredFiles_def)
qed

theorem presign_request_is_the_required_subset_and_uploads_follow_the_answer_witness:
  "\<exists>t. snd (uploadFiles exampleWorld partialDeploy webAppFiles readyState)
          = readyState\<lparr>trace := trace readyState @ t\<rparr>
     \<and> presignRequests t = [[(''index.html'', ''text/html'')]]
     \<and> fst (uploadFiles exampleWorld partialDeploy webAppFiles readyState) = Return ()
     \<and> uploadsOf t = [(''https://upload/index.html'', ''<html></html>'')]"
proof -
  have sdk: "sdk readyState = Some ''token-1''"
    by (simp add: readyState_def)
  have req: "map (\<lambda>f. (df_key f, df_type f)) (filter df_required (d_files partialDeploy))
      = [(''index.html'', ''text/html'')]"
    by (simp add: partialDeploy_def)
  have ans: "sdk_presignFiles exampleWorld (siteId readyState) (d_id partialDeploy)
        [(''index.html'', ''text/html'')]
      = Inr [\<lparr>p_key = ''index.html'', p_presigned = ''https://upload/index.html''\<rparr>]"
    by (simp add: exampleWorld_def)
  have ok: "uploadable exampleWorld webAppFiles (fsFiles readyState)
      [\<lparr>p_key = ''index.html'', p_presigned = ''https://upload/index.html''\<rparr>]"
    by (simp add: uploadable_def localFile_def webAppFiles_def readyState_def freshState_def
        initial_def exampleFiles_def exampleWorld_def)
  have pay: "payloads webAppFiles (fsFiles readyState)
      [\<lparr>p_key = ''index.html'', p_presigned = ''https://upload/index.html''\<rparr>]
      = [(''https://upload/index.html'', ''<html></html>'')]"
    by (simp add: payloads_def localFile_def webAppFiles_def readyState_def freshState_def
        initial_def exampleFiles_def)
  from presign_request_is_the_required_subset_and_uploads_follow_the_answer
         [OF sdk, of exampleWorld partialDeploy webAppFiles]
  show ?thesis
    unfolding req ans using ok by (auto simp: pay)
qed

text \<open>
  The claim C8 as it was first stated fails: \<open>main.js\<close> is not marked required in the
  deploy of the scenario, the service returns a target for it all the same, and its
  content is uploaded.
\<close>

theorem unrequired_file_is_uploaded_when_the_service_returns_a_target:
  "requiredFiles partialDeploy = [(''index.html'', ''text/html'')]
   \<and> uploadsOf (trace (snd (uploadFiles eagerWorld partialDeploy webAppFiles readyState)))
       = [(''https://upload/index.html'', ''<html></html>''),
          (''https://upload/main.js'', ''main();'')]"
  by (simp add: uploadFiles_def eagerWorld_def exampleWorld_def partialDeploy_def webAppFiles_def
      readyState_def freshState_def initial_def requiredFiles_def sdkCall_def andThen_def
      emit_def await_def ret_def throw_def tryCatch_def localFile_def readFile_def
      exampleFiles_def lookupMisses_def settle_def logger_def)

subsection \<open>Deploying an app\<close>

lemma onCreateError_run:
  "onCreateError e s =
     (if err_code e = Some ''ECONNREFUSED''
      then (Exit 1, s\<lparr>trace := trace s @ [Log LError (err_message e)]\<rparr>)
      else if err_code e = Some ''NO_CHANGES_DETECTED''
      then (Return None, s\<lparr>trace := trace s @ [Log LInfo (err_message e)]\<rparr>)
      else (Exit 1, s\<lparr>trace := trace s @ [Log LInfo (err_message e)]\<rparr>))"
  by (simp add: onCreateError_def checkNetworkError_def andThen_assoc ret_def exit_def)

lemma createDeploy_some:
  "sdk s = Some tok \<Longrightarrow>
   createDeploy w pkg files opts s =
     (case sdk_createDeploy w (siteId s) (pkg_type pkg) (pkg_path pkg) files opts of
        Inl e \<Rightarrow> (Throw e, s\<lparr>trace := trace s @ [SdkCreateDeploy (siteId s) (pkg_type pkg) (pkg_path pkg) files opts]\<rparr>)
      | Inr d \<Rightarrow> (Return d, s\<lparr>trace := trace s @ [SdkCreateDeploy (siteId s) (pkg_type pkg) (pkg_path pkg) files opts]\<rparr>))"
  by (simp add: createDeploy_def sdkCall_some)

lemma deployApp_create_fails:
  assumes "sdk s = Some tok"
    and "sdk_getFilesDigest w (path_join (pkg_root pkg) ''build'') = Inr files"
    and "sdk_createDeploy w (siteId s) (pkg_type pkg) (pkg_path pkg) files (Some (pkg_ssr pkg)) = Inl e"
  shows "deployApp w pkg s = onCreateError e (s\<lparr>trace := trace s @ appPrefix s pkg files\<rparr>)"
proof -
  let ?s1 = "s\<lparr>trace := trace s @ [Log LLog ''Preparing deploy files...'']\<rparr>"
  let ?s2 = "s\<lparr>trace := trace s @ [Log LLog ''Preparing deploy files...'', SdkGetFilesDigest (path_join (pkg_root pkg) ''build'')]\<rparr>"
  let ?s3 = "s\<lparr>trace := trace s @ [Log LLog ''Preparing deploy files...'', SdkGetFilesDigest (path_join (pkg_root pkg) ''build''), Log LLog ''Creating a new deploy...'']\<rparr>"
  have d: "sdkCall ''getFilesDigest'' (\<lambda>_. SdkGetFilesDigest (path_join (pkg_root pkg) ''build''))
           (\<lambda>_. sdk_getFilesDigest w (path_join (pkg_root pkg) ''build'')) ?s1 = (Return files, ?s2)"
    using assms(1,2) by (simp add: sdkCall_some)
  have c: "createDeploy w pkg files (Some (pkg_ssr pkg)) ?s3 = (Throw e, s\<lparr>trace := trace s @ appPrefix s pkg files\<rparr>)"
    using assms(1,3) by (simp add: createDeploy_some appPrefix_def)
  show ?thesis
    using d c by (simp add: deployApp_def Let_def andThen_Return andThen_Throw tryCatch_Throw)
qed

lemma deployApp_created:
  assumes "sdk s = Some tok"
    and "sdk_getFilesDigest w (path_join (pkg_root pkg) ''build'') = Inr files"
    and "sdk_createDeploy w (siteId s) (pkg_type pkg) (pkg_path pkg) files (Some (pkg_ssr pkg)) = Inr d"
  shows "deployApp w pkg s =
           tryCatch (andThen (uploadFiles w d files) (\<lambda>_. ret (Some d))) onCreateError
             (s\<lparr>trace := trace s @ appPrefix s pkg files @
                  [Log LLog ''Uploading files (only new and modified files will be uploaded)...'']\<rparr>)"
proof -
  let ?s1 = "s\<lparr>trace := trace s @ [Log LLog ''Preparing deploy files...'']\<rparr>"
  let ?s2 = "s\<lparr>trace := trace s @ [Log LLog ''Preparing deploy files...'', SdkGetFilesDigest (path_join (pkg_root pkg) ''build'')]\<rparr>"
  let ?s3 = "s\<lparr>trace := trace s @ [Log LLog ''Preparing deploy files...'', SdkGetFilesDigest (path_join (pkg_root pkg) ''build''), Log LLog ''Creating a new deploy...'']\<rparr>"
  have d: "sdkCall ''getFilesDigest'' (\<lambda>_. SdkGetFilesDigest (path_join (pkg_root pkg) ''build''))
           (\<lambda>_. sdk_getFilesDigest w (path_join (pkg_root pkg) ''build'')) ?s1 = (Return files, ?s2)"
    using assms(1,2) by (simp add: sdkCall_some)
  have c: "createDeploy w pkg files (Some (pkg_ssr pkg)) ?s3 = (Return d, s\<lparr>trace := trace s @ appPrefix s pkg files\<rparr>)"
    using assms(1,3) by (simp add: createDeploy_some appPrefix_def)
  show ?thesis
    using d c by (simp add: deployApp_def Let_def andThen_Return tryCatch_def)
qed

lemma deployApp_lookup_miss:
  assumes "sdk s = Some tok"
    and "sdk_getFilesDigest w (path_join (pkg_root pkg) ''build'') = Inr files"
    and "sdk_createDeploy w (siteId s) (pkg_type pkg) (pkg_path pkg) files (Some (pkg_ssr pkg)) = Inr d"
    and "sdk_presignFiles w (siteId s) (d_id d) (requiredFiles d) = Inr ps"
    and "lookupMisses files ps"
  shows "\<exists>t. deployApp w pkg s = (Exit 1, s\<lparr>trace := trace s @ t\<rparr>) \<and> uploadsOf t = []"
proof -
  let ?s4 = "s\<lparr>trace := trace s @ appPrefix s pkg files @
                  [Log LLog ''Uploading files (only new and modified files will be uploaded)...'']\<rparr>"
  have "sdk ?s4 = Some tok" "sdk_presignFiles w (siteId ?s4) (d_id d) (requiredFiles d) = Inr ps"
    using assms by simp_all
  from uploadFiles_run[OF this, of files] assms(5) obtain t where
    t: "snd (uploadFiles w d files ?s4)
               = ?s4\<lparr>trace := trace ?s4 @ SdkPresignFiles (siteId ?s4) (d_id d) (requiredFiles d) # t\<rparr>"
       "fst (uploadFiles w d files ?s4) = Throw (typeError ''abs'')" "uploadsOf t = []"
    by blast
  let ?s5 = "?s4\<lparr>trace := trace ?s4 @ SdkPresignFiles (siteId ?s4) (d_id d) (requiredFiles d) # t\<rparr>"
  have "uploadFiles w d files ?s4 = (Throw (typeError ''abs''), ?s5)"
    using t(1,2) by (simp add: prod_eq_iff)
  then have "deployApp w pkg s = onCreateError (typeError ''abs'') ?s5"
    unfolding deployApp_created[OF assms(1,2,3)]
    by (simp add: andThen_Throw tryCatch_Throw)
  then show ?thesis using t(3)
    by (intro exI[of _ "appPrefix s pkg files @
                  [Log LLog ''Uploading files (only new and modified files will be uploaded)...''] @
                  SdkPresignFiles (siteId s) (d_id d) (requiredFiles d) # t @
                  [Log LInfo (err_message (typeError ''abs''))]"])
       (simp add: onCreateError_run typeError_def appPrefix_def)
qed

lemma lookupMisses_iff: "lookupMisses files ps \<longleftrightarrow> \<not> allMatched files ps"
  by (auto simp: lookupMisses_def allMatched_def list_all_iff list_ex_iff localFile_def find_None_iff)

subsection \<open>The command\<close>

lemma deploy_prepare:
  "deploy w name ci =
     andThen (prepare w ci) (\<lambda>packages.
       if truthy name then deploySingle w (the name) packages else deployBatch w packages)"
  by (simp add: deploy_def prepare_def andThen_assoc)

lemma deployPackage_undefined:
  "deployPackage w None s =
     (Exit 1, s\<lparr>trace := trace s @
        [Log LInfo ''Running build...'', Log LError (err_message (typeError ''root''))]\<rparr>)"
  by (simp add: deployPackage_def ensureBuild_def tryCatch_def andThen_def logger_def emit_def
      throw_def exit_def)

text \<open>
  C10. In single-package mode (a non-empty \<open>name\<close>), when the steps before the lookup
  return the discovered packages and none of them has that name, \<open>deployPackage\<close> is
  called on \<open>undefined\<close>: \<open>ensureBuild\<close> throws on \<open>pkg.root\<close>, the error is logged and the
  process exits with code 1.
\<close>

theorem unknown_package_name_exits_with_failure:
  assumes "name \<noteq> []"
    and "list_all (\<lambda>p. pkg_name p \<noteq> name) packages"
    and "prepare w ci s = (Return packages, s1)"
  shows "deploy w (Some name) ci s =
     (Exit 1, s1\<lparr>trace := trace s1 @
        [Log LInfo ''Running build...'', Log LError (err_message (typeError ''root''))]\<rparr>)"
proof -
  have "find (\<lambda>p. pkg_name p = name) packages = None"
    using assms(2) by (simp add: find_None_iff list_all_iff)
  then have "deploySingle w name packages s1 =
     (Exit 1, s1\<lparr>trace := trace s1 @
        [Log LInfo ''Running build...'', Log LError (err_message (typeError ''root''))]\<rparr>)"
    by (simp add: deploySingle_def andThen_Exit deployPackage_undefined)
  then show ?thesis
    using assms(1,3) by (simp add: deploy_prepare andThen_Return)
qed

lemma prepare_example:
  "prepare exampleWorld False freshState =
     (Return [unchangedApp, webApp],
      freshState\<lparr>siteId := Some ''site-1'', sdk := Some ''token-1'',
                 trace := [SdkWhoami ''token-1'', ListPackages]\<rparr>)"
  by (simp add: prepare_def setupSDK_def exampleWorld_def freshState_def initial_def
      getAccessToken_def getSiteId_def instantiateSDK_def sdkCall_def whoami_def andThen_def tryCatch_def
      emit_def await_def ret_def)

theorem unknown_package_name_exits_with_failure_witness:
  "deploy exampleWorld (Some ''nope'') False freshState =
     (Exit 1,
      freshState\<lparr>siteId := Some ''site-1'', sdk := Some ''token-1'',
                 trace := [SdkWhoami ''token-1'', ListPackages, Log LInfo ''Running build...'',
                           Log LError ''Cannot read property root of undefined'']\<rparr>)"
proof -
  have "''nope'' \<noteq> []" "list_all (\<lambda>p. pkg_name p \<noteq> ''nope'') [unchangedApp, webApp]"
    by (simp_all add: unchangedApp_def webApp_def)
  from unknown_package_name_exits_with_failure[OF this prepare_example]
  show ?thesis by (simp add: typeError_def)
qed

text \<open>
  C5. On a machine whose token comes from the environment and a service whose \<open>whoami\<close>
  fails with the error code \<open>ETIMEDOUT\<close>, \<open>setupSDK\<close> returns normally: its \<open>catch\<close> block
  only calls \<open>checkNetworkError\<close>, which acts on \<open>ECONNREFUSED\<close> alone. Nothing is logged,
  the process does not end, and \<open>deploy\<close> goes on to resolve the site and to discover
  the packages with a client whose token was never verified.
\<close>

theorem setupSDK_swallows_whoami_failure:
  "setupSDK whoamiDownWorld freshState =
     (Return (), freshState\<lparr>sdk := Some ''token-1'', trace := [SdkWhoami ''token-1'']\<rparr>)
   \<and> prepare whoamiDownWorld False freshState =
     (Return [unchangedApp, webApp],
      freshState\<lparr>siteId := Some ''site-1'', sdk := Some ''token-1'',
                 trace := [SdkWhoami ''token-1'', ListPackages]\<rparr>)"
  by (simp add: prepare_def setupSDK_def whoamiDownWorld_def exampleWorld_def freshState_def
      initial_def getAccessToken_def getSiteId_def instantiateSDK_def sdkCall_def whoami_def andThen_def
      tryCatch_def emit_def await_def ret_def throw_def checkNetworkError_def)

subsection \<open>What a run appends to the trace\<close>

lemma addsAt_same: "trace (snd (m s)) = trace s \<Longrightarrow> addsAt P m s"
  by (simp add: addsAt_def)

lemma addsAt_andThen:
  assumes "addsAt P m s" and "\<And>a s'. m s = (Return a, s') \<Longrightarrow> addsAt P (f a) s'"
  shows "addsAt P (andThen m f) s"
proof (cases "m s")
  case (Pair r s')
  from assms(1) Pair obtain t where t: "trace s' = trace s @ t" "list_all P t"
    by (auto simp: addsAt_def)
  show ?thesis
  proof (cases r)
    case (Return a)
    with assms(2) Pair obtain u where "trace (snd (f a s')) = trace s' @ u" "list_all P u"
      by (auto simp: addsAt_def)
    with t Return Pair show ?thesis
      by (auto simp: addsAt_def andThen_def intro!: exI[of _ "t @ u"])
  qed (use t Pair in \<open>auto simp: addsAt_def andThen_def\<close>)
qed

lemma addsAt_tryCatch:
  assumes "addsAt P m s" and "\<And>e s'. m s = (Throw e, s') \<Longrightarrow> addsAt P (h e) s'"
  shows "addsAt P (tryCatch m h) s"
proof (cases "m s")
  case (Pair r s')
  from assms(1) Pair obtain t where t: "trace s' = trace s @ t" "list_all P t"
    by (auto simp: addsAt_def)
  show ?thesis
  proof (cases r)
    case (Throw e)
    with assms(2) Pair obtain u where "trace (snd (h e s')) = trace s' @ u" "list_all P u"
      by (auto simp: addsAt_def)
    with t Throw Pair show ?thesis
      by (auto simp: addsAt_def tryCatch_def intro!: exI[of _ "t @ u"])
  qed (use t Pair in \<open>auto simp: addsAt_def tryCatch_def\<close>)
qed

lemma addsAt_mono: "addsAt P m s \<Longrightarrow> (\<And>e. P e \<Longrightarrow> Q e) \<Longrightarrow> addsAt Q m s"
  by (auto simp: addsAt_def list_all_iff)

lemma adds_at: "adds P m \<Longrightarrow> addsAt P m s"
  by (simp add: adds_def)

lemma adds_mono: "adds P m \<Longrightarrow> (\<And>e. P e \<Longrightarrow> Q e) \<Longrightarrow> adds Q m"
  unfolding adds_def using addsAt_mono by blast

lemma adds_andThen: "adds P m \<Longrightarrow> (\<And>a. adds P (f a)) \<Longrightarrow> adds P (andThen m f)"
  unfolding adds_def by (blast intro: addsAt_andThen)

lemma adds_tryCatch: "adds P m \<Longrightarrow> (\<And>e. adds P (h e)) \<Longrightarrow> adds P (tryCatch m h)"
  unfolding adds_def by (blast intro: addsAt_tryCatch)

lemma adds_state: "(\<And>s0. adds P (F s0)) \<Longrightarrow> adds P (\<lambda>s. F s s)"
  by (simp add: adds_def addsAt_def)

lemma adds_ret: "adds P (ret a)"
  by (simp add: adds_def addsAt_def ret_def)

lemma adds_throw: "adds P (throw e)"
  by (simp add: adds_def addsAt_def throw_def)

lemma adds_exit: "adds P (exit n)"
  by (simp add: adds_def addsAt_def exit_def)

lemma adds_hang: "adds P hang"
  by (simp add: adds_def addsAt_def hang_def)

lemma adds_emit: "P e \<Longrightarrow> adds P (emit e)"
  by (simp add: adds_def addsAt_def emit_def)

lemma adds_logger: "P (Log l msg) \<Longrightarrow> adds P (logger l msg)"
  by (simp add: logger_def adds_emit)

lemma adds_await: "adds P (await r)"
  by (cases r) (simp_all add: await_def adds_throw adds_ret)

lemma adds_if: "(c \<Longrightarrow> adds P a) \<Longrightarrow> (\<not> c \<Longrightarrow> adds P b) \<Longrightarrow> adds P (if c then a else b)"
  by simp

lemma adds_sdkCall: "(\<And>tok. P (ev tok)) \<Longrightarrow> adds P (sdkCall n ev ans)"
  unfolding adds_def
proof
  fix s assume p: "\<And>tok. P (ev tok)"
  show "addsAt P (sdkCall n ev ans) s"
  proof (cases "sdk s")
    case None
    then show ?thesis by (simp add: sdkCall_none addsAt_def)
  next
    case (Some tok)
    then show ?thesis using p[of tok]
      by (auto simp: sdkCall_some addsAt_def split: sum.splits)
  qed
qed

lemma adds_settle: "adds P m \<Longrightarrow> adds P (settle m)"
  unfolding adds_def addsAt_def settle_def
  by (auto split: prod.splits outcome.splits) (metis snd_conv)+

lemma adds_case_option:
  "(x = None \<Longrightarrow> adds P a) \<Longrightarrow> (\<And>y. x = Some y \<Longrightarrow> adds P (b y))
   \<Longrightarrow> adds P (case x of None \<Rightarrow> a | Some y \<Rightarrow> b y)"
  by (cases x) simp_all

lemma adds_case_sum:
  "(\<And>a. x = Inl a \<Longrightarrow> adds P (f a)) \<Longrightarrow> (\<And>b. x = Inr b \<Longrightarrow> adds P (g b))
   \<Longrightarrow> adds P (case x of Inl a \<Rightarrow> f a | Inr b \<Rightarrow> g b)"
  by (cases x) simp_all

lemmas adds_rules =
  adds_andThen adds_tryCatch adds_ret adds_throw adds_exit adds_hang adds_emit adds_logger
  adds_await adds_if adds_sdkCall adds_settle adds_case_option adds_case_sum

lemma adds_checkNetworkError: "P (Log LError (err_message e)) \<Longrightarrow> adds P (checkNetworkError e)"
  unfolding checkNetworkError_def by (intro adds_rules)

lemma adds_onUploadError: "adds noWrite (onUploadError e)"
  unfolding onUploadError_def by (intro adds_rules adds_checkNetworkError) simp

lemma adds_onCreateError: "adds noWrite (onCreateError e)"
  unfolding onCreateError_def by (intro adds_rules adds_checkNetworkError) simp_all

lemma adds_ensureBuild: "adds noWrite (ensureBuild w pkgo)"
  unfolding ensureBuild_def runExeca_def by (intro adds_rules) simp_all

lemma adds_writeFile: "adds P (writeFile out c)"
  by (simp add: adds_def addsAt_def writeFile_def)

lemma adds_archiveEvents: "adds noWrite (archiveEvents out evs)"
proof (induction evs)
  case Nil
  show ?case by (simp add: adds_hang)
next
  case (Cons ev evs)
  show ?case
  proof (cases ev)
    case (ArchWarning e)
    then show ?thesis using Cons by (simp del: andThen_logger) (intro adds_rules impI conjI; simp)
  next
    case (ArchError e)
    then show ?thesis by (simp del: andThen_logger) (intro adds_rules; simp)
  next
    case (ArchProgress a b)
    then show ?thesis using Cons by (simp del: andThen_logger) (intro adds_rules; simp)
  next
    case (ArchClose c)
    then show ?thesis by (simp del: andThen_logger) (intro adds_rules adds_writeFile; simp)
  qed
qed

lemma adds_createZip: "adds noWrite (createZip w a b)"
  unfolding createZip_def by (intro adds_rules adds_archiveEvents) simp

lemma adds_readFile: "adds noWrite (readFile p)"
  by (simp add: adds_def addsAt_def readFile_def)

lemma adds_startReads: "adds noWrite (startReads files ps)"
proof (induction ps)
  case Nil
  show ?case by (simp add: adds_ret)
next
  case (Cons p ps)
  show ?case
    unfolding startReads.simps by (intro adds_rules adds_readFile Cons)
qed

lemma adds_startUploads: "adds noWrite (startUploads w fcs)"
proof (induction fcs)
  case Nil
  show ?case by (simp add: adds_ret)
next
  case (Cons fc fcs)
  show ?case
    unfolding startUploads.simps by (intro adds_rules Cons) simp_all
qed

lemma adds_finishUploads: "adds noWrite (finishUploads xs)"
proof (induction xs)
  case Nil
  show ?case by (simp add: adds_ret)
next
  case (Cons x xs)
  show ?case
    unfolding finishUploads.simps by (intro adds_rules Cons) simp
qed

lemma adds_presign:
  "adds noWrite (\<lambda>s. sdkCall ''presignFiles''
                 (\<lambda>_. SdkPresignFiles (siteId s) (d_id d) (requiredFiles d))
                 (\<lambda>_. sdk_presignFiles w (siteId s) (d_id d) (requiredFiles d)) s)"
  by (rule adds_state[where F = "\<lambda>s0. sdkCall ''presignFiles''
                 (\<lambda>_. SdkPresignFiles (siteId s0) (d_id d) (requiredFiles d))
                 (\<lambda>_. sdk_presignFiles w (siteId s0) (d_id d) (requiredFiles d))"])
     (intro adds_sdkCall, simp)

lemma adds_uploadFiles: "adds noWrite (uploadFiles w d files)"
  unfolding uploadFiles_def
  by (intro adds_rules adds_presign adds_startReads adds_startUploads adds_finishUploads
      adds_onUploadError)

lemma adds_createDeploy: "adds noWrite (createDeploy w pkg files opts)"
proof -
  have "createDeploy w pkg files opts = (\<lambda>s. sdkCall ''createDeploy''
       (\<lambda>_. SdkCreateDeploy (siteId s) (pkg_type pkg) (pkg_path pkg) files opts)
       (\<lambda>_. sdk_createDeploy w (siteId s) (pkg_type pkg) (pkg_path pkg) files opts) s)"
    by (rule ext) (simp add: createDeploy_def)
  moreover have "adds noWrite (\<lambda>s. sdkCall ''createDeploy''
       (\<lambda>_. SdkCreateDeploy (siteId s) (pkg_type pkg) (pkg_path pkg) files opts)
       (\<lambda>_. sdk_createDeploy w (siteId s) (pkg_type pkg) (pkg_path pkg) files opts) s)"
    by (rule adds_state[where F = "\<lambda>s0. sdkCall ''createDeploy''
       (\<lambda>_. SdkCreateDeploy (siteId s0) (pkg_type pkg) (pkg_path pkg) files opts)
       (\<lambda>_. sdk_createDeploy w (siteId s0) (pkg_type pkg) (pkg_path pkg) files opts)"])
       (intro adds_sdkCall, simp)
  ultimately show ?thesis by simp
qed

lemma adds_getFileHash: "adds noWrite (getFileHash w p)"
proof -
  have "getFileHash w p = (\<lambda>s. sdkCall ''getFileHash'' (\<lambda>_. SdkGetFileHash p)
       (\<lambda>_. sdk_getFileHash w p (fsFiles s p)) s)"
    by (rule ext) (simp add: getFileHash_def)
  moreover have "adds noWrite (\<lambda>s. sdkCall ''getFileHash'' (\<lambda>_. SdkGetFileHash p)
       (\<lambda>_. sdk_getFileHash w p (fsFiles s p)) s)"
    by (rule adds_state[where F = "\<lambda>s0. sdkCall ''getFileHash'' (\<lambda>_. SdkGetFileHash p)
       (\<lambda>_. sdk_getFileHash w p (fsFiles s0 p))"]) (intro adds_sdkCall, simp)
  ultimately show ?thesis by simp
qed

lemma adds_isDeployActive: "adds noWrite (isDeployActive w did)"
proof -
  have "isDeployActive w did = (\<lambda>s. sdkCall ''isDeployActive'' (\<lambda>_. SdkIsDeployActive did)
       (\<lambda>_. sdk_isDeployActive w did (pollCount did s)) s)"
    by (rule ext) (simp add: isDeployActive_def)
  moreover have "adds noWrite (\<lambda>s. sdkCall ''isDeployActive'' (\<lambda>_. SdkIsDeployActive did)
       (\<lambda>_. sdk_isDeployActive w did (pollCount did s)) s)"
    by (rule adds_state[where F = "\<lambda>s0. sdkCall ''isDeployActive'' (\<lambda>_. SdkIsDeployActive did)
       (\<lambda>_. sdk_isDeployActive w did (pollCount did s0))"]) (intro adds_sdkCall, simp)
  ultimately show ?thesis by simp
qed

lemma adds_deployApp: "adds noWrite (deployApp w pkg)"
  unfolding deployApp_def Let_def
  by (intro adds_rules adds_createDeploy adds_uploadFiles adds_onCreateError) simp_all

lemma adds_deployFunction: "adds noWrite (deployFunction w pkg)"
  unfolding deployFunction_def Let_def
  by (intro adds_rules adds_createDeploy adds_uploadFiles adds_onCreateError adds_createZip
      adds_getFileHash) simp_all

lemma adds_deployPackage: "adds noWrite (deployPackage w pkgo)"
  unfolding deployPackage_def
  by (intro adds_rules adds_ensureBuild adds_deployApp adds_deployFunction) simp_all

lemma adds_waitRounds: "adds noWrite (waitRounds w d n)"
proof (induction n)
  case 0
  show ?case by (simp add: adds_ret)
next
  case (Suc n)
  show ?case
    unfolding waitRounds.simps sleep_def by (intro adds_rules adds_isDeployActive Suc) simp
qed

lemma adds_waitTillActive: "adds noWrite (waitTillActive w d)"
  by (simp add: waitTillActive_def adds_waitRounds)

lemma adds_activateDeploy: "adds noWrite (activateDeploy w did)"
  unfolding activateDeploy_def by (intro adds_rules) simp

lemma adds_createDeploys: "adds noWrite (createDeploys w pkgs ds)"
proof (induction pkgs arbitrary: ds)
  case Nil
  show ?case by (simp add: adds_ret)
next
  case (Cons pkg pkgs)
  show ?case
    unfolding createDeploys.simps by (intro adds_rules adds_deployPackage Cons) simp_all
qed

lemma adds_activateDeploys: "adds noWrite (activateDeploys w folders ds)"
proof (induction folders arbitrary: ds)
  case Nil
  show ?case by (simp add: adds_ret)
next
  case (Cons folder folders)
  show ?case
    unfolding activateDeploys.simps
    by (intro adds_rules adds_activateDeploy adds_waitTillActive Cons) simp_all
qed

lemma adds_logUrls: "adds noWrite (logUrls ds)"
proof (induction ds)
  case Nil
  show ?case by (simp add: adds_ret)
next
  case (Cons d ds)
  show ?case
    unfolding logUrls.simps by (intro adds_rules Cons) simp
qed

lemma adds_deploySingle: "adds noWrite (deploySingle w name packages)"
  unfolding deploySingle_def Let_def
  by (intro adds_rules adds_deployPackage adds_activateDeploy adds_waitTillActive) simp_all

lemma adds_deployBatch: "adds noWrite (deployBatch w packages)"
  unfolding deployBatch_def
  by (intro adds_rules adds_createDeploys adds_activateDeploys adds_logUrls) simp_all

subsection \<open>Values from the environment\<close>

lemma andThen_ReturnD:
  "andThen m f s = (Return b, s') \<Longrightarrow> \<exists>a s1. m s = (Return a, s1) \<and> f a s1 = (Return b, s')"
  by (cases "m s") (auto simp: andThen_def split: outcome.splits)

lemma tryCatch_ReturnD:
  "tryCatch m h s = (Return b, s') \<Longrightarrow>
     m s = (Return b, s') \<or> (\<exists>e s1. m s = (Throw e, s1) \<and> h e s1 = (Return b, s'))"
  by (cases "m s") (auto simp: tryCatch_def split: outcome.splits)

lemma adds_instantiateSDK: "adds P (instantiateSDK a)"
  by (simp add: adds_def addsAt_def instantiateSDK_def)

lemma adds_whoami: "(\<And>tok. P (SdkWhoami tok)) \<Longrightarrow> adds P (whoami w)"
proof -
  assume p: "\<And>tok. P (SdkWhoami tok)"
  have "whoami w = (\<lambda>s. sdkCall ''whoami'' SdkWhoami (\<lambda>tok. sdk_whoami w tok (whoamiCount s)) s)"
    by (rule ext) (simp add: whoami_def)
  moreover have "adds P (\<lambda>s. sdkCall ''whoami'' SdkWhoami
      (\<lambda>tok. sdk_whoami w tok (whoamiCount s)) s)"
    by (rule adds_state[where F = "\<lambda>s0. sdkCall ''whoami'' SdkWhoami
          (\<lambda>tok. sdk_whoami w tok (whoamiCount s0))"])
       (intro adds_sdkCall p)
  ultimately show ?thesis by simp
qed

lemma adds_validateToken: "adds noWrite (validateToken w a)"
  unfolding validateToken_def by (intro adds_rules adds_instantiateSDK adds_whoami) simp_all

lemma adds_askForToken: "adds noWrite (askForToken w as)"
proof (induction as)
  case Nil
  show ?case by (simp add: adds_hang)
next
  case (Cons a as)
  show ?case
    unfolding askForToken.simps by (intro adds_rules adds_validateToken Cons) simp
qed

text \<open>The answer of the token prompt is one of the inputs that were typed.\<close>

lemma askForToken_member:
  "askForToken w as s = (Return a, s') \<Longrightarrow> a \<in> set as"
proof (induction as arbitrary: s)
  case Nil
  then show ?case by (simp add: hang_def)
next
  case (Cons x as)
  let ?s1 = "s\<lparr>trace := trace s @ [PromptToken x]\<rparr>"
  from Cons.prems have
    "andThen (tryCatch (validateToken w x) (\<lambda>err. ret False))
       (\<lambda>accepted. if accepted then ret x else askForToken w as) ?s1 = (Return a, s')"
    by simp
  from andThen_ReturnD[OF this] obtain accepted s2 where
    k: "(if accepted then ret x else askForToken w as) s2 = (Return a, s')"
    by blast
  show ?case
  proof (cases accepted)
    case True
    with k show ?thesis by (simp add: ret_def)
  next
    case False
    with k have "askForToken w as s2 = (Return a, s')" by simp
    from Cons.IH[OF this] show ?thesis by simp
  qed
qed

lemma storeAccessToken_adds:
  "addsAt (\<lambda>e. \<exists>c. e = FsWriteJson WebinyConfigPath c \<and> map_of c ''accessToken'' = Some a)
     (storeAccessToken a) s"
  by (auto simp: storeAccessToken_def ensureFile_def writeJson_def andThen_def addsAt_def Let_def
      readJson_def update_conv' split: option.splits)

lemma storeSiteId_adds:
  "addsAt (\<lambda>e. \<exists>c. e = FsWriteJson ProjectConfigPath c) (storeSiteId a) s"
  by (auto simp: storeSiteId_def ensureFile_def writeJson_def andThen_def addsAt_def Let_def
      readJson_def split: option.splits)

lemma noWrite_envKept: "noWrite e \<Longrightarrow> envKept w e"
  by (cases e) (simp_all add: envKept_def)

lemma noWrite_notGlobalWrite: "noWrite e \<Longrightarrow> notGlobalWrite e"
  by (cases e) simp_all

lemma logs_envKept: "envKept w (Log l m)"
  by (simp add: envKept_def)

lemma ensureToken_envKept: "adds (envKept w) (ensureToken w)"
  unfolding adds_def ensureToken_def
proof
  fix s
  show "addsAt (envKept w)
      (andThen (askForToken w (tokenAnswers w)) (\<lambda>accessToken. storeAccessToken accessToken)) s"
  proof (rule addsAt_andThen)
    show "addsAt (envKept w) (askForToken w (tokenAnswers w)) s"
      using adds_askForToken[of w "tokenAnswers w"] noWrite_envKept
      by (blast intro: addsAt_mono adds_at)
  next
    fix a s'
    assume "askForToken w (tokenAnswers w) s = (Return a, s')"
    from askForToken_member[OF this]
    have "\<And>e. \<exists>c. e = FsWriteJson WebinyConfigPath c \<and> map_of c ''accessToken'' = Some a
        \<Longrightarrow> envKept w e"
      by (auto simp: envKept_def list_ex_iff)
    with storeAccessToken_adds[of a s'] show "addsAt (envKept w) (storeAccessToken a) s'"
      by (rule addsAt_mono)
  qed
qed

lemma adds_howTo: "adds (envKept w) howToCreateAToken"
  unfolding howToCreateAToken_def by (intro adds_logger logs_envKept)

lemma setupSDK_envKept: "adds (envKept w) (setupSDK w)"
  unfolding setupSDK_def
proof (rule adds_tryCatch)
  fix e
  show "adds (envKept w) (checkNetworkError e)"
    by (intro adds_checkNetworkError logs_envKept)
next
  have w: "envKept w (SdkWhoami tok)" for tok
    by (simp add: envKept_def)
  have login: "adds (envKept w)
      (andThen (logger LLog ''You are not logged in! Please enter your Personal Access Token.'')
         (\<lambda>_. andThen howToCreateAToken (\<lambda>_. ensureToken w)))"
    by (intro adds_rules logs_envKept adds_howTo ensureToken_envKept)
  have verify: "adds (envKept w)
      (andThen (instantiateSDK a)
         (\<lambda>_. andThen (whoami w)
                (\<lambda>user. if \<not> truthy user
                        then andThen (logger LError ''The existing token is invalid!'')
                              (\<lambda>_. andThen howToCreateAToken (\<lambda>_. ensureToken w))
                        else ret ())))" for a
    by (intro adds_rules logs_envKept adds_howTo ensureToken_envKept adds_instantiateSDK
        adds_whoami w)
  show "adds (envKept w)
     (\<lambda>s. let accessToken = getAccessToken w s
          in if \<not> truthy accessToken
             then andThen (logger LLog ''You are not logged in! Please enter your Personal Access Token.'')
                   (\<lambda>_. andThen howToCreateAToken (\<lambda>_. ensureToken w)) s
             else andThen (instantiateSDK (the accessToken))
                   (\<lambda>_. andThen (whoami w)
                          (\<lambda>user. if \<not> truthy user
                                  then andThen (logger LError ''The existing token is invalid!'')
                                        (\<lambda>_. andThen howToCreateAToken (\<lambda>_. ensureToken w))
                                  else ret ())) s)"
    unfolding adds_def
  proof
    fix s
    from adds_at[OF login, of s] adds_at[OF verify, of "the (getAccessToken w s)" s]
    show "addsAt (envKept w)
     (\<lambda>s. let accessToken = getAccessToken w s
          in if \<not> truthy accessToken
             then andThen (logger LLog ''You are not logged in! Please enter your Personal Access Token.'')
                   (\<lambda>_. andThen howToCreateAToken (\<lambda>_. ensureToken w)) s
             else andThen (instantiateSDK (the accessToken))
                   (\<lambda>_. andThen (whoami w)
                          (\<lambda>user. if \<not> truthy user
                                  then andThen (logger LError ''The existing token is invalid!'')
                                        (\<lambda>_. andThen howToCreateAToken (\<lambda>_. ensureToken w))
                                  else ret ())) s) s"
      by (simp add: addsAt_def Let_def)
  qed
qed

text \<open>
  With the token of the environment accepted, \<open>setupSDK\<close> builds the client with it and
  does nothing else.
\<close>

lemma setupSDK_accepted:
  assumes "WEBINY_ACCESS_TOKEN w = Some tok" "tok \<noteq> []"
    and "sdk_whoami w tok (whoamiCount s) = Inr user" "truthy user"
  shows "setupSDK w s = (Return (), s\<lparr>sdk := Some tok, trace := trace s @ [SdkWhoami tok]\<rparr>)"
proof -
  have g: "getAccessToken w s = Some tok"
    using assms(1,2) by (simp add: getAccessToken_def)
  have c: "whoamiCount (s\<lparr>sdk := Some tok\<rparr>) = whoamiCount s"
    by (simp add: whoamiCount_def)
  have "whoami w (s\<lparr>sdk := Some tok\<rparr>)
      = (Return user, s\<lparr>sdk := Some tok, trace := trace s @ [SdkWhoami tok]\<rparr>)"
    using assms(3) by (simp add: whoami_def c sdkCall_some[where tok = tok])
  then show ?thesis
    using g assms(2,4)
    by (simp add: setupSDK_def Let_def instantiateSDK_def andThen_def tryCatch_def ret_def)
qed

lemma validateCi_returns:
  "validateCiRequirements w s = (Return (), s0) \<Longrightarrow> s0 = s"
  by (auto simp: validateCiRequirements_def andThen_def logger_def emit_def exit_def ret_def
      split: if_splits)

lemma adds_askForSite: "adds noWrite (askForSite w)"
proof -
  have prompt: "adds noWrite (andThen (emit (PromptSite xs))
          (\<lambda>_. if siteAnswer w < length xs then ret (snd (xs ! siteAnswer w)) else hang))" for xs
    by (intro adds_rules) simp
  show ?thesis
    unfolding askForSite_def Let_def by (intro adds_andThen adds_sdkCall prompt) simp
qed

lemma adds_validateCi: "(\<And>l m. P (Log l m)) \<Longrightarrow> adds P (validateCiRequirements w)"
  unfolding validateCiRequirements_def by (intro adds_rules)

text \<open>
  The step of \<open>deploy\<close> that asks for a site and stores it: it is skipped when the site id
  is there, and otherwise the only file it writes is the project file.
\<close>

lemma siteStep_adds:
  assumes "truthy (siteId s) \<or> (\<forall>c. P (FsWriteJson ProjectConfigPath c))"
    and "\<And>e. noWrite e \<Longrightarrow> P e"
  shows "addsAt P
       (\<lambda>s. if \<not> truthy (siteId s)
            then andThen (askForSite w) (\<lambda>sid.
                 andThen (\<lambda>s. (Return (), s\<lparr>siteId := Some sid\<rparr>)) (\<lambda>_. storeSiteId sid)) s
            else ret () s) s"
proof (cases "truthy (siteId s)")
  case True
  then show ?thesis by (simp add: addsAt_def ret_def)
next
  case False
  with assms(1) have pw: "\<forall>c. P (FsWriteJson ProjectConfigPath c)" by blast
  have "addsAt P (andThen (askForSite w) (\<lambda>sid.
                 andThen (\<lambda>s. (Return (), s\<lparr>siteId := Some sid\<rparr>)) (\<lambda>_. storeSiteId sid))) s"
  proof (rule addsAt_andThen)
    show "addsAt P (askForSite w) s"
      using adds_askForSite[of w] assms(2) by (blast intro: addsAt_mono adds_at)
  next
    fix sid s'
    show "addsAt P
        (andThen (\<lambda>s. (Return (), s\<lparr>siteId := Some sid\<rparr>)) (\<lambda>_. storeSiteId sid)) s'"
    proof (rule addsAt_andThen)
      show "addsAt P (\<lambda>s. (Return (), s\<lparr>siteId := Some sid\<rparr>)) s'"
        by (simp add: addsAt_def)
    next
      fix a s''
      have "\<And>e. \<exists>c. e = FsWriteJson ProjectConfigPath c \<Longrightarrow> P e"
        using pw by auto
      with storeSiteId_adds[of sid s''] show "addsAt P (storeSiteId sid) s''"
        by (rule addsAt_mono)
    qed
  qed
  with False show ?thesis by (simp add: addsAt_def)
qed

text \<open>
  A property of events holds of all that \<open>deploy\<close> appends when it holds of the log lines,
  the calls and the prompts, of what \<open>setupSDK\<close> appends, and of the write of the project
  file in case the site id does not come from the environment.
\<close>

lemma deploy_adds:
  assumes nw: "\<And>e. noWrite e \<Longrightarrow> P e"
    and client: "\<And>s0. (if ci then validateCiRequirements w else ret ()) s = (Return (), s0)
                  \<Longrightarrow> addsAt P (setupSDK w) s0"
    and site: "truthy (WEBINY_SITE_ID w) \<or> (\<forall>c. P (FsWriteJson ProjectConfigPath c))"
  shows "addsAt P (deploy w name ci) s"
  unfolding deploy_def
proof (intro addsAt_andThen)
  show "addsAt P (if ci then validateCiRequirements w else ret ()) s"
    using nw by (simp add: adds_at adds_validateCi adds_ret)
next
  fix a s1
  assume "(if ci then validateCiRequirements w else ret ()) s = (Return a, s1)"
  then show "addsAt P (setupSDK w) s1"
    by (intro client) simp
next
  fix s2 show "addsAt P (\<lambda>s. (Return (), s\<lparr>siteId := getSiteId w s\<rparr>)) s2"
    by (simp add: addsAt_def)
next
  fix s2 s3 :: dstate and a :: unit
  assume "(Return (), s2\<lparr>siteId := getSiteId w s2\<rparr>) = (Return a, s3)"
  then have "truthy (WEBINY_SITE_ID w) \<longrightarrow> truthy (siteId s3)"
    by (auto simp: getSiteId_def)
  with site have "truthy (siteId s3) \<or> (\<forall>c. P (FsWriteJson ProjectConfigPath c))"
    by blast
  then show "addsAt P
       (\<lambda>s. if \<not> truthy (siteId s)
            then andThen (askForSite w) (\<lambda>sid.
                 andThen (\<lambda>s. (Return (), s\<lparr>siteId := Some sid\<rparr>)) (\<lambda>_. storeSiteId sid)) s
            else ret () s) s3"
    using nw by (rule siteStep_adds)
next
  fix s4 show "addsAt P (emit ListPackages) s4"
    by (intro adds_at adds_emit nw) simp
next
  fix s5 show "addsAt P (await (listPackages w)) s5"
    by (intro adds_at adds_await)
next
  fix packages s6
  show "addsAt P
        (if truthy name then deploySingle w (the name) packages else deployBatch w packages) s6"
    using adds_deploySingle[of w "the name" packages] adds_deployBatch[of w packages] nw
    by (auto intro: addsAt_mono adds_at)
qed

lemma deploy_envKept: "addsAt (envKept w) (deploy w name ci) s"
proof (rule deploy_adds)
  show "\<And>e. noWrite e \<Longrightarrow> envKept w e"
    by (rule noWrite_envKept)
  show "\<And>s0. addsAt (envKept w) (setupSDK w) s0"
    by (intro adds_at setupSDK_envKept)
  show "truthy (WEBINY_SITE_ID w) \<or> (\<forall>c. envKept w (FsWriteJson ProjectConfigPath c))"
    by (simp add: envKept_def)
qed

lemma deploy_accepted_notGlobalWrite:
  assumes "WEBINY_ACCESS_TOKEN w = Some tok" "tok \<noteq> []"
    and "sdk_whoami w tok (whoamiCount s) = Inr user" "truthy user"
  shows "addsAt notGlobalWrite (deploy w name ci) s"
proof (rule deploy_adds)
  show "\<And>e. noWrite e \<Longrightarrow> notGlobalWrite e"
    by (rule noWrite_notGlobalWrite)
  show "truthy (WEBINY_SITE_ID w) \<or> (\<forall>c. notGlobalWrite (FsWriteJson ProjectConfigPath c))"
    by simp
next
  fix s0
  assume "(if ci then validateCiRequirements w else ret ()) s = (Return (), s0)"
  then have "s0 = s"
    by (auto simp: ret_def dest: validateCi_returns split: if_splits)
  with setupSDK_accepted[OF assms] show "addsAt notGlobalWrite (setupSDK w) s0"
    by (simp add: addsAt_def)
qed

text \<open>
  With both values in the environment and the token accepted, \<open>deploy\<close> reaches the
  discovery of the packages with the client and the site id of the environment, and has
  neither read nor written a configuration file.
\<close>

lemma deploy_from_environment:
  assumes "WEBINY_ACCESS_TOKEN w = Some tok" "tok \<noteq> []" "truthy (WEBINY_SITE_ID w)"
    and "sdk_whoami w tok (whoamiCount s) = Inr user" "truthy user"
  shows "deploy w name ci s =
     andThen (await (listPackages w)) (\<lambda>packages.
       if truthy name then deploySingle w (the name) packages else deployBatch w packages)
       (s\<lparr>sdk := Some tok, siteId := WEBINY_SITE_ID w,
          trace := trace s @ [SdkWhoami tok, ListPackages]\<rparr>)"
proof -
  have ci: "(if ci then validateCiRequirements w else ret ()) s = (Return (), s)"
    using assms(1,2,3) by (simp add: validateCiRequirements_def ret_def)
  let ?s1 = "s\<lparr>sdk := Some tok, trace := trace s @ [SdkWhoami tok]\<rparr>"
  note built = setupSDK_accepted[OF assms(1,2,4,5)]
  have g: "getSiteId w ?s1 = WEBINY_SITE_ID w"
    using assms(3) by (simp add: getSiteId_def)
  let ?s2 = "?s1\<lparr>siteId := WEBINY_SITE_ID w\<rparr>"
  have site: "(\<lambda>s. (Return (), s\<lparr>siteId := getSiteId w s\<rparr>)) ?s1 = (Return (), ?s2)"
    using g by simp
  have skip: "(\<lambda>s. if \<not> truthy (siteId s)
            then andThen (askForSite w) (\<lambda>sid.
                 andThen (\<lambda>s. (Return (), s\<lparr>siteId := Some sid\<rparr>)) (\<lambda>_. storeSiteId sid)) s
            else ret () s) ?s2 = (Return (), ?s2)"
    using assms(3) by (simp add: ret_def)
  show ?thesis
    unfolding deploy_def using ci built site skip
    by (simp add: andThen_Return andThen_assoc)
qed

lemma writesOf_envKept:
  "list_all (envKept w) t \<Longrightarrow> (p, c) \<in> set (writesOf t) \<Longrightarrow>
     (p = ProjectConfigPath \<longrightarrow> \<not> truthy (WEBINY_SITE_ID w))
   \<and> (p = WebinyConfigPath \<longrightarrow> (\<exists>a \<in> set (tokenAnswers w). map_of c ''accessToken'' = Some a))"
proof (induction t)
  case Nil
  then show ?case by simp
next
  case (Cons e t)
  then show ?case
    by (cases e) (auto simp: envKept_def list_ex_iff split: cfgpath.splits)
qed

lemma writesOf_notGlobalWrite:
  "list_all notGlobalWrite t \<Longrightarrow> (WebinyConfigPath, c) \<notin> set (writesOf t)"
proof (induction t)
  case Nil
  then show ?case by simp
next
  case (Cons e t)
  then show ?case
  proof (cases e)
    case (FsWriteJson p c')
    with Cons show ?thesis by (cases p) auto
  qed auto
qed

lemma prepare_site:
  assumes "truthy (WEBINY_SITE_ID w)" "prepare w ci s = (Return packages, s1)"
  shows "siteId s1 = WEBINY_SITE_ID w"
  using assms
  by (auto simp: prepare_def andThen_def emit_def await_def ret_def throw_def getSiteId_def
      split: prod.splits outcome.splits sum.splits if_splits)

text \<open>
  C6, as amended. An access token or site id that is set (and not empty) in the
  environment is what \<open>getAccessToken\<close> or \<open>getSiteId\<close> returns, whatever the configuration
  files hold, and the run uses it: when the service accepts the token of the
  environment, \<open>setupSDK\<close> builds the client with it and does nothing else; when the site
  id comes from the environment, it is the site id of the run once the packages are
  discovered; and with both in place \<open>deploy\<close> reaches the discovery of the packages with
  that client and that site id, having neither read nor written a configuration file.
  A run with the site id from the environment never writes the project file. The global
  file is only written with a token that was typed at the token prompt, and not at all
  when the service accepts the token of the environment; so the token of the
  environment is stored only when the service refuses it and the person then types it
  again.
\<close>

theorem environment_values_are_used_first_and_stored_only_when_typed:
  "(truthy (WEBINY_ACCESS_TOKEN w) \<longrightarrow> getAccessToken w s = WEBINY_ACCESS_TOKEN w)
   \<and> (truthy (WEBINY_SITE_ID w) \<longrightarrow> getSiteId w s = WEBINY_SITE_ID w)
   \<and> (\<forall>tok user. WEBINY_ACCESS_TOKEN w = Some tok \<and> tok \<noteq> []
          \<and> sdk_whoami w tok (whoamiCount s) = Inr user \<and> truthy user \<longrightarrow>
        setupSDK w s = (Return (), s\<lparr>sdk := Some tok, trace := trace s @ [SdkWhoami tok]\<rparr>))
   \<and> (\<forall>packages s1. truthy (WEBINY_SITE_ID w) \<and> prepare w ci s = (Return packages, s1) \<longrightarrow>
        siteId s1 = WEBINY_SITE_ID w)
   \<and> (\<forall>tok user. WEBINY_ACCESS_TOKEN w = Some tok \<and> tok \<noteq> [] \<and> truthy (WEBINY_SITE_ID w)
          \<and> sdk_whoami w tok (whoamiCount s) = Inr user \<and> truthy user \<longrightarrow>
        deploy w name ci s =
          andThen (await (listPackages w)) (\<lambda>packages.
            if truthy name then deploySingle w (the name) packages else deployBatch w packages)
            (s\<lparr>sdk := Some tok, siteId := WEBINY_SITE_ID w,
               trace := trace s @ [SdkWhoami tok, ListPackages]\<rparr>))
   \<and> (\<exists>t. trace (snd (deploy w name ci s)) = trace s @ t
         \<and> (\<forall>c. truthy (WEBINY_SITE_ID w) \<longrightarrow> (ProjectConfigPath, c) \<notin> set (writesOf t))
         \<and> (\<forall>c. (WebinyConfigPath, c) \<in> set (writesOf t) \<longrightarrow>
                (\<exists>a \<in> set (tokenAnswers w). map_of c ''accessToken'' = Some a))
         \<and> (\<forall>tok user c. WEBINY_ACCESS_TOKEN w = Some tok \<and> tok \<noteq> []
                \<and> sdk_whoami w tok (whoamiCount s) = Inr user \<and> truthy user \<longrightarrow>
                (WebinyConfigPath, c) \<notin> set (writesOf t)))"
proof -
  from deploy_envKept[of w name ci s] obtain t where
    t: "trace (snd (deploy w name ci s)) = trace s @ t" "list_all (envKept w) t"
    by (auto simp: addsAt_def)
  have quietly: "(WebinyConfigPath, c) \<notin> set (writesOf t)"
    if "WEBINY_ACCESS_TOKEN w = Some tok" "tok \<noteq> []"
       "sdk_whoami w tok (whoamiCount s) = Inr user" "truthy user" for tok user c
  proof -
    from deploy_accepted_notGlobalWrite[OF that, of name ci] obtain t' where
      "trace (snd (deploy w name ci s)) = trace s @ t'" "list_all notGlobalWrite t'"
      by (auto simp: addsAt_def)
    with t(1) have "list_all notGlobalWrite t" by simp
    then show ?thesis by (rule writesOf_notGlobalWrite)
  qed
  have writes: "\<exists>t. trace (snd (deploy w name ci s)) = trace s @ t
         \<and> (\<forall>c. truthy (WEBINY_SITE_ID w) \<longrightarrow> (ProjectConfigPath, c) \<notin> set (writesOf t))
         \<and> (\<forall>c. (WebinyConfigPath, c) \<in> set (writesOf t) \<longrightarrow>
                (\<exists>a \<in> set (tokenAnswers w). map_of c ''accessToken'' = Some a))
         \<and> (\<forall>tok user c. WEBINY_ACCESS_TOKEN w = Some tok \<and> tok \<noteq> []
                \<and> sdk_whoami w tok (whoamiCount s) = Inr user \<and> truthy user \<longrightarrow>
                (WebinyConfigPath, c) \<notin> set (writesOf t))"
    using t(1) writesOf_envKept[OF t(2)] quietly by (intro exI[of _ t]) blast
  have used: "\<forall>tok user. WEBINY_ACCESS_TOKEN w = Some tok \<and> tok \<noteq> [] \<and> truthy (WEBINY_SITE_ID w)
          \<and> sdk_whoami w tok (whoamiCount s) = Inr user \<and> truthy user \<longrightarrow>
        deploy w name ci s =
          andThen (await (listPackages w)) (\<lambda>packages.
            if truthy name then deploySingle w (the name) packages else deployBatch w packages)
            (s\<lparr>sdk := Some tok, siteId := WEBINY_SITE_ID w,
               trace := trace s @ [SdkWhoami tok, ListPackages]\<rparr>)"
    using deploy_from_environment[of w _ s _ name ci] by blast
  have client: "\<forall>tok user. WEBINY_ACCESS_TOKEN w = Some tok \<and> tok \<noteq> []
          \<and> sdk_whoami w tok (whoamiCount s) = Inr user \<and> truthy user \<longrightarrow>
        setupSDK w s = (Return (), s\<lparr>sdk := Some tok, trace := trace s @ [SdkWhoami tok]\<rparr>)"
    using setupSDK_accepted[of w _ s] by blast
  have site: "\<forall>packages s1. truthy (WEBINY_SITE_ID w) \<and> prepare w ci s = (Return packages, s1) \<longrightarrow>
        siteId s1 = WEBINY_SITE_ID w"
    using prepare_site[of w ci s] by blast
  have getters: "(truthy (WEBINY_ACCESS_TOKEN w) \<longrightarrow> getAccessToken w s = WEBINY_ACCESS_TOKEN w)
   \<and> (truthy (WEBINY_SITE_ID w) \<longrightarrow> getSiteId w s = WEBINY_SITE_ID w)"
    by (simp add: getAccessToken_def getSiteId_def)
  from getters client site used writes show ?thesis by blast
qed

text \<open>
  The run of the scenario with a stale token in the environment: the prompt asks twice,
  and the token that is stored is the one typed there.
\<close>

lemma stale_token_run:
  "deploy staleTokenWorld (Some ''nope'') False storedState =
     (Exit 1,
      storedState\<lparr>siteId := Some ''site-1'', sdk := Some ''token-1'',
        webinyConfig := Some (Some [(''accessToken'', ''token-1'')]),
        trace := [SdkWhoami ''stale'', Log LError ''The existing token is invalid!'',
          Log LInfo ''To create a token, log into your Webiny account and create a token in the account settings.'',
          PromptToken '' '', PromptToken ''token-1'', UiBottomBar ''Verifying token...'',
          SdkWhoami ''token-1'',
          FsWriteJson WebinyConfigPath [(''accessToken'', ''token-1'')],
          ListPackages, Log LInfo ''Running build...'',
          Log LError ''Cannot read property root of undefined'']\<rparr>)"
  by (simp add: deploy_def setupSDK_def staleTokenWorld_def exampleWorld_def storedState_def
      initial_def getAccessToken_def getSiteId_def instantiateSDK_def sdkCall_def whoami_def
      whoamiCount_def validateToken_def andThen_def
      tryCatch_def emit_def await_def ret_def throw_def exit_def logger_def howToCreateAToken_def
      ensureToken_def trim_def isSpace_def storeAccessToken_def ensureFile_def readJson_def
      writeJson_def deploySingle_def deployPackage_def ensureBuild_def typeError_def
      unchangedApp_def webApp_def Let_def)

theorem environment_values_are_used_first_and_stored_only_when_typed_witness:
  "getAccessToken exampleWorld storedState = Some ''token-1''
   \<and> getSiteId exampleWorld storedState = Some ''site-1''
   \<and> setupSDK exampleWorld storedState
       = (Return (), storedState\<lparr>sdk := Some ''token-1'', trace := [SdkWhoami ''token-1'']\<rparr>)
   \<and> deploy exampleWorld (Some ''nope'') False storedState
       = deploySingle exampleWorld ''nope'' [unchangedApp, webApp]
           (storedState\<lparr>sdk := Some ''token-1'', siteId := Some ''site-1'',
              trace := [SdkWhoami ''token-1'', ListPackages]\<rparr>)
   \<and> (\<exists>t. trace (snd (deploy exampleWorld (Some ''nope'') False storedState))
             = trace storedState @ t
         \<and> (\<forall>c. (ProjectConfigPath, c) \<notin> set (writesOf t))
         \<and> (\<forall>c. (WebinyConfigPath, c) \<notin> set (writesOf t)))
   \<and> (\<exists>t. trace (snd (deploy staleTokenWorld (Some ''nope'') False storedState))
             = trace storedState @ t
         \<and> writesOf t = [(WebinyConfigPath, [(''accessToken'', ''token-1'')])]
         \<and> (\<forall>c. (ProjectConfigPath, c) \<notin> set (writesOf t))
         \<and> (\<exists>a \<in> set (tokenAnswers staleTokenWorld).
                map_of [(''accessToken'', ''token-1'')] ''accessToken'' = Some a))"
proof -
  have env: "WEBINY_ACCESS_TOKEN exampleWorld = Some ''token-1''" "''token-1'' \<noteq> []"
    "WEBINY_SITE_ID exampleWorld = Some ''site-1''"
    "sdk_whoami exampleWorld ''token-1'' (whoamiCount storedState) = Inr (Some ''user-1'')"
    "truthy (Some ''user-1'')" "listPackages exampleWorld = Inr [unchangedApp, webApp]"
    by (simp_all add: exampleWorld_def)
  have tr: "trace storedState = []"
    by (simp add: storedState_def initial_def)
  from environment_values_are_used_first_and_stored_only_when_typed
         [of exampleWorld storedState False "Some ''nope''"] env
  have a: "getAccessToken exampleWorld storedState = Some ''token-1''
   \<and> getSiteId exampleWorld storedState = Some ''site-1''
   \<and> setupSDK exampleWorld storedState
       = (Return (), storedState\<lparr>sdk := Some ''token-1'', trace := [SdkWhoami ''token-1'']\<rparr>)
   \<and> deploy exampleWorld (Some ''nope'') False storedState
       = deploySingle exampleWorld ''nope'' [unchangedApp, webApp]
           (storedState\<lparr>sdk := Some ''token-1'', siteId := Some ''site-1'',
              trace := [SdkWhoami ''token-1'', ListPackages]\<rparr>)
   \<and> (\<exists>t. trace (snd (deploy exampleWorld (Some ''nope'') False storedState))
             = trace storedState @ t
         \<and> (\<forall>c. (ProjectConfigPath, c) \<notin> set (writesOf t))
         \<and> (\<forall>c. (WebinyConfigPath, c) \<notin> set (writesOf t)))"
    by (auto simp: tr await_def)
  have site: "truthy (WEBINY_SITE_ID staleTokenWorld)"
    by (simp add: staleTokenWorld_def exampleWorld_def)
  from environment_values_are_used_first_and_stored_only_when_typed
         [of staleTokenWorld storedState False "Some ''nope''"] site
  obtain t where
    t: "trace (snd (deploy staleTokenWorld (Some ''nope'') False storedState)) = trace storedState @ t"
       "\<forall>c. (ProjectConfigPath, c) \<notin> set (writesOf t)"
       "\<forall>c. (WebinyConfigPath, c) \<in> set (writesOf t) \<longrightarrow>
            (\<exists>a \<in> set (tokenAnswers staleTokenWorld). map_of c ''accessToken'' = Some a)"
    by blast
  from t(1) have w: "writesOf t = [(WebinyConfigPath, [(''accessToken'', ''token-1'')])]"
    unfolding tr stale_token_run by auto
  with t(3) have "\<exists>a \<in> set (tokenAnswers staleTokenWorld).
                map_of [(''accessToken'', ''token-1'')] ''accessToken'' = Some a"
    by simp
  with t(1,2) w have b: "\<exists>t. trace (snd (deploy staleTokenWorld (Some ''nope'') False storedState))
             = trace storedState @ t
         \<and> writesOf t = [(WebinyConfigPath, [(''accessToken'', ''token-1'')])]
         \<and> (\<forall>c. (ProjectConfigPath, c) \<notin> set (writesOf t))
         \<and> (\<exists>a \<in> set (tokenAnswers staleTokenWorld).
                map_of [(''accessToken'', ''token-1'')] ''accessToken'' = Some a)"
    by blast
  from a b show ?thesis by blast
qed

text \<open>
  The claim C6 as it was first stated fails: the service refuses the token of the
  environment at first, the person types the same token at the prompt, the service now
  accepts it, and the token of the environment is written to the global file.
\<close>

theorem environment_token_is_stored_when_typed_again:
  "WEBINY_ACCESS_TOKEN flakyWorld = Some ''token-1''
   \<and> writesOf (trace (snd (deploy flakyWorld (Some ''nope'') False freshState)))
       = [(WebinyConfigPath, [(''accessToken'', ''token-1'')])]"
  by (simp add: deploy_def setupSDK_def flakyWorld_def exampleWorld_def freshState_def
      initial_def getAccessToken_def getSiteId_def instantiateSDK_def sdkCall_def whoami_def
      whoamiCount_def validateToken_def andThen_def
      tryCatch_def emit_def await_def ret_def throw_def exit_def logger_def howToCreateAToken_def
      ensureToken_def trim_def isSpace_def storeAccessToken_def ensureFile_def readJson_def
      writeJson_def deploySingle_def deployPackage_def ensureBuild_def typeError_def
      unchangedApp_def webApp_def Let_def)

subsection \<open>Deploying a function\<close>

lemma createDeployFiles_append [simp]:
  "createDeployFiles (a @ b) = createDeployFiles a @ createDeployFiles b"
  by (induction a) simp_all

lemma quiet_silent: "list_all quiet t \<Longrightarrow> createDeployFiles t = [] \<and> uploadsOf t = []"
proof (induction t)
  case Nil
  show ?case by simp
next
  case (Cons e t)
  then show ?case by (cases e) simp_all
qed

lemma notCreate_silent: "list_all notCreate t \<Longrightarrow> createDeployFiles t = []"
proof (induction t)
  case Nil
  show ?case by simp
next
  case (Cons e t)
  then show ?case by (cases e) simp_all
qed

lemma adds_startReads_notCreate: "adds notCreate (startReads files ps)"
proof (induction ps)
  case Nil
  show ?case by (simp add: adds_ret)
next
  case (Cons p ps)
  have "adds notCreate (readFile q)" for q
    by (simp add: adds_def addsAt_def readFile_def)
  then show ?case
    unfolding startReads.simps by (intro adds_rules Cons)
qed

lemma adds_startUploads_notCreate: "adds notCreate (startUploads w fcs)"
proof (induction fcs)
  case Nil
  show ?case by (simp add: adds_ret)
next
  case (Cons fc fcs)
  show ?case
    unfolding startUploads.simps by (intro adds_rules Cons) simp_all
qed

lemma adds_finishUploads_notCreate: "adds notCreate (finishUploads xs)"
proof (induction xs)
  case Nil
  show ?case by (simp add: adds_ret)
next
  case (Cons x xs)
  show ?case
    unfolding finishUploads.simps by (intro adds_rules Cons) simp
qed

lemma adds_uploadFiles_notCreate: "adds notCreate (uploadFiles w d files)"
proof -
  have presign: "adds notCreate (\<lambda>s. sdkCall ''presignFiles''
                 (\<lambda>_. SdkPresignFiles (siteId s) (d_id d) (requiredFiles d))
                 (\<lambda>_. sdk_presignFiles w (siteId s) (d_id d) (requiredFiles d)) s)"
    by (rule adds_state[where F = "\<lambda>s0. sdkCall ''presignFiles''
                 (\<lambda>_. SdkPresignFiles (siteId s0) (d_id d) (requiredFiles d))
                 (\<lambda>_. sdk_presignFiles w (siteId s0) (d_id d) (requiredFiles d))"])
       (intro adds_sdkCall, simp)
  have err: "adds notCreate (onUploadError e)" for e
    unfolding onUploadError_def by (intro adds_rules adds_checkNetworkError) simp
  show ?thesis
    unfolding uploadFiles_def
    by (intro adds_rules presign adds_startReads_notCreate adds_startUploads_notCreate
        adds_finishUploads_notCreate err)
qed

lemma adds_onCreateError_quiet: "adds quiet (onCreateError e)"
  unfolding onCreateError_def by (intro adds_rules adds_checkNetworkError) simp_all

lemma adds_archiveEvents_quiet: "adds quiet (archiveEvents out evs)"
proof (induction evs)
  case Nil
  show ?case by (simp add: adds_hang)
next
  case (Cons ev evs)
  show ?case
  proof (cases ev)
    case (ArchWarning e)
    then show ?thesis using Cons by (simp del: andThen_logger) (intro adds_rules impI conjI; simp)
  next
    case (ArchError e)
    then show ?thesis by (simp del: andThen_logger) (intro adds_rules; simp)
  next
    case (ArchProgress a b)
    then show ?thesis using Cons by (simp del: andThen_logger) (intro adds_rules; simp)
  next
    case (ArchClose c)
    then show ?thesis by (simp del: andThen_logger) (intro adds_rules adds_writeFile; simp)
  qed
qed

text \<open>What \<open>createZip\<close> leaves behind when it resolves.\<close>

lemma archiveEvents_resolves:
  "archiveEvents out evs s = (Return (), s') \<Longrightarrow>
     \<exists>content. archiveOf evs = Some content \<and> fsFiles s' out = Some content
       \<and> sdk s' = sdk s \<and> siteId s' = siteId s"
proof (induction evs arbitrary: s)
  case Nil
  then show ?case by (simp add: hang_def)
next
  case (Cons ev evs)
  show ?case
  proof (cases ev)
    case (ArchWarning e)
    show ?thesis
    proof (cases "err_code e = Some ''ENOENT''")
      case True
      with Cons.prems ArchWarning
      have "archiveEvents out evs (s\<lparr>trace := trace s @ [Log LInfo (err_message e)]\<rparr>) = (Return (), s')"
        by simp
      from Cons.IH[OF this] ArchWarning True show ?thesis by simp
    next
      case False
      with Cons.prems ArchWarning show ?thesis by (simp add: throw_def)
    qed
  next
    case (ArchError e)
    with Cons.prems show ?thesis by (simp add: throw_def)
  next
    case (ArchProgress a b)
    with Cons.prems
    have "archiveEvents out evs (s\<lparr>trace := trace s @
            [Log LLog (''Processing files '' @ showNat a @ ''/'' @ showNat b @ ''...'')]\<rparr>) = (Return (), s')"
      by simp
    from Cons.IH[OF this] ArchProgress show ?thesis by simp
  next
    case (ArchClose c)
    with Cons.prems show ?thesis
      by (auto simp: writeFile_def andThen_def logger_def emit_def)
  qed
qed

lemma archiveEvents_total:
  "archiveOf evs = Some content \<Longrightarrow>
     \<exists>s'. archiveEvents out evs s = (Return (), s') \<and> fsFiles s' out = Some content
        \<and> sdk s' = sdk s \<and> siteId s' = siteId s"
proof (induction evs arbitrary: s)
  case Nil
  then show ?case by simp
next
  case (Cons ev evs)
  show ?case
  proof (cases ev)
    case (ArchWarning e)
    with Cons.prems have en: "err_code e = Some ''ENOENT''" "archiveOf evs = Some content"
      by (auto split: if_splits)
    from Cons.IH[OF en(2), of "s\<lparr>trace := trace s @ [Log LInfo (err_message e)]\<rparr>"]
      ArchWarning en(1) show ?thesis by simp
  next
    case (ArchError e)
    with Cons.prems show ?thesis by simp
  next
    case (ArchProgress a b)
    with Cons.prems have en: "archiveOf evs = Some content" by simp
    from Cons.IH[OF en, of "s\<lparr>trace := trace s @
        [Log LLog (''Processing files '' @ showNat a @ ''/'' @ showNat b @ ''...'')]\<rparr>"]
      ArchProgress show ?thesis by simp
  next
    case (ArchClose c)
    with Cons.prems show ?thesis
      by (simp add: writeFile_def andThen_def logger_def emit_def)
  qed
qed

lemma andThen_stops:
  "\<forall>a. fst (m s) \<noteq> Return a \<Longrightarrow> snd (andThen m f s) = snd (m s)"
  by (cases "m s") (auto simp: andThen_def split: outcome.splits)

lemma adds_createZip_quiet: "adds quiet (createZip w a b)"
  unfolding createZip_def by (intro adds_rules adds_archiveEvents_quiet) simp

lemma createZip_resolves:
  assumes "createZip w bp out s = (Return (), s')"
  shows "\<exists>content. archiveOf (archiver w bp) = Some content \<and> fsFiles s' out = Some content
       \<and> sdk s' = sdk s \<and> siteId s' = siteId s"
proof -
  from assms
  have "archiveEvents out (archiver w bp) (s\<lparr>trace := trace s @ [Archive bp out]\<rparr>) = (Return (), s')"
    by (simp add: createZip_def)
  from archiveEvents_resolves[OF this] show ?thesis by simp
qed

text \<open>What follows an upload in \<open>deployApp\<close> and \<open>deployFunction\<close> adds log lines only.\<close>

lemma after_upload:
  "\<exists>t. trace (snd (tryCatch (andThen m (\<lambda>_. ret x)) onCreateError s)) = trace (snd (m s)) @ t
       \<and> list_all quiet t"
proof (cases "m s")
  case (Pair r s')
  show ?thesis
  proof (cases r)
    case (Return a)
    with Pair show ?thesis by (simp add: tryCatch_def andThen_def ret_def)
  next
    case (Throw e)
    from adds_at[OF adds_onCreateError_quiet, of e s'] Throw Pair show ?thesis
      by (simp add: tryCatch_def andThen_def addsAt_def)
  next
    case (Exit n)
    with Pair show ?thesis by (simp add: tryCatch_def andThen_def)
  next
    case Hang
    with Pair show ?thesis by (simp add: tryCatch_def andThen_def)
  qed
qed

lemma uploadFiles_uploads:
  assumes "sdk s = Some tok"
  shows "\<exists>t. trace (snd (uploadFiles w d files s)) = trace s @ t \<and> createDeployFiles t = []
     \<and> (uploadsOf t = []
         \<or> (\<exists>ps. sdk_presignFiles w (siteId s) (d_id d) (requiredFiles d) = Inr ps
               \<and> \<not> lookupMisses files ps \<and> uploadsOf t = payloads files (fsFiles s) ps))"
proof -
  from adds_at[OF adds_uploadFiles_notCreate, of w d files s] obtain t where
    t: "trace (snd (uploadFiles w d files s)) = trace s @ t" "list_all notCreate t"
    by (auto simp: addsAt_def)
  have "uploadsOf t = []
         \<or> (\<exists>ps. sdk_presignFiles w (siteId s) (d_id d) (requiredFiles d) = Inr ps
               \<and> \<not> lookupMisses files ps \<and> uploadsOf t = payloads files (fsFiles s) ps)"
  proof (cases "sdk_presignFiles w (siteId s) (d_id d) (requiredFiles d)")
    case (Inl e)
    from uploadFiles_presign_fails[OF assms Inl, of files] t(1) show ?thesis
      by (auto simp: onUploadError_run split: if_splits)
  next
    case (Inr ps)
    from uploadFiles_run[OF assms Inr, of files] obtain u where
      u: "snd (uploadFiles w d files s)
               = s\<lparr>trace := trace s @ SdkPresignFiles (siteId s) (d_id d) (requiredFiles d) # u\<rparr>"
         "lookupMisses files ps \<longrightarrow> uploadsOf u = []"
         "uploadsOf u = [] \<or> uploadsOf u = payloads files (fsFiles s) ps"
      by blast
    from u(1) t(1) have "t = SdkPresignFiles (siteId s) (d_id d) (requiredFiles d) # u"
      by simp
    then have "uploadsOf t = uploadsOf u" by simp
    with u(2,3) Inr show ?thesis by auto
  qed
  with t notCreate_silent[OF t(2)] show ?thesis by blast
qed

lemma zip_payloads:
  assumes "\<not> lookupMisses [zipRecord w h] ps" "fs (path_join (tempdir w) ''function.zip'') = Some content"
  shows "payloads [zipRecord w h] fs ps = map (\<lambda>p. (p_presigned p, content)) ps"
    and "list_all (\<lambda>p. p_key p = ''function.zip'') ps"
proof -
  have a: "\<forall>p \<in> set ps. localFile [zipRecord w h] p = Some (zipRecord w h) \<and> p_key p = ''function.zip''"
    using assms(1)
    by (auto simp: lookupMisses_def list_ex_iff localFile_def zipRecord_def split: if_splits)
  then show "payloads [zipRecord w h] fs ps = map (\<lambda>p. (p_presigned p, content)) ps"
    using assms(2) by (simp add: payloads_def zipRecord_def)
  from a show "list_all (\<lambda>p. p_key p = ''function.zip'') ps"
    by (simp add: list_all_iff)
qed

lemma same_keys_distinct:
  "list_all (\<lambda>p. p_key p = k) ps \<Longrightarrow> distinct (map p_key ps) \<Longrightarrow> length ps \<le> 1"
  by (cases ps; cases "tl ps") auto

text \<open>
  What \<open>deployFunction\<close> appends to the trace, whatever the archiver and the service do.
\<close>

lemma deployFunction_trace:
  "\<exists>t. trace (snd (deployFunction w pkg s)) = trace s @ t
     \<and> (createDeployFiles t = []
         \<or> (\<exists>content zipHash.
               archiveOf (archiver w (path_join (pkg_root pkg) ''build'')) = Some content
               \<and> sdk_getFileHash w (path_join (tempdir w) ''function.zip'') (Some content) = Inr zipHash
               \<and> createDeployFiles t = [[zipRecord w zipHash]]))
     \<and> (uploadsOf t = []
         \<or> (\<exists>content zipHash d ps.
               archiveOf (archiver w (path_join (pkg_root pkg) ''build'')) = Some content
               \<and> sdk_getFileHash w (path_join (tempdir w) ''function.zip'') (Some content) = Inr zipHash
               \<and> sdk_createDeploy w (siteId s) (pkg_type pkg) (pkg_path pkg) [zipRecord w zipHash] None
                   = Inr d
               \<and> sdk_presignFiles w (siteId s) (d_id d) (requiredFiles d) = Inr ps
               \<and> uploadsOf t = map (\<lambda>p. (p_presigned p, content)) ps))
     \<and> ((\<forall>zipHash d ps.
            sdk_createDeploy w (siteId s) (pkg_type pkg) (pkg_path pkg) [zipRecord w zipHash] None = Inr d
            \<and> sdk_presignFiles w (siteId s) (d_id d) (requiredFiles d) = Inr ps
            \<longrightarrow> distinct (map p_key ps))
          \<longrightarrow> length (uploadsOf t) \<le> 1)"
  (is "\<exists>t. ?tr t \<and> ?C t \<and> ?U t \<and> ?L t")
proof -
  let ?bp = "path_join (pkg_root pkg) ''build''"
  let ?zip = "path_join (tempdir w) ''function.zip''"
  let ?s0 = "s\<lparr>trace := trace s @ [Log LLog ''Preparing deploy files...'']\<rparr>"
  let ?block = "\<lambda>zipHash. andThen (createDeploy w pkg [zipRecord w zipHash] None) (\<lambda>deploy.
                 andThen (logger LLog ''Uploading function...'') (\<lambda>_.
                 andThen (uploadFiles w deploy [zipRecord w zipHash]) (\<lambda>_. ret (Some deploy))))"
  let ?rest = "tryCatch (andThen (getFileHash w ?zip) ?block) onCreateError"
  have df: "deployFunction w pkg s =
      andThen (createZip w ?bp ?zip) (\<lambda>_. andThen (logger LLog ''Creating a new deploy...'') (\<lambda>_. ?rest)) ?s0"
    by (simp add: deployFunction_def Let_def zipRecord_def)
  have quietI: "?tr t \<Longrightarrow> list_all quiet t \<Longrightarrow> \<exists>t. ?tr t \<and> ?C t \<and> ?U t \<and> ?L t" for t
    using quiet_silent[of t] by (intro exI[of _ t]) simp
  obtain r sz where z: "createZip w ?bp ?zip ?s0 = (r, sz)"
    by (cases "createZip w ?bp ?zip ?s0")
  from adds_at[OF adds_createZip_quiet, of w ?bp ?zip ?s0] z obtain tz where
    tz: "trace sz = trace s @ Log LLog ''Preparing deploy files...'' # tz" "list_all quiet tz"
    by (auto simp: addsAt_def)
  show ?thesis
  proof (cases "r = Return ()")
    case False
    then have "\<forall>a. fst (createZip w ?bp ?zip ?s0) \<noteq> Return a" using z by simp
    from andThen_stops[where m = "createZip w ?bp ?zip" and s = ?s0, OF this] z
    have "snd (deployFunction w pkg s) = sz"
      unfolding df by simp
    with tz show ?thesis
      by (intro quietI[of "Log LLog ''Preparing deploy files...'' # tz"]) simp_all
  next
    case True
    with z have z': "createZip w ?bp ?zip ?s0 = (Return (), sz)" by simp
    from createZip_resolves[OF z'] obtain content where
      c: "archiveOf (archiver w ?bp) = Some content" "fsFiles sz ?zip = Some content"
         "sdk sz = sdk s" "siteId sz = siteId s"
      by auto
    let ?s1 = "sz\<lparr>trace := trace sz @ [Log LLog ''Creating a new deploy...'']\<rparr>"
    let ?t1 = "Log LLog ''Preparing deploy files...'' # tz @ [Log LLog ''Creating a new deploy...'']"
    have t1: "trace ?s1 = trace s @ ?t1" "list_all quiet ?t1"
      using tz by simp_all
    have df1: "deployFunction w pkg s = ?rest ?s1"
      unfolding df using z' by (simp add: andThen_Return)
    show ?thesis
    proof (cases "sdk s")
      case None
      then have "getFileHash w ?zip ?s1 = (Throw (typeError ''getFileHash''), ?s1)"
        using c(3) by (simp add: getFileHash_def sdkCall_none)
      then have "deployFunction w pkg s = onCreateError (typeError ''getFileHash'') ?s1"
        unfolding df1 by (simp add: andThen_Throw tryCatch_Throw)
      with adds_at[OF adds_onCreateError_quiet, of "typeError ''getFileHash''" ?s1] t1
      obtain u where "trace (snd (deployFunction w pkg s)) = trace s @ ?t1 @ u" "list_all quiet u"
        by (auto simp: addsAt_def)
      with t1(2) show ?thesis
        by (intro quietI[of "?t1 @ u"]) simp_all
    next
      case (Some tok)
      let ?s2 = "?s1\<lparr>trace := trace ?s1 @ [SdkGetFileHash ?zip]\<rparr>"
      let ?t2 = "?t1 @ [SdkGetFileHash ?zip]"
      have t2: "trace ?s2 = trace s @ ?t2" "list_all quiet ?t2"
        using tz by simp_all
      have sdk1: "sdk ?s1 = Some tok" using Some c(3) by simp
      show ?thesis
      proof (cases "sdk_getFileHash w ?zip (Some content)")
        case (Inl e)
        then have "getFileHash w ?zip ?s1 = (Throw e, ?s2)"
          using sdk1 c(2) by (simp add: getFileHash_def sdkCall_some)
        then have "deployFunction w pkg s = onCreateError e ?s2"
          unfolding df1 by (simp add: andThen_Throw tryCatch_Throw)
        with adds_at[OF adds_onCreateError_quiet, of e ?s2] t2
        obtain u where "trace (snd (deployFunction w pkg s)) = trace s @ ?t2 @ u" "list_all quiet u"
          by (auto simp: addsAt_def)
        with t2(2) show ?thesis
          by (intro quietI[of "?t2 @ u"]) simp_all
      next
        case (Inr h)
        then have gh: "getFileHash w ?zip ?s1 = (Return h, ?s2)"
          using sdk1 c(2) by (simp add: getFileHash_def sdkCall_some)
        have df2: "deployFunction w pkg s = tryCatch (?block h) onCreateError ?s2"
          unfolding df1 using gh by (simp add: tryCatch_def andThen_Return)
        let ?ev = "SdkCreateDeploy (siteId s) (pkg_type pkg) (pkg_path pkg) [zipRecord w h] None"
        let ?s3 = "?s2\<lparr>trace := trace ?s2 @ [?ev]\<rparr>"
        let ?t3 = "?t2 @ [?ev]"
        have t3: "trace ?s3 = trace s @ ?t3" "createDeployFiles ?t3 = [[zipRecord w h]]"
          "uploadsOf ?t3 = []"
          using tz(1) quiet_silent[OF tz(2)] by simp_all
        have sdk2: "sdk ?s2 = Some tok" using Some c(3) by simp
        have C: "createDeployFiles t = [[zipRecord w h]] \<Longrightarrow> ?C t" for t
          using c(1) Inr by blast
        show ?thesis
        proof (cases "sdk_createDeploy w (siteId s) (pkg_type pkg) (pkg_path pkg) [zipRecord w h] None")
          case Inl2: (Inl e)
          then have "createDeploy w pkg [zipRecord w h] None ?s2 = (Throw e, ?s3)"
            using sdk2 c(4) by (simp add: createDeploy_some)
          then have "deployFunction w pkg s = onCreateError e ?s3"
            unfolding df2 by (simp add: andThen_Throw tryCatch_Throw)
          with adds_at[OF adds_onCreateError_quiet, of e ?s3] t3(1)
          obtain u where u: "trace (snd (deployFunction w pkg s)) = trace s @ ?t3 @ u" "list_all quiet u"
            by (auto simp: addsAt_def)
          have "?C (?t3 @ u)" using t3(2) quiet_silent[OF u(2)] by (intro C) simp
          moreover have "uploadsOf (?t3 @ u) = []"
            using t3(3) quiet_silent[OF u(2)] by simp
          ultimately show ?thesis using u(1)
            by (intro exI[of _ "?t3 @ u"]) simp
        next
          case Inr2: (Inr d)
          then have cd: "createDeploy w pkg [zipRecord w h] None ?s2 = (Return d, ?s3)"
            using sdk2 c(4) by (simp add: createDeploy_some)
          let ?s4 = "?s3\<lparr>trace := trace ?s3 @ [Log LLog ''Uploading function...'']\<rparr>"
          let ?t4 = "?t3 @ [Log LLog ''Uploading function...'']"
          have df3: "deployFunction w pkg s =
              tryCatch (andThen (uploadFiles w d [zipRecord w h]) (\<lambda>_. ret (Some d))) onCreateError ?s4"
            unfolding df2 using cd by (simp add: tryCatch_def andThen_Return)
          have sdk4: "sdk ?s4 = Some tok" using Some c(3) by simp
          from uploadFiles_uploads[OF sdk4, of w d "[zipRecord w h]"] obtain t5 where
            t5: "trace (snd (uploadFiles w d [zipRecord w h] ?s4)) = trace ?s4 @ t5"
                "createDeployFiles t5 = []"
                "uploadsOf t5 = []
                 \<or> (\<exists>ps. sdk_presignFiles w (siteId ?s4) (d_id d) (requiredFiles d) = Inr ps
                       \<and> \<not> lookupMisses [zipRecord w h] ps
                       \<and> uploadsOf t5 = payloads [zipRecord w h] (fsFiles ?s4) ps)"
            by blast
          from after_upload[of "uploadFiles w d [zipRecord w h]" "Some d" ?s4] obtain u where
            u: "trace (snd (deployFunction w pkg s))
                  = trace (snd (uploadFiles w d [zipRecord w h] ?s4)) @ u" "list_all quiet u"
            unfolding df3 by blast
          let ?t = "?t4 @ t5 @ u"
          have tr: "?tr ?t" using u(1) t5(1) t3(1) by simp
          have ups: "uploadsOf ?t = uploadsOf t5"
            using t3(3) quiet_silent[OF u(2)] by simp
          have "createDeployFiles ?t = [[zipRecord w h]]"
            using t3(2) t5(2) quiet_silent[OF u(2)] by simp
          then have cc: "?C ?t" by (rule C)
          have "?U ?t \<and> ?L ?t"
          proof (cases "uploadsOf t5 = []")
            case True
            with ups show ?thesis by simp
          next
            case False
            with t5(3) obtain ps where
              ps: "sdk_presignFiles w (siteId s) (d_id d) (requiredFiles d) = Inr ps"
                  "\<not> lookupMisses [zipRecord w h] ps"
                  "uploadsOf t5 = payloads [zipRecord w h] (fsFiles ?s4) ps"
              using c(4) by auto
            have fs: "fsFiles ?s4 ?zip = Some content" using c(2) by simp
            note zp = zip_payloads[where fs = "fsFiles ?s4", OF ps(2) fs]
            have "uploadsOf ?t = map (\<lambda>p. (p_presigned p, content)) ps"
              using ups ps(3) zp(1) by simp
            with c(1) Inr Inr2 ps(1) have U: "?U ?t"
              by blast
            have L: "?L ?t"
            proof
              assume "\<forall>zipHash d ps.
                sdk_createDeploy w (siteId s) (pkg_type pkg) (pkg_path pkg) [zipRecord w zipHash] None = Inr d
                \<and> sdk_presignFiles w (siteId s) (d_id d) (requiredFiles d) = Inr ps
                \<longrightarrow> distinct (map p_key ps)"
              with Inr2 ps(1) have "distinct (map p_key ps)" by blast
              from same_keys_distinct[OF zp(2) this] show "length (uploadsOf ?t) \<le> 1"
                using ups ps(3) zp(1) by simp
            qed
            from U L show ?thesis by blast
          qed
          with tr cc show ?thesis by blast
        qed
      qed
    qed
  qed
qed

text \<open>With a client, an archive and its hash, \<open>deployFunction\<close> gets to \<open>createDeploy\<close>.\<close>

lemma deployFunction_hashed:
  assumes "sdk s = Some tok"
    and "archiveOf (archiver w (path_join (pkg_root pkg) ''build'')) = Some content"
    and "sdk_getFileHash w (path_join (tempdir w) ''function.zip'') (Some content) = Inr h"
  shows "\<exists>s2 t2. deployFunction w pkg s =
            tryCatch
              (andThen (createDeploy w pkg [zipRecord w h] None) (\<lambda>deploy.
               andThen (logger LLog ''Uploading function...'') (\<lambda>_.
               andThen (uploadFiles w deploy [zipRecord w h]) (\<lambda>_. ret (Some deploy)))))
              onCreateError s2
     \<and> trace s2 = trace s @ t2 \<and> list_all quiet t2
     \<and> sdk s2 = Some tok \<and> siteId s2 = siteId s
     \<and> fsFiles s2 (path_join (tempdir w) ''function.zip'') = Some content"
proof -
  let ?bp = "path_join (pkg_root pkg) ''build''"
  let ?zip = "path_join (tempdir w) ''function.zip''"
  let ?s0 = "s\<lparr>trace := trace s @ [Log LLog ''Preparing deploy files...'']\<rparr>"
  let ?block = "\<lambda>zipHash. andThen (createDeploy w pkg [zipRecord w zipHash] None) (\<lambda>deploy.
                 andThen (logger LLog ''Uploading function...'') (\<lambda>_.
                 andThen (uploadFiles w deploy [zipRecord w zipHash]) (\<lambda>_. ret (Some deploy))))"
  let ?rest = "tryCatch (andThen (getFileHash w ?zip) ?block) onCreateError"
  have df: "deployFunction w pkg s =
      andThen (createZip w ?bp ?zip) (\<lambda>_. andThen (logger LLog ''Creating a new deploy...'') (\<lambda>_. ?rest)) ?s0"
    by (simp add: deployFunction_def Let_def zipRecord_def)
  from archiveEvents_total[OF assms(2), of ?zip "?s0\<lparr>trace := trace ?s0 @ [Archive ?bp ?zip]\<rparr>"]
  obtain sz where
    t: "archiveEvents ?zip (archiver w ?bp) (?s0\<lparr>trace := trace ?s0 @ [Archive ?bp ?zip]\<rparr>)
          = (Return (), sz)"
       "fsFiles sz ?zip = Some content" "sdk sz = sdk s" "siteId sz = siteId s"
    by auto
  have z: "createZip w ?bp ?zip ?s0 = (Return (), sz)"
    using t(1) by (simp add: createZip_def)
  from adds_at[OF adds_createZip_quiet, of w ?bp ?zip ?s0] z obtain tz where
    tz: "trace sz = trace s @ Log LLog ''Preparing deploy files...'' # tz" "list_all quiet tz"
    by (auto simp: addsAt_def)
  let ?s1 = "sz\<lparr>trace := trace sz @ [Log LLog ''Creating a new deploy...'']\<rparr>"
  let ?s2 = "?s1\<lparr>trace := trace ?s1 @ [SdkGetFileHash ?zip]\<rparr>"
  have df1: "deployFunction w pkg s = ?rest ?s1"
    unfolding df using z by (simp add: andThen_Return)
  have gh: "getFileHash w ?zip ?s1 = (Return h, ?s2)"
    using assms(1,3) t(2,3) by (simp add: getFileHash_def sdkCall_some)
  have df2: "deployFunction w pkg s = tryCatch (?block h) onCreateError ?s2"
    unfolding df1 using gh by (simp add: tryCatch_def andThen_Return)
  show ?thesis
    using df2 tz t(2,3,4) assms(1)
    by (intro exI[of _ ?s2]
        exI[of _ "Log LLog ''Preparing deploy files...'' # tz
                  @ [Log LLog ''Creating a new deploy...'', SdkGetFileHash ?zip]"]) simp
qed

lemma quiet_notCreate: "quiet e \<Longrightarrow> notCreate e"
  by (cases e) simp_all

lemma adds_onCreateError_notCreate: "adds notCreate (onCreateError e)"
  by (rule adds_mono[OF adds_onCreateError_quiet]) (rule quiet_notCreate)

text \<open>Once \<open>createDeploy\<close> is called, it is not called again.\<close>

lemma created_once:
  assumes "sdk s = Some tok"
  shows "\<exists>u. trace (snd (tryCatch
                 (andThen (createDeploy w pkg files opts) (\<lambda>deploy.
                  andThen (logger LLog msg) (\<lambda>_.
                  andThen (uploadFiles w deploy files) (\<lambda>_. ret (Some deploy)))))
                 onCreateError s))
            = trace s @ SdkCreateDeploy (siteId s) (pkg_type pkg) (pkg_path pkg) files opts # u
       \<and> list_all notCreate u"
proof (cases "sdk_createDeploy w (siteId s) (pkg_type pkg) (pkg_path pkg) files opts")
  case (Inl e)
  let ?s3 = "s\<lparr>trace := trace s @ [SdkCreateDeploy (siteId s) (pkg_type pkg) (pkg_path pkg) files opts]\<rparr>"
  from Inl have "createDeploy w pkg files opts s = (Throw e, ?s3)"
    using assms by (simp add: createDeploy_some)
  then have "tryCatch
                 (andThen (createDeploy w pkg files opts) (\<lambda>deploy.
                  andThen (logger LLog msg) (\<lambda>_.
                  andThen (uploadFiles w deploy files) (\<lambda>_. ret (Some deploy)))))
                 onCreateError s = onCreateError e ?s3"
    by (simp add: andThen_Throw tryCatch_Throw)
  with adds_at[OF adds_onCreateError_notCreate, of e ?s3] show ?thesis
    by (auto simp: addsAt_def)
next
  case (Inr d)
  let ?s3 = "s\<lparr>trace := trace s @ [SdkCreateDeploy (siteId s) (pkg_type pkg) (pkg_path pkg) files opts]\<rparr>"
  let ?after = "tryCatch (andThen (logger LLog msg) (\<lambda>_.
                  andThen (uploadFiles w d files) (\<lambda>_. ret (Some d)))) onCreateError"
  from Inr have cd: "createDeploy w pkg files opts s = (Return d, ?s3)"
    using assms by (simp add: createDeploy_some)
  have eq: "tryCatch
                 (andThen (createDeploy w pkg files opts) (\<lambda>deploy.
                  andThen (logger LLog msg) (\<lambda>_.
                  andThen (uploadFiles w deploy files) (\<lambda>_. ret (Some deploy)))))
                 onCreateError s = ?after ?s3"
    using cd by (simp add: tryCatch_def andThen_Return)
  have "adds notCreate ?after"
    by (intro adds_rules adds_uploadFiles_notCreate adds_onCreateError_notCreate) simp_all
  from adds_at[OF this, of ?s3] show ?thesis
    unfolding eq by (auto simp: addsAt_def)
qed

lemma deployFunction_creates:
  assumes "sdk s = Some tok"
    and "archiveOf (archiver w (path_join (pkg_root pkg) ''build'')) = Some content"
    and "sdk_getFileHash w (path_join (tempdir w) ''function.zip'') (Some content) = Inr h"
  shows "\<exists>t. trace (snd (deployFunction w pkg s)) = trace s @ t
           \<and> createDeployFiles t = [[zipRecord w h]]"
proof -
  from deployFunction_hashed[OF assms] obtain s2 t2 where
    h: "deployFunction w pkg s =
            tryCatch
              (andThen (createDeploy w pkg [zipRecord w h] None) (\<lambda>deploy.
               andThen (logger LLog ''Uploading function...'') (\<lambda>_.
               andThen (uploadFiles w deploy [zipRecord w h]) (\<lambda>_. ret (Some deploy)))))
              onCreateError s2"
       "trace s2 = trace s @ t2" "list_all quiet t2" "sdk s2 = Some tok"
    by blast
  from created_once[OF h(4), of w pkg "[zipRecord w h]" None "''Uploading function...''"]
  obtain u where
    u: "trace (snd (deployFunction w pkg s))
          = trace s2 @ SdkCreateDeploy (siteId s2) (pkg_type pkg) (pkg_path pkg) [zipRecord w h] None # u"
       "list_all notCreate u"
    unfolding h(1) by blast
  show ?thesis
    using u(1) h(2) quiet_silent[OF h(3)] notCreate_silent[OF u(2)]
    by (intro exI[of _ "t2 @ SdkCreateDeploy (siteId s2) (pkg_type pkg) (pkg_path pkg)
                               [zipRecord w h] None # u"]) simp
qed

text \<open>
  When the targets that the service returns are all for \<open>function.zip\<close> and it accepts the
  archive at each of them, \<open>deployFunction\<close> returns the deploy.
\<close>

lemma deployFunction_succeeds:
  assumes "sdk s = Some tok"
    and "archiveOf (archiver w (path_join (pkg_root pkg) ''build'')) = Some content"
    and "sdk_getFileHash w (path_join (tempdir w) ''function.zip'') (Some content) = Inr h"
    and "sdk_createDeploy w (siteId s) (pkg_type pkg) (pkg_path pkg) [zipRecord w h] None = Inr d"
    and "sdk_presignFiles w (siteId s) (d_id d) (requiredFiles d) = Inr ps"
    and "list_all (\<lambda>p. p_key p = ''function.zip''
                     \<and> sdk_uploadPresignedFile w (p_presigned p) content = Inr ()) ps"
  shows "fst (deployFunction w pkg s) = Return (Some d)
     \<and> (\<exists>t. trace (snd (deployFunction w pkg s)) = trace s @ t
            \<and> uploadsOf t = map (\<lambda>p. (p_presigned p, content)) ps)"
proof -
  let ?zip = "path_join (tempdir w) ''function.zip''"
  from deployFunction_hashed[OF assms(1,2,3)] obtain s2 t2 where
    h: "deployFunction w pkg s =
            tryCatch
              (andThen (createDeploy w pkg [zipRecord w h] None) (\<lambda>deploy.
               andThen (logger LLog ''Uploading function...'') (\<lambda>_.
               andThen (uploadFiles w deploy [zipRecord w h]) (\<lambda>_. ret (Some deploy)))))
              onCreateError s2"
       "trace s2 = trace s @ t2" "list_all quiet t2" "sdk s2 = Some tok" "siteId s2 = siteId s"
       "fsFiles s2 ?zip = Some content"
    by blast
  let ?ev = "SdkCreateDeploy (siteId s) (pkg_type pkg) (pkg_path pkg) [zipRecord w h] None"
  let ?s4 = "s2\<lparr>trace := trace s2 @ [?ev, Log LLog ''Uploading function...'']\<rparr>"
  have cd: "createDeploy w pkg [zipRecord w h] None s2 = (Return d, s2\<lparr>trace := trace s2 @ [?ev]\<rparr>)"
    using h(4,5) assms(4) by (simp add: createDeploy_some)
  have df: "deployFunction w pkg s =
      tryCatch (andThen (uploadFiles w d [zipRecord w h]) (\<lambda>_. ret (Some d))) onCreateError ?s4"
    unfolding h(1) using cd by (simp add: tryCatch_def andThen_Return)
  have sdk4: "sdk ?s4 = Some tok" using h(4) by simp
  have ps4: "sdk_presignFiles w (siteId ?s4) (d_id d) (requiredFiles d) = Inr ps"
    using assms(5) h(5) by simp
  have ok: "uploadable w [zipRecord w h] (fsFiles ?s4) ps"
    using assms(6) h(6)
    by (simp add: uploadable_def localFile_def zipRecord_def list_all_iff)
  note ret = uploadFiles_succeeds[OF sdk4 ps4 ok]
  from uploadFiles_run[OF sdk4 ps4, of "[zipRecord w h]"] ret obtain t5 where
    t5: "snd (uploadFiles w d [zipRecord w h] ?s4)
           = ?s4\<lparr>trace := trace ?s4 @ SdkPresignFiles (siteId ?s4) (d_id d) (requiredFiles d) # t5\<rparr>"
        "uploadsOf t5 = payloads [zipRecord w h] (fsFiles ?s4) ps"
    by blast
  let ?s5 = "?s4\<lparr>trace := trace ?s4 @ SdkPresignFiles (siteId ?s4) (d_id d) (requiredFiles d) # t5\<rparr>"
  have up: "uploadFiles w d [zipRecord w h] ?s4 = (Return (), ?s5)"
    using ret t5(1) by (simp add: prod_eq_iff)
  have res: "deployFunction w pkg s = (Return (Some d), ?s5)"
    unfolding df using up by (simp add: tryCatch_def andThen_Return ret_def)
  have fs: "fsFiles ?s4 ?zip = Some content" using h(6) by simp
  note zp = zip_payloads[where fs = "fsFiles ?s4", OF uploadable_found[OF ok] fs]
  have "uploadsOf (t2 @ [?ev, Log LLog ''Uploading function...'']
                   @ SdkPresignFiles (siteId ?s4) (d_id d) (requiredFiles d) # t5)
          = map (\<lambda>p. (p_presigned p, content)) ps"
    using quiet_silent[OF h(3)] t5(2) zp(1) by simp
  then show ?thesis
    unfolding res using h(2)
    by (intro conjI exI[of _ "t2 @ [?ev, Log LLog ''Uploading function...'']
                   @ SdkPresignFiles (siteId ?s4) (d_id d) (requiredFiles d) # t5"]) simp_all
qed

text \<open>
  C7, as amended. Whatever the build directory holds and whatever the service answers,
  \<open>deployFunction\<close> calls \<open>createDeploy\<close> at most once, and then with exactly one file
  record: key \<open>function.zip\<close>, type \<open>application/zip\<close>, the path of the archive in the
  temporary directory, and as hash what \<open>getFileHash\<close> gives for the archive with which
  \<open>createZip\<close> resolved. It does call \<open>createDeploy\<close> with that record whenever the client
  is set up, the archiver closes the archive and \<open>getFileHash\<close> returns. The uploads of
  the package are none, or one for every presigned target that the service returned for
  the deploy, each of them carrying the archive; so the number of uploads is the number
  of targets, which the service decides. When the targets are all for \<open>function.zip\<close>
  and the service accepts the archive at each of them, \<open>deployFunction\<close> returns the
  deploy after exactly these uploads. When the service only returns targets with
  distinct keys, at most one upload happens.
\<close>

theorem function_deploy_submits_the_archive_as_its_only_file:
  "\<exists>t. trace (snd (deployFunction w pkg s)) = trace s @ t
     \<and> (createDeployFiles t = []
         \<or> (\<exists>content zipHash.
               archiveOf (archiver w (path_join (pkg_root pkg) ''build'')) = Some content
               \<and> sdk_getFileHash w (path_join (tempdir w) ''function.zip'') (Some content) = Inr zipHash
               \<and> createDeployFiles t =
                   [[\<lparr>f_key = ''function.zip'', f_hash = zipHash,
                      f_abs = path_join (tempdir w) ''function.zip'',
                      f_type = ''application/zip''\<rparr>]]))
     \<and> (\<forall>tok content zipHash.
           sdk s = Some tok
           \<and> archiveOf (archiver w (path_join (pkg_root pkg) ''build'')) = Some content
           \<and> sdk_getFileHash w (path_join (tempdir w) ''function.zip'') (Some content) = Inr zipHash
           \<longrightarrow> createDeployFiles t = [[zipRecord w zipHash]])
     \<and> (uploadsOf t = []
         \<or> (\<exists>content zipHash d ps.
               archiveOf (archiver w (path_join (pkg_root pkg) ''build'')) = Some content
               \<and> sdk_getFileHash w (path_join (tempdir w) ''function.zip'') (Some content) = Inr zipHash
               \<and> sdk_createDeploy w (siteId s) (pkg_type pkg) (pkg_path pkg) [zipRecord w zipHash] None
                   = Inr d
               \<and> sdk_presignFiles w (siteId s) (d_id d) (requiredFiles d) = Inr ps
               \<and> uploadsOf t = map (\<lambda>p. (p_presigned p, content)) ps))
     \<and> (\<forall>tok content zipHash d ps.
           sdk s = Some tok
           \<and> archiveOf (archiver w (path_join (pkg_root pkg) ''build'')) = Some content
           \<and> sdk_getFileHash w (path_join (tempdir w) ''function.zip'') (Some content) = Inr zipHash
           \<and> sdk_createDeploy w (siteId s) (pkg_type pkg) (pkg_path pkg) [zipRecord w zipHash] None
               = Inr d
           \<and> sdk_presignFiles w (siteId s) (d_id d) (requiredFiles d) = Inr ps
           \<and> list_all (\<lambda>p. p_key p = ''function.zip''
                            \<and> sdk_uploadPresignedFile w (p_presigned p) content = Inr ()) ps
           \<longrightarrow> fst (deployFunction w pkg s) = Return (Some d)
               \<and> uploadsOf t = map (\<lambda>p. (p_presigned p, content)) ps)
     \<and> ((\<forall>zipHash d ps.
            sdk_createDeploy w (siteId s) (pkg_type pkg) (pkg_path pkg) [zipRecord w zipHash] None = Inr d
            \<and> sdk_presignFiles w (siteId s) (d_id d) (requiredFiles d) = Inr ps
            \<longrightarrow> distinct (map p_key ps))
          \<longrightarrow> length (uploadsOf t) \<le> 1)"
proof -
  from deployFunction_trace[of w pkg s] obtain t where
    t: "trace (snd (deployFunction w pkg s)) = trace s @ t"
       "createDeployFiles t = []
         \<or> (\<exists>content zipHash.
               archiveOf (archiver w (path_join (pkg_root pkg) ''build'')) = Some content
               \<and> sdk_getFileHash w (path_join (tempdir w) ''function.zip'') (Some content) = Inr zipHash
               \<and> createDeployFiles t = [[zipRecord w zipHash]])"
       "uploadsOf t = []
         \<or> (\<exists>content zipHash d ps.
               archiveOf (archiver w (path_join (pkg_root pkg) ''build'')) = Some content
               \<and> sdk_getFileHash w (path_join (tempdir w) ''function.zip'') (Some content) = Inr zipHash
               \<and> sdk_createDeploy w (siteId s) (pkg_type pkg) (pkg_path pkg) [zipRecord w zipHash] None
                   = Inr d
               \<and> sdk_presignFiles w (siteId s) (d_id d) (requiredFiles d) = Inr ps
               \<and> uploadsOf t = map (\<lambda>p. (p_presigned p, content)) ps)"
       "(\<forall>zipHash d ps.
            sdk_createDeploy w (siteId s) (pkg_type pkg) (pkg_path pkg) [zipRecord w zipHash] None = Inr d
            \<and> sdk_presignFiles w (siteId s) (d_id d) (requiredFiles d) = Inr ps
            \<longrightarrow> distinct (map p_key ps))
          \<longrightarrow> length (uploadsOf t) \<le> 1"
    by blast
  have same: "t' = t" if "trace (snd (deployFunction w pkg s)) = trace s @ t'" for t'
    using that t(1) by simp
  have one: "createDeployFiles t = []
         \<or> (\<exists>content zipHash.
               archiveOf (archiver w (path_join (pkg_root pkg) ''build'')) = Some content
               \<and> sdk_getFileHash w (path_join (tempdir w) ''function.zip'') (Some content) = Inr zipHash
               \<and> createDeployFiles t =
                   [[\<lparr>f_key = ''function.zip'', f_hash = zipHash,
                      f_abs = path_join (tempdir w) ''function.zip'',
                      f_type = ''application/zip''\<rparr>]])"
    using t(2) by (simp add: zipRecord_def)
  have made: "\<forall>tok content zipHash.
           sdk s = Some tok
           \<and> archiveOf (archiver w (path_join (pkg_root pkg) ''build'')) = Some content
           \<and> sdk_getFileHash w (path_join (tempdir w) ''function.zip'') (Some content) = Inr zipHash
           \<longrightarrow> createDeployFiles t = [[zipRecord w zipHash]]"
  proof (intro allI impI)
    fix tok content zipHash
    assume a: "sdk s = Some tok
           \<and> archiveOf (archiver w (path_join (pkg_root pkg) ''build'')) = Some content
           \<and> sdk_getFileHash w (path_join (tempdir w) ''function.zip'') (Some content) = Inr zipHash"
    from deployFunction_creates[of s tok w pkg content zipHash] a obtain t' where
      "trace (snd (deployFunction w pkg s)) = trace s @ t'"
      "createDeployFiles t' = [[zipRecord w zipHash]]"
      by blast
    with same show "createDeployFiles t = [[zipRecord w zipHash]]" by blast
  qed
  have sent: "\<forall>tok content zipHash d ps.
           sdk s = Some tok
           \<and> archiveOf (archiver w (path_join (pkg_root pkg) ''build'')) = Some content
           \<and> sdk_getFileHash w (path_join (tempdir w) ''function.zip'') (Some content) = Inr zipHash
           \<and> sdk_createDeploy w (siteId s) (pkg_type pkg) (pkg_path pkg) [zipRecord w zipHash] None
               = Inr d
           \<and> sdk_presignFiles w (siteId s) (d_id d) (requiredFiles d) = Inr ps
           \<and> list_all (\<lambda>p. p_key p = ''function.zip''
                            \<and> sdk_uploadPresignedFile w (p_presigned p) content = Inr ()) ps
           \<longrightarrow> fst (deployFunction w pkg s) = Return (Some d)
               \<and> uploadsOf t = map (\<lambda>p. (p_presigned p, content)) ps"
  proof (intro allI impI)
    fix tok content zipHash d ps
    assume a: "sdk s = Some tok
           \<and> archiveOf (archiver w (path_join (pkg_root pkg) ''build'')) = Some content
           \<and> sdk_getFileHash w (path_join (tempdir w) ''function.zip'') (Some content) = Inr zipHash
           \<and> sdk_createDeploy w (siteId s) (pkg_type pkg) (pkg_path pkg) [zipRecord w zipHash] None
               = Inr d
           \<and> sdk_presignFiles w (siteId s) (d_id d) (requiredFiles d) = Inr ps
           \<and> list_all (\<lambda>p. p_key p = ''function.zip''
                            \<and> sdk_uploadPresignedFile w (p_presigned p) content = Inr ()) ps"
    from deployFunction_succeeds[of s tok w pkg content zipHash d ps] a obtain t' where
      "fst (deployFunction w pkg s) = Return (Some d)"
      "trace (snd (deployFunction w pkg s)) = trace s @ t'"
      "uploadsOf t' = map (\<lambda>p. (p_presigned p, content)) ps"
      by blast
    with same show "fst (deployFunction w pkg s) = Return (Some d)
               \<and> uploadsOf t = map (\<lambda>p. (p_presigned p, content)) ps"
      by blast
  qed
  from t(1) one made t(3) sent t(4) show ?thesis
    by (intro exI[of _ t] conjI)
qed

text \<open>The function deploy of the scenario, run from start to end.\<close>

lemma function_run:
  "deployFunction exampleWorld apiFn readyState =
     (Return (Some \<lparr>d_id = ''deploy-1'',
                    d_files = [\<lparr>df_key = ''function.zip'', df_type = ''application/zip'',
                                df_required = True\<rparr>],
                    d_url = None\<rparr>),
      readyState\<lparr>fsFiles := (fsFiles readyState)(''/tmp/function.zip'' := Some ''zip-bytes''),
        trace :=
          [Log LLog ''Preparing deploy files...'',
           Archive ''/repo/api-fn/build'' ''/tmp/function.zip'',
           Log LLog ''Processing files 3/3...'',
           Log LSuccess ''Function archive created!'',
           Log LLog ''Creating a new deploy...'',
           SdkGetFileHash ''/tmp/function.zip'',
           SdkCreateDeploy (Some ''site-1'') ''function'' ''/api''
             [\<lparr>f_key = ''function.zip'', f_hash = ''c3'', f_abs = ''/tmp/function.zip'',
               f_type = ''application/zip''\<rparr>] None,
           Log LLog ''Uploading function...'',
           SdkPresignFiles (Some ''site-1'') ''deploy-1'' [(''function.zip'', ''application/zip'')],
           FsReadFile ''/tmp/function.zip'',
           SdkUploadPresignedFile ''https://upload/function.zip'' ''zip-bytes'',
           Log LSuccess ''function.zip'']\<rparr>)"
  by (simp add: deployFunction_def createZip_def getFileHash_def createDeploy_def uploadFiles_def
      exampleWorld_def apiFn_def readyState_def freshState_def initial_def requiredFiles_def
      sdkCall_def andThen_def emit_def await_def ret_def throw_def tryCatch_def localFile_def
      readFile_def exampleFiles_def lookupMisses_def settle_def logger_def writeFile_def
      path_join_def showNat.simps Let_def)

theorem function_deploy_submits_the_archive_as_its_only_file_witness:
  "\<exists>t. trace (snd (deployFunction exampleWorld apiFn readyState)) = trace readyState @ t
     \<and> createDeployFiles t
         = [[\<lparr>f_key = ''function.zip'', f_hash = ''c3'', f_abs = ''/tmp/function.zip'',
              f_type = ''application/zip''\<rparr>]]
     \<and> fst (deployFunction exampleWorld apiFn readyState)
         = Return (Some \<lparr>d_id = ''deploy-1'',
                    d_files = [\<lparr>df_key = ''function.zip'', df_type = ''application/zip'',
                                df_required = True\<rparr>],
                    d_url = None\<rparr>)
     \<and> uploadsOf t = [(''https://upload/function.zip'', ''zip-bytes'')]
     \<and> length (uploadsOf t) \<le> 1"
proof -
  let ?d = "\<lparr>d_id = ''deploy-1'',
             d_files = [\<lparr>df_key = ''function.zip'', df_type = ''application/zip'',
                         df_required = True\<rparr>],
             d_url = None\<rparr>"
  let ?ps = "[\<lparr>p_key = ''function.zip'', p_presigned = ''https://upload/function.zip''\<rparr>]"
  have contract: "\<forall>zipHash d ps.
      sdk_createDeploy exampleWorld (siteId readyState) (pkg_type apiFn) (pkg_path apiFn)
        [zipRecord exampleWorld zipHash] None = Inr d
      \<and> sdk_presignFiles exampleWorld (siteId readyState) (d_id d) (requiredFiles d) = Inr ps
      \<longrightarrow> distinct (map p_key ps)"
    by (auto simp: exampleWorld_def apiFn_def zipRecord_def requiredFiles_def)
  have given: "sdk readyState = Some ''token-1''"
    "archiveOf (archiver exampleWorld (path_join (pkg_root apiFn) ''build'')) = Some ''zip-bytes''"
    "sdk_getFileHash exampleWorld (path_join (tempdir exampleWorld) ''function.zip'')
       (Some ''zip-bytes'') = Inr ''c3''"
    "sdk_createDeploy exampleWorld (siteId readyState) (pkg_type apiFn) (pkg_path apiFn)
        [zipRecord exampleWorld ''c3''] None = Inr ?d"
    "sdk_presignFiles exampleWorld (siteId readyState) (d_id ?d) (requiredFiles ?d) = Inr ?ps"
    "list_all (\<lambda>p. p_key p = ''function.zip''
                 \<and> sdk_uploadPresignedFile exampleWorld (p_presigned p) ''zip-bytes'' = Inr ()) ?ps"
    by (simp_all add: exampleWorld_def apiFn_def readyState_def zipRecord_def requiredFiles_def)
  have z: "zipRecord exampleWorld ''c3'' =
      \<lparr>f_key = ''function.zip'', f_hash = ''c3'', f_abs = ''/tmp/function.zip'',
        f_type = ''application/zip''\<rparr>"
    by (simp add: zipRecord_def exampleWorld_def path_join_def)
  from function_deploy_submits_the_archive_as_its_only_file[of exampleWorld apiFn readyState]
  obtain t where
    t: "trace (snd (deployFunction exampleWorld apiFn readyState)) = trace readyState @ t"
       "\<forall>tok content zipHash.
           sdk readyState = Some tok
           \<and> archiveOf (archiver exampleWorld (path_join (pkg_root apiFn) ''build'')) = Some content
           \<and> sdk_getFileHash exampleWorld (path_join (tempdir exampleWorld) ''function.zip'')
               (Some content) = Inr zipHash
           \<longrightarrow> createDeployFiles t = [[zipRecord exampleWorld zipHash]]"
       "\<forall>tok content zipHash d ps.
           sdk readyState = Some tok
           \<and> archiveOf (archiver exampleWorld (path_join (pkg_root apiFn) ''build'')) = Some content
           \<and> sdk_getFileHash exampleWorld (path_join (tempdir exampleWorld) ''function.zip'')
               (Some content) = Inr zipHash
           \<and> sdk_createDeploy exampleWorld (siteId readyState) (pkg_type apiFn) (pkg_path apiFn)
               [zipRecord exampleWorld zipHash] None = Inr d
           \<and> sdk_presignFiles exampleWorld (siteId readyState) (d_id d) (requiredFiles d) = Inr ps
           \<and> list_all (\<lambda>p. p_key p = ''function.zip''
                            \<and> sdk_uploadPresignedFile exampleWorld (p_presigned p) content = Inr ()) ps
           \<longrightarrow> fst (deployFunction exampleWorld apiFn readyState) = Return (Some d)
               \<and> uploadsOf t = map (\<lambda>p. (p_presigned p, content)) ps"
       "(\<forall>zipHash d ps.
            sdk_createDeploy exampleWorld (siteId readyState) (pkg_type apiFn) (pkg_path apiFn)
              [zipRecord exampleWorld zipHash] None = Inr d
            \<and> sdk_presignFiles exampleWorld (siteId readyState) (d_id d) (requiredFiles d) = Inr ps
            \<longrightarrow> distinct (map p_key ps))
          \<longrightarrow> length (uploadsOf t) \<le> 1"
    by blast
  from t(2) given(1,2,3) have a: "createDeployFiles t = [[zipRecord exampleWorld ''c3'']]"
    by blast
  from t(3) given have b: "fst (deployFunction exampleWorld apiFn readyState) = Return (Some ?d)
      \<and> uploadsOf t = map (\<lambda>p. (p_presigned p, ''zip-bytes'')) ?ps"
    by blast
  from t(4) contract have c: "length (uploadsOf t) \<le> 1"
    by blast
  from t(1) a b c show ?thesis
    unfolding z by (intro exI[of _ t]) simp
qed

text \<open>
  The claim C7 as it was first stated fails: for the function package of the scenario
  the service returns two presigned targets for \<open>function.zip\<close>, and the archive is
  uploaded twice.
\<close>

theorem function_archive_is_uploaded_once_for_every_target:
  "pkg_type apiFn = ''function''
   \<and> uploadsOf (trace (snd (deployFunction doubleTargetWorld apiFn readyState)))
       = [(''https://upload/first'', ''zip-bytes''), (''https://upload/second'', ''zip-bytes'')]"
  by (simp add: deployFunction_def createZip_def getFileHash_def createDeploy_def uploadFiles_def
      doubleTargetWorld_def exampleWorld_def apiFn_def readyState_def freshState_def initial_def
      requiredFiles_def sdkCall_def andThen_def emit_def await_def ret_def throw_def tryCatch_def
      localFile_def readFile_def exampleFiles_def lookupMisses_def settle_def logger_def
      writeFile_def path_join_def showNat.simps Let_def)

subsection \<open>Presigned files without a local file\<close>

lemma deployFunction_lookup_miss:
  assumes "sdk s = Some tok"
    and "archiveOf (archiver w (path_join (pkg_root pkg) ''build'')) = Some content"
    and "sdk_getFileHash w (path_join (tempdir w) ''function.zip'') (Some content) = Inr h"
    and "sdk_createDeploy w (siteId s) (pkg_type pkg) (pkg_path pkg) [zipRecord w h] None = Inr d"
    and "sdk_presignFiles w (siteId s) (d_id d) (requiredFiles d) = Inr ps"
    and "lookupMisses [zipRecord w h] ps"
  shows "fst (deployFunction w pkg s) = Exit 1
     \<and> (\<exists>t. trace (snd (deployFunction w pkg s)) = trace s @ t \<and> uploadsOf t = [])"
proof -
  from deployFunction_hashed[OF assms(1,2,3)] obtain s2 t2 where
    h: "deployFunction w pkg s =
            tryCatch
              (andThen (createDeploy w pkg [zipRecord w h] None) (\<lambda>deploy.
               andThen (logger LLog ''Uploading function...'') (\<lambda>_.
               andThen (uploadFiles w deploy [zipRecord w h]) (\<lambda>_. ret (Some deploy)))))
              onCreateError s2"
       "trace s2 = trace s @ t2" "list_all quiet t2" "sdk s2 = Some tok" "siteId s2 = siteId s"
    by blast
  let ?ev = "SdkCreateDeploy (siteId s) (pkg_type pkg) (pkg_path pkg) [zipRecord w h] None"
  let ?s4 = "s2\<lparr>trace := trace s2 @ [?ev, Log LLog ''Uploading function...'']\<rparr>"
  have cd: "createDeploy w pkg [zipRecord w h] None s2 = (Return d, s2\<lparr>trace := trace s2 @ [?ev]\<rparr>)"
    using h(4,5) assms(4) by (simp add: createDeploy_some)
  have df: "deployFunction w pkg s =
      tryCatch (andThen (uploadFiles w d [zipRecord w h]) (\<lambda>_. ret (Some d))) onCreateError ?s4"
    unfolding h(1) using cd by (simp add: tryCatch_def andThen_Return)
  have sdk4: "sdk ?s4 = Some tok" using h(4) by simp
  have ps4: "sdk_presignFiles w (siteId ?s4) (d_id d) (requiredFiles d) = Inr ps"
    using assms(5) h(5) by simp
  from uploadFiles_run[OF sdk4 ps4, of "[zipRecord w h]"] assms(6) obtain t5 where
    t5: "snd (uploadFiles w d [zipRecord w h] ?s4)
           = ?s4\<lparr>trace := trace ?s4 @ SdkPresignFiles (siteId ?s4) (d_id d) (requiredFiles d) # t5\<rparr>"
        "fst (uploadFiles w d [zipRecord w h] ?s4) = Throw (typeError ''abs'')"
        "uploadsOf t5 = []"
    by blast
  let ?s5 = "?s4\<lparr>trace := trace ?s4 @ SdkPresignFiles (siteId ?s4) (d_id d) (requiredFiles d) # t5\<rparr>"
  have up: "uploadFiles w d [zipRecord w h] ?s4 = (Throw (typeError ''abs''), ?s5)"
    using t5(1,2) by (simp add: prod_eq_iff)
  have res: "deployFunction w pkg s = onCreateError (typeError ''abs'') ?s5"
    unfolding df using up by (simp add: andThen_Throw tryCatch_Throw)
  have "uploadsOf (t2 @ [?ev, Log LLog ''Uploading function...'']
                   @ SdkPresignFiles (siteId ?s4) (d_id d) (requiredFiles d) # t5
                   @ [Log LInfo (err_message (typeError ''abs''))]) = []"
    using quiet_silent[OF h(3)] t5(3) by simp
  then show ?thesis
    unfolding res using h(2)
    by (intro conjI exI[of _ "t2 @ [?ev, Log LLog ''Uploading function...'']
                   @ SdkPresignFiles (siteId ?s4) (d_id d) (requiredFiles d) # t5
                   @ [Log LInfo (err_message (typeError ''abs''))]"])
       (simp_all add: onCreateError_run typeError_def)
qed

lemma readable_allMatched: "readable files fs ps \<Longrightarrow> allMatched files ps"
proof -
  assume "readable files fs ps"
  then have "\<not> lookupMisses files ps"
    by (auto simp: readable_def lookupMisses_def list_all_iff list_ex_iff split: option.splits)
  then show ?thesis by (simp add: lookupMisses_iff)
qed

text \<open>
  C3, as amended. What \<open>uploadFiles\<close> looks up among the local file records are the keys
  of the presigned files that the service returns, not the keys that the deploy marks
  as required. With a client in place: when the service returns a presigned file whose
  key no local file record has, \<open>uploadFiles\<close> throws the TypeError of the failed
  dereference \<open>.abs\<close> and nothing is uploaded; the uploads of any call are none, or for
  every presigned file its target with the content that was read from the local file
  with its key, so that no other or empty payload is sent; and in \<open>deployApp\<close> as in
  \<open>deployFunction\<close> such a miss ends the process with exit code 1 without any upload.
  A required key for which the service returns no target is not looked up at all.
\<close>

theorem presigned_key_without_local_file_is_fatal_and_nothing_is_uploaded:
  assumes "sdk s = Some tok"
  shows "(\<forall>ps. sdk_presignFiles w (siteId s) (d_id d) (requiredFiles d) = Inr ps
               \<and> \<not> allMatched files ps \<longrightarrow>
            (\<exists>t. uploadFiles w d files s = (Throw (typeError ''abs''), s\<lparr>trace := trace s @ t\<rparr>)
                \<and> uploadsOf t = []))
       \<and> (\<forall>ps. sdk_presignFiles w (siteId s) (d_id d) (requiredFiles d) = Inr ps \<longrightarrow>
            (\<exists>t. snd (uploadFiles w d files s) = s\<lparr>trace := trace s @ t\<rparr>
                \<and> (uploadsOf t = []
                    \<or> allMatched files ps \<and> readable files (fsFiles s) ps
                      \<and> uploadsOf t = payloads files (fsFiles s) ps)))
       \<and> (\<forall>ps. \<not> allMatched files ps
            \<and> sdk_getFilesDigest w (path_join (pkg_root pkg) ''build'') = Inr files
            \<and> sdk_createDeploy w (siteId s) (pkg_type pkg) (pkg_path pkg) files (Some (pkg_ssr pkg))
                = Inr d
            \<and> sdk_presignFiles w (siteId s) (d_id d) (requiredFiles d) = Inr ps \<longrightarrow>
            (\<exists>t. deployApp w pkg s = (Exit 1, s\<lparr>trace := trace s @ t\<rparr>) \<and> uploadsOf t = []))
       \<and> (\<forall>ps content zipHash.
            archiveOf (archiver w (path_join (pkg_root pkg) ''build'')) = Some content
            \<and> sdk_getFileHash w (path_join (tempdir w) ''function.zip'') (Some content) = Inr zipHash
            \<and> sdk_createDeploy w (siteId s) (pkg_type pkg) (pkg_path pkg) [zipRecord w zipHash] None
                = Inr d
            \<and> sdk_presignFiles w (siteId s) (d_id d) (requiredFiles d) = Inr ps
            \<and> \<not> allMatched [zipRecord w zipHash] ps \<longrightarrow>
            fst (deployFunction w pkg s) = Exit 1
            \<and> (\<exists>t. trace (snd (deployFunction w pkg s)) = trace s @ t \<and> uploadsOf t = []))"
proof -
  have run: "\<exists>t. snd (uploadFiles w d files s)
               = s\<lparr>trace := trace s @ SdkPresignFiles (siteId s) (d_id d) (requiredFiles d) # t\<rparr>
     \<and> (lookupMisses files ps \<longrightarrow>
          fst (uploadFiles w d files s) = Throw (typeError ''abs'') \<and> uploadsOf t = [])
     \<and> (uploadsOf t = []
          \<or> readable files (fsFiles s) ps \<and> uploadsOf t = payloads files (fsFiles s) ps)"
    if "sdk_presignFiles w (siteId s) (d_id d) (requiredFiles d) = Inr ps" for ps
    using uploadFiles_run[OF assms that, of files] by blast
  have a: "\<forall>ps. sdk_presignFiles w (siteId s) (d_id d) (requiredFiles d) = Inr ps
               \<and> \<not> allMatched files ps \<longrightarrow>
            (\<exists>t. uploadFiles w d files s = (Throw (typeError ''abs''), s\<lparr>trace := trace s @ t\<rparr>)
                \<and> uploadsOf t = [])"
  proof (intro allI impI)
    fix ps
    assume p: "sdk_presignFiles w (siteId s) (d_id d) (requiredFiles d) = Inr ps
               \<and> \<not> allMatched files ps"
    with run[of ps] obtain t where
      "uploadFiles w d files s =
         (Throw (typeError ''abs''),
          s\<lparr>trace := trace s @ SdkPresignFiles (siteId s) (d_id d) (requiredFiles d) # t\<rparr>)"
      "uploadsOf (SdkPresignFiles (siteId s) (d_id d) (requiredFiles d) # t) = []"
      by (auto simp: prod_eq_iff lookupMisses_iff)
    then show "\<exists>t. uploadFiles w d files s = (Throw (typeError ''abs''), s\<lparr>trace := trace s @ t\<rparr>)
                \<and> uploadsOf t = []"
      by blast
  qed
  have b: "\<forall>ps. sdk_presignFiles w (siteId s) (d_id d) (requiredFiles d) = Inr ps \<longrightarrow>
            (\<exists>t. snd (uploadFiles w d files s) = s\<lparr>trace := trace s @ t\<rparr>
                \<and> (uploadsOf t = []
                    \<or> allMatched files ps \<and> readable files (fsFiles s) ps
                      \<and> uploadsOf t = payloads files (fsFiles s) ps))"
  proof (intro allI impI)
    fix ps
    assume "sdk_presignFiles w (siteId s) (d_id d) (requiredFiles d) = Inr ps"
    from run[OF this] obtain t where
      t: "snd (uploadFiles w d files s)
               = s\<lparr>trace := trace s @ SdkPresignFiles (siteId s) (d_id d) (requiredFiles d) # t\<rparr>"
         "uploadsOf t = []
          \<or> readable files (fsFiles s) ps \<and> uploadsOf t = payloads files (fsFiles s) ps"
      by blast
    from t(2) readable_allMatched[of files "fsFiles s" ps]
    have "uploadsOf (SdkPresignFiles (siteId s) (d_id d) (requiredFiles d) # t) = []
          \<or> allMatched files ps \<and> readable files (fsFiles s) ps
            \<and> uploadsOf (SdkPresignFiles (siteId s) (d_id d) (requiredFiles d) # t)
                = payloads files (fsFiles s) ps"
      by auto
    with t(1) show "\<exists>t. snd (uploadFiles w d files s) = s\<lparr>trace := trace s @ t\<rparr>
                \<and> (uploadsOf t = []
                    \<or> allMatched files ps \<and> readable files (fsFiles s) ps
                      \<and> uploadsOf t = payloads files (fsFiles s) ps)"
      by blast
  qed
  have c: "\<forall>ps. \<not> allMatched files ps
            \<and> sdk_getFilesDigest w (path_join (pkg_root pkg) ''build'') = Inr files
            \<and> sdk_createDeploy w (siteId s) (pkg_type pkg) (pkg_path pkg) files (Some (pkg_ssr pkg))
                = Inr d
            \<and> sdk_presignFiles w (siteId s) (d_id d) (requiredFiles d) = Inr ps \<longrightarrow>
            (\<exists>t. deployApp w pkg s = (Exit 1, s\<lparr>trace := trace s @ t\<rparr>) \<and> uploadsOf t = [])"
    using deployApp_lookup_miss[OF assms, of w pkg files d]
    by (simp add: lookupMisses_iff)
  have e: "\<forall>ps content zipHash.
            archiveOf (archiver w (path_join (pkg_root pkg) ''build'')) = Some content
            \<and> sdk_getFileHash w (path_join (tempdir w) ''function.zip'') (Some content) = Inr zipHash
            \<and> sdk_createDeploy w (siteId s) (pkg_type pkg) (pkg_path pkg) [zipRecord w zipHash] None
                = Inr d
            \<and> sdk_presignFiles w (siteId s) (d_id d) (requiredFiles d) = Inr ps
            \<and> \<not> allMatched [zipRecord w zipHash] ps \<longrightarrow>
            fst (deployFunction w pkg s) = Exit 1
            \<and> (\<exists>t. trace (snd (deployFunction w pkg s)) = trace s @ t \<and> uploadsOf t = [])"
    using deployFunction_lookup_miss[OF assms, of w pkg _ _ d]
    by (simp add: lookupMisses_iff)
  from a b c e show ?thesis by (intro conjI)
qed

theorem presigned_key_without_local_file_is_fatal_and_nothing_is_uploaded_witness:
  "(\<exists>t. uploadFiles strayKeyWorld webAppDeploy webAppFiles readyState
           = (Throw (typeError ''abs''), readyState\<lparr>trace := trace readyState @ t\<rparr>)
        \<and> uploadsOf t = [])
   \<and> (\<exists>t. deployApp strayKeyWorld webApp readyState
             = (Exit 1, readyState\<lparr>trace := trace readyState @ t\<rparr>)
          \<and> uploadsOf t = [])
   \<and> fst (deployFunction strayKeyWorld apiFn readyState) = Exit 1
   \<and> (\<exists>t. trace (snd (deployFunction strayKeyWorld apiFn readyState)) = trace readyState @ t
          \<and> uploadsOf t = [])
   \<and> (\<exists>t. snd (uploadFiles exampleWorld webAppDeploy webAppFiles readyState)
             = readyState\<lparr>trace := trace readyState @ t\<rparr>
          \<and> (uploadsOf t = []
              \<or> uploadsOf t = [(''https://upload/index.html'', ''<html></html>''),
                               (''https://upload/main.js'', ''main();'')]))"
proof -
  let ?fd = "\<lparr>d_id = ''deploy-1'',
              d_files = [\<lparr>df_key = ''function.zip'', df_type = ''application/zip'',
                          df_required = True\<rparr>],
              d_url = None\<rparr>"
  let ?stray = "[\<lparr>p_key = ''other.css'', p_presigned = ''https://upload/other.css''\<rparr>]"
  let ?both = "[\<lparr>p_key = ''index.html'', p_presigned = ''https://upload/index.html''\<rparr>,
                \<lparr>p_key = ''main.js'', p_presigned = ''https://upload/main.js''\<rparr>]"
  have sdk: "sdk readyState = Some ''token-1''"
    by (simp add: readyState_def)
  have stray: "sdk_presignFiles strayKeyWorld (siteId readyState) (d_id webAppDeploy)
                 (requiredFiles webAppDeploy) = Inr ?stray"
    "sdk_presignFiles strayKeyWorld (siteId readyState) (d_id ?fd) (requiredFiles ?fd) = Inr ?stray"
    by (simp_all add: strayKeyWorld_def)
  have miss: "\<not> allMatched webAppFiles ?stray" "\<not> allMatched [zipRecord strayKeyWorld ''c3''] ?stray"
    by (simp_all add: allMatched_def webAppFiles_def zipRecord_def)
  have app: "sdk_getFilesDigest strayKeyWorld (path_join (pkg_root webApp) ''build'') = Inr webAppFiles"
    "sdk_createDeploy strayKeyWorld (siteId readyState) (pkg_type webApp) (pkg_path webApp)
          webAppFiles (Some (pkg_ssr webApp)) = Inr webAppDeploy"
    by (simp_all add: strayKeyWorld_def exampleWorld_def webApp_def webAppFiles_def webAppDeploy_def)
  have fn: "archiveOf (archiver strayKeyWorld (path_join (pkg_root apiFn) ''build'')) = Some ''zip-bytes''"
    "sdk_getFileHash strayKeyWorld (path_join (tempdir strayKeyWorld) ''function.zip'')
       (Some ''zip-bytes'') = Inr ''c3''"
    "sdk_createDeploy strayKeyWorld (siteId readyState) (pkg_type apiFn) (pkg_path apiFn)
        [zipRecord strayKeyWorld ''c3''] None = Inr ?fd"
    by (simp_all add: strayKeyWorld_def exampleWorld_def apiFn_def zipRecord_def)
  have ok: "sdk_presignFiles exampleWorld (siteId readyState) (d_id webAppDeploy)
                 (requiredFiles webAppDeploy) = Inr ?both"
    by (simp add: exampleWorld_def requiredFiles_def webAppDeploy_def)
  have pay: "payloads webAppFiles (fsFiles readyState) ?both
      = [(''https://upload/index.html'', ''<html></html>''),
         (''https://upload/main.js'', ''main();'')]"
    by (simp add: payloads_def localFile_def webAppFiles_def readyState_def freshState_def
        initial_def exampleFiles_def)
  from presigned_key_without_local_file_is_fatal_and_nothing_is_uploaded
         [OF sdk, of strayKeyWorld webAppDeploy webAppFiles webApp] stray(1) miss(1) app
  have a: "(\<exists>t. uploadFiles strayKeyWorld webAppDeploy webAppFiles readyState
           = (Throw (typeError ''abs''), readyState\<lparr>trace := trace readyState @ t\<rparr>)
        \<and> uploadsOf t = [])
   \<and> (\<exists>t. deployApp strayKeyWorld webApp readyState
             = (Exit 1, readyState\<lparr>trace := trace readyState @ t\<rparr>)
          \<and> uploadsOf t = [])"
    by blast
  from presigned_key_without_local_file_is_fatal_and_nothing_is_uploaded
         [OF sdk, of strayKeyWorld ?fd "[]" apiFn] stray(2) miss(2) fn
  have b: "fst (deployFunction strayKeyWorld apiFn readyState) = Exit 1
   \<and> (\<exists>t. trace (snd (deployFunction strayKeyWorld apiFn readyState)) = trace readyState @ t
          \<and> uploadsOf t = [])"
    by blast
  from presigned_key_without_local_file_is_fatal_and_nothing_is_uploaded
         [OF sdk, of exampleWorld webAppDeploy webAppFiles webApp] ok
  have "\<exists>t. snd (uploadFiles exampleWorld webAppDeploy webAppFiles readyState)
             = readyState\<lparr>trace := trace readyState @ t\<rparr>
          \<and> (uploadsOf t = []
              \<or> allMatched webAppFiles ?both \<and> readable webAppFiles (fsFiles readyState) ?both
                \<and> uploadsOf t = payloads webAppFiles (fsFiles readyState) ?both)"
    by blast
  then have c: "\<exists>t. snd (uploadFiles exampleWorld webAppDeploy webAppFiles readyState)
             = readyState\<lparr>trace := trace readyState @ t\<rparr>
          \<and> (uploadsOf t = []
              \<or> uploadsOf t = [(''https://upload/index.html'', ''<html></html>''),
                               (''https://upload/main.js'', ''main();'')])"
    unfolding pay by blast
  from a b c show ?thesis by blast
qed

text \<open>
  The claim C3 as it was first stated fails: the deploy requires \<open>ghost.css\<close>, no local
  file record has that key, the service returns a target for \<open>index.html\<close> only, and
  \<open>uploadFiles\<close> returns without an error.
\<close>

theorem required_key_without_local_file_goes_unnoticed:
  "requiredFiles ghostDeploy = [(''index.html'', ''text/html''), (''ghost.css'', ''text/css'')]
   \<and> \<not> requiredMatched webAppFiles ghostDeploy
   \<and> uploadFiles ghostWorld ghostDeploy webAppFiles readyState
       = (Return (),
          readyState\<lparr>trace :=
            [SdkPresignFiles (Some ''site-1'') ''deploy-3''
               [(''index.html'', ''text/html''), (''ghost.css'', ''text/css'')],
             FsReadFile ''/repo/web-app/build/index.html'',
             SdkUploadPresignedFile ''https://upload/index.html'' ''<html></html>'',
             Log LSuccess ''index.html'']\<rparr>)"
  by (simp add: uploadFiles_def ghostWorld_def exampleWorld_def ghostDeploy_def webAppFiles_def
      readyState_def freshState_def initial_def requiredFiles_def requiredMatched_def sdkCall_def
      andThen_def emit_def await_def ret_def throw_def tryCatch_def localFile_def readFile_def
      exampleFiles_def lookupMisses_def settle_def logger_def)

subsection \<open>Packages without changes\<close>

lemma deployFunction_create_fails:
  assumes "sdk s = Some tok"
    and "archiveOf (archiver w (path_join (pkg_root pkg) ''build'')) = Some content"
    and "sdk_getFileHash w (path_join (tempdir w) ''function.zip'') (Some content) = Inr h"
    and "sdk_createDeploy w (siteId s) (pkg_type pkg) (pkg_path pkg) [zipRecord w h] None = Inl e"
  shows "\<exists>s'. deployFunction w pkg s = onCreateError e s'"
proof -
  let ?bp = "path_join (pkg_root pkg) ''build''"
  let ?zip = "path_join (tempdir w) ''function.zip''"
  let ?s0 = "s\<lparr>trace := trace s @ [Log LLog ''Preparing deploy files...'', Archive ?bp ?zip]\<rparr>"
  from archiveEvents_total[OF assms(2), of ?zip ?s0] obtain sz where
    t: "archiveEvents ?zip (archiver w ?bp) ?s0 = (Return (), sz)"
       "fsFiles sz ?zip = Some content" "sdk sz = sdk s" "siteId sz = siteId s"
    by auto
  let ?s1 = "sz\<lparr>trace := trace sz @ [Log LLog ''Creating a new deploy...'']\<rparr>"
  let ?s2 = "?s1\<lparr>trace := trace ?s1 @ [SdkGetFileHash ?zip]\<rparr>"
  let ?s3 = "?s2\<lparr>trace := trace ?s2 @
      [SdkCreateDeploy (siteId s) (pkg_type pkg) (pkg_path pkg) [zipRecord w h] None]\<rparr>"
  have z: "createZip w ?bp ?zip (s\<lparr>trace := trace s @ [Log LLog ''Preparing deploy files...'']\<rparr>)
      = (Return (), sz)"
    using t(1) by (simp add: createZip_def)
  have gh: "getFileHash w ?zip ?s1 = (Return h, ?s2)"
    using assms(1,3) t(2,3) by (simp add: getFileHash_def sdkCall_some)
  have cd: "createDeploy w pkg [zipRecord w h] None ?s2 = (Throw e, ?s3)"
    using assms(1,4) t(3,4) by (simp add: createDeploy_some)
  have "deployFunction w pkg s = onCreateError e ?s3"
    using z gh cd
    by (simp add: deployFunction_def Let_def andThen_Return andThen_Throw tryCatch_Throw
        zipRecord_def)
  then show ?thesis by blast
qed

lemma deployPackage_built:
  assumes "ensureBuild w (Some pkg) s = (Return (), sb)"
  shows "deployPackage w (Some pkg) s =
           (if pkg_type pkg = ''app'' then deployApp w pkg sb else deployFunction w pkg sb)"
  using assms by (simp add: deployPackage_def tryCatch_Return andThen_Return)

lemma createDeploys_skip:
  assumes "deployPackage w (Some pkg)
             (s\<lparr>trace := trace s @
                [ConsoleLog, Log LLog (''Deploying '' @ pkg_name pkg @ '' ('' @ pkg_root pkg @ '')'')]\<rparr>)
           = (Return None, s1)"
  shows "createDeploys w (pkg # later) deploys s = createDeploys w later deploys s1"
  using assms by (simp add: andThen_Return)

lemma createDeploys_keys:
  "createDeploys w pkgs deploys s = (Return ds, s') \<Longrightarrow>
     set (map fst ds) \<subseteq> set (map fst deploys) \<union> set (map pkg_name pkgs)"
proof (induction pkgs arbitrary: deploys s)
  case Nil
  then show ?case by (auto simp: ret_def)
next
  case (Cons pkg pkgs)
  let ?s0 = "s\<lparr>trace := trace s @
                [ConsoleLog, Log LLog (''Deploying '' @ pkg_name pkg @ '' ('' @ pkg_root pkg @ '')'')]\<rparr>"
  obtain r s1 where dp: "deployPackage w (Some pkg) ?s0 = (r, s1)"
    by (cases "deployPackage w (Some pkg) ?s0")
  show ?case
  proof (cases r)
    case (Return d)
    show ?thesis
    proof (cases d)
      case None
      with Cons.prems dp Return have "createDeploys w pkgs deploys s1 = (Return ds, s')"
        by (simp add: andThen_Return)
      from Cons.IH[OF this] show ?thesis by auto
    next
      case (Some dr)
      with Cons.prems dp Return
      have "createDeploys w pkgs (storeDeploy (pkg_name pkg) dr deploys) s1 = (Return ds, s')"
        by (simp add: andThen_Return)
      from Cons.IH[OF this] show ?thesis
        by (auto simp: storeDeploy_def dom_update image_iff split: if_splits dest!: subsetD)
    qed
  next
    case (Throw e)
    with Cons.prems dp show ?thesis by (simp add: andThen_Throw)
  next
    case (Exit n)
    with Cons.prems dp show ?thesis by (simp add: andThen_Exit)
  next
    case Hang
    with Cons.prems dp show ?thesis by (simp add: andThen_Hang)
  qed
qed


text \<open>
  C1. In the loop over the packages of the batch branch, let the build of a package
  succeed and let \<open>createDeploy\<close> (called by \<open>deployApp\<close> after the digest, or by
  \<open>deployFunction\<close> after the archive and its hash) fail with the error code
  \<open>NO_CHANGES_DETECTED\<close>. Then \<open>deployPackage\<close> returns \<open>null\<close> and does not end the
  process, the loop goes on with the remaining packages and the same \<open>deploys\<close> object,
  and the name of the package is not a key of the final \<open>deploys\<close> object, from which the
  URLs are listed, unless it was one before or another package has the same name.
\<close>

theorem no_changes_skips_the_package_and_the_batch_goes_on:
  assumes "ensureBuild w (Some pkg)
             (s\<lparr>trace := trace s @
                [ConsoleLog, Log LLog (''Deploying '' @ pkg_name pkg @ '' ('' @ pkg_root pkg @ '')'')]\<rparr>)
           = (Return (), sb)"
    and "sdk sb = Some tok"
    and "err_code e = Some ''NO_CHANGES_DETECTED''"
    and "if pkg_type pkg = ''app''
         then \<exists>files. sdk_getFilesDigest w (path_join (pkg_root pkg) ''build'') = Inr files
                \<and> sdk_createDeploy w (siteId sb) (pkg_type pkg) (pkg_path pkg) files
                      (Some (pkg_ssr pkg)) = Inl e
         else \<exists>content zipHash.
                archiveOf (archiver w (path_join (pkg_root pkg) ''build'')) = Some content
                \<and> sdk_getFileHash w (path_join (tempdir w) ''function.zip'') (Some content)
                      = Inr zipHash
                \<and> sdk_createDeploy w (siteId sb) (pkg_type pkg) (pkg_path pkg)
                      [zipRecord w zipHash] None = Inl e"
  shows "\<exists>s1. deployPackage w (Some pkg)
                (s\<lparr>trace := trace s @
                   [ConsoleLog,
                    Log LLog (''Deploying '' @ pkg_name pkg @ '' ('' @ pkg_root pkg @ '')'')]\<rparr>)
              = (Return None, s1)
           \<and> createDeploys w (pkg # later) deploys s = createDeploys w later deploys s1
           \<and> (\<forall>ds s'. createDeploys w (pkg # later) deploys s = (Return ds, s')
                  \<and> pkg_name pkg \<notin> set (map fst deploys) \<union> set (map pkg_name later)
                  \<longrightarrow> pkg_name pkg \<notin> set (map fst ds))"
proof -
  let ?s0 = "s\<lparr>trace := trace s @
                [ConsoleLog, Log LLog (''Deploying '' @ pkg_name pkg @ '' ('' @ pkg_root pkg @ '')'')]\<rparr>"
  have nc: "onCreateError e x = (Return None, x\<lparr>trace := trace x @ [Log LInfo (err_message e)]\<rparr>)"
    for x using assms(3) by (simp add: onCreateError_run)
  have "\<exists>s1. deployPackage w (Some pkg) ?s0 = (Return None, s1)"
  proof (cases "pkg_type pkg = ''app''")
    case True
    with assms(4) obtain files where
      f: "sdk_getFilesDigest w (path_join (pkg_root pkg) ''build'') = Inr files"
         "sdk_createDeploy w (siteId sb) (pkg_type pkg) (pkg_path pkg) files (Some (pkg_ssr pkg)) = Inl e"
      by auto
    from deployApp_create_fails[OF assms(2) f] True show ?thesis
      unfolding deployPackage_built[OF assms(1)] by (simp add: nc)
  next
    case False
    with assms(4) obtain content zipHash where
      f: "archiveOf (archiver w (path_join (pkg_root pkg) ''build'')) = Some content"
         "sdk_getFileHash w (path_join (tempdir w) ''function.zip'') (Some content) = Inr zipHash"
         "sdk_createDeploy w (siteId sb) (pkg_type pkg) (pkg_path pkg) [zipRecord w zipHash] None
            = Inl e"
      by auto
    from deployFunction_create_fails[OF assms(2) f] False show ?thesis
      unfolding deployPackage_built[OF assms(1)] by (auto simp: nc)
  qed
  then obtain s1 where s1: "deployPackage w (Some pkg) ?s0 = (Return None, s1)"
    by blast
  note skip = createDeploys_skip[OF s1, of later deploys]
  have "\<forall>ds s'. createDeploys w (pkg # later) deploys s = (Return ds, s')
                  \<and> pkg_name pkg \<notin> set (map fst deploys) \<union> set (map pkg_name later)
                  \<longrightarrow> pkg_name pkg \<notin> set (map fst ds)"
    unfolding skip using createDeploys_keys[of w later deploys s1] by blast
  with s1 skip show ?thesis by blast
qed

theorem no_changes_skips_the_package_and_the_batch_goes_on_witness:
  "\<exists>s1. deployPackage exampleWorld (Some unchangedApp)
           (readyState\<lparr>trace := trace readyState @
              [ConsoleLog, Log LLog ''Deploying unchanged-app (/repo/unchanged-app)'']\<rparr>)
         = (Return None, s1)
      \<and> createDeploys exampleWorld [unchangedApp, webApp] [] readyState
         = createDeploys exampleWorld [webApp] [] s1
      \<and> (\<forall>ds s'. createDeploys exampleWorld [unchangedApp, webApp] [] readyState = (Return ds, s')
             \<longrightarrow> ''unchanged-app'' \<notin> set (map fst ds))"
proof -
  let ?s0 = "readyState\<lparr>trace := trace readyState @
      [ConsoleLog,
       Log LLog (''Deploying '' @ pkg_name unchangedApp @ '' ('' @ pkg_root unchangedApp @ '')'')]\<rparr>"
  let ?sb = "?s0\<lparr>trace := trace ?s0 @
      [Log LInfo ''Running build...'',
       Execa ''build'' ''/repo/unchanged-app'' [(''REACT_APP_ENV'', ''browser'')]]\<rparr>"
  have build: "ensureBuild exampleWorld (Some unchangedApp) ?s0 = (Return (), ?sb)"
    by (simp add: ensureBuild_def runExeca_def exampleWorld_def unchangedApp_def andThen_def logger_def
        emit_def await_def ret_def)
  have sdk: "sdk ?sb = Some ''token-1''"
    by (simp add: readyState_def)
  have nc: "err_code noChanges = Some ''NO_CHANGES_DETECTED''"
    by (simp add: noChanges_def)
  have create: "if pkg_type unchangedApp = ''app''
         then \<exists>files. sdk_getFilesDigest exampleWorld (path_join (pkg_root unchangedApp) ''build'')
                  = Inr files
                \<and> sdk_createDeploy exampleWorld (siteId ?sb) (pkg_type unchangedApp)
                      (pkg_path unchangedApp) files (Some (pkg_ssr unchangedApp)) = Inl noChanges
         else \<exists>content zipHash.
                archiveOf (archiver exampleWorld (path_join (pkg_root unchangedApp) ''build''))
                  = Some content
                \<and> sdk_getFileHash exampleWorld (path_join (tempdir exampleWorld) ''function.zip'')
                      (Some content) = Inr zipHash
                \<and> sdk_createDeploy exampleWorld (siteId ?sb) (pkg_type unchangedApp)
                      (pkg_path unchangedApp) [zipRecord exampleWorld zipHash] None = Inl noChanges"
    by (simp add: exampleWorld_def unchangedApp_def)
  from no_changes_skips_the_package_and_the_batch_goes_on[OF build sdk nc create, of "[webApp]" "[]"]
  show ?thesis
    by (simp add: unchangedApp_def webApp_def)
qed

text \<open>
  The batch run of the scenario, step by step: \<open>unchanged-app\<close> is skipped, \<open>web-app\<close> is
  created and uploaded, it becomes active at the third poll, only its URL is listed, and
  the process exits with code 0.
\<close>

lemma unchanged_run:
  assumes "sdk s = Some ''token-1''" "siteId s = Some ''site-1''"
  shows "deployPackage exampleWorld (Some unchangedApp) s =
     (Return None,
      s\<lparr>trace := trace s @
          [Log LInfo ''Running build...'',
           Execa ''build'' ''/repo/unchanged-app'' [(''REACT_APP_ENV'', ''browser'')],
           Log LLog ''Preparing deploy files...'',
           SdkGetFilesDigest ''/repo/unchanged-app/build'',
           Log LLog ''Creating a new deploy...'',
           SdkCreateDeploy (Some ''site-1'') ''app'' ''/unchanged'' webAppFiles (Some False),
           Log LInfo ''No changes detected.'']\<rparr>)"
  using assms
  by (simp add: deployPackage_def ensureBuild_def runExeca_def deployApp_def createDeploy_def
      onCreateError_def checkNetworkError_def exampleWorld_def unchangedApp_def noChanges_def
      sdkCall_def andThen_def emit_def await_def ret_def throw_def exit_def tryCatch_def
      logger_def path_join_def Let_def)

lemma webApp_run:
  assumes "sdk s = Some ''token-1''" "siteId s = Some ''site-1''" "fsFiles s = exampleFiles"
  shows "deployPackage exampleWorld (Some webApp) s =
     (Return (Some webAppDeploy),
      s\<lparr>trace := trace s @
          [Log LInfo ''Running build...'',
           Execa ''build'' ''/repo/web-app'' [(''REACT_APP_ENV'', ''browser'')],
           Log LLog ''Preparing deploy files...'',
           SdkGetFilesDigest ''/repo/web-app/build'',
           Log LLog ''Creating a new deploy...'',
           SdkCreateDeploy (Some ''site-1'') ''app'' ''/'' webAppFiles (Some False),
           Log LLog ''Uploading files (only new and modified files will be uploaded)...'',
           SdkPresignFiles (Some ''site-1'') ''deploy-1''
             [(''index.html'', ''text/html''), (''main.js'', ''application/javascript'')],
           FsReadFile ''/repo/web-app/build/index.html'',
           FsReadFile ''/repo/web-app/build/main.js'',
           SdkUploadPresignedFile ''https://upload/index.html'' ''<html></html>'',
           SdkUploadPresignedFile ''https://upload/main.js'' ''main();'',
           Log LSuccess ''index.html'',
           Log LSuccess ''main.js'']\<rparr>)"
  using assms
  by (simp add: deployPackage_def ensureBuild_def runExeca_def deployApp_def createDeploy_def
      uploadFiles_def exampleWorld_def webApp_def webAppFiles_def webAppDeploy_def
      requiredFiles_def sdkCall_def andThen_def emit_def await_def ret_def throw_def
      tryCatch_def localFile_def readFile_def exampleFiles_def lookupMisses_def settle_def
      logger_def path_join_def Let_def)

lemma activation_run:
  assumes "sdk s = Some ''token-1''"
    and "filter (\<lambda>e. e = SdkIsDeployActive ''deploy-1'') (trace s) = []"
  shows "activateDeploys exampleWorld [''web-app''] [(''web-app'', webAppDeploy)] s =
     (Return [(''web-app'', webAppDeploy\<lparr>d_url := Some ''https://web-app.example.com''\<rparr>)],
      s\<lparr>trace := trace s @
          [Log LLog ''Activating web-app...'',
           SdkActivateDeploy ''deploy-1'',
           Sleep 5000, SdkIsDeployActive ''deploy-1'',
           Sleep 5000, SdkIsDeployActive ''deploy-1'',
           Sleep 5000, SdkIsDeployActive ''deploy-1'']\<rparr>)"
  using assms
  by (simp add: activateDeploy_def waitTillActive_def isDeployActive_def pollCount_def sleep_def
      eval_nat_numeral exampleWorld_def webAppDeploy_def sdkCall_def andThen_def emit_def
      await_def ret_def logger_def)

lemma objectKeys_webApp:
  "objectKeys [(''web-app'', d)] = [''web-app'']" "objectValues [(''web-app'', d)] = [d]"
  by (simp_all add: objectKeys_def objectValues_def isArrayIndex_def List.map_filter_def)

lemma batch_run:
  "deploy exampleWorld None False freshState =
     (Exit 0,
      freshState\<lparr>siteId := Some ''site-1'', sdk := Some ''token-1'',
        trace :=
          [SdkWhoami ''token-1'', ListPackages,
           ConsoleLog, Log LLog ''Deploying unchanged-app (/repo/unchanged-app)'',
           Log LInfo ''Running build...'',
           Execa ''build'' ''/repo/unchanged-app'' [(''REACT_APP_ENV'', ''browser'')],
           Log LLog ''Preparing deploy files...'',
           SdkGetFilesDigest ''/repo/unchanged-app/build'',
           Log LLog ''Creating a new deploy...'',
           SdkCreateDeploy (Some ''site-1'') ''app'' ''/unchanged'' webAppFiles (Some False),
           Log LInfo ''No changes detected.'',
           ConsoleLog, Log LLog ''Deploying web-app (/repo/web-app)'',
           Log LInfo ''Running build...'',
           Execa ''build'' ''/repo/web-app'' [(''REACT_APP_ENV'', ''browser'')],
           Log LLog ''Preparing deploy files...'',
           SdkGetFilesDigest ''/repo/web-app/build'',
           Log LLog ''Creating a new deploy...'',
           SdkCreateDeploy (Some ''site-1'') ''app'' ''/'' webAppFiles (Some False),
           Log LLog ''Uploading files (only new and modified files will be uploaded)...'',
           SdkPresignFiles (Some ''site-1'') ''deploy-1''
             [(''index.html'', ''text/html''), (''main.js'', ''application/javascript'')],
           FsReadFile ''/repo/web-app/build/index.html'',
           FsReadFile ''/repo/web-app/build/main.js'',
           SdkUploadPresignedFile ''https://upload/index.html'' ''<html></html>'',
           SdkUploadPresignedFile ''https://upload/main.js'' ''main();'',
           Log LSuccess ''index.html'',
           Log LSuccess ''main.js'',
           Log LSuccess ''Deploys created successfully!'',
           Log LLog ''Activating web-app...'',
           SdkActivateDeploy ''deploy-1'',
           Sleep 5000, SdkIsDeployActive ''deploy-1'',
           Sleep 5000, SdkIsDeployActive ''deploy-1'',
           Sleep 5000, SdkIsDeployActive ''deploy-1'',
           Log LSuccess ''Deploy process completed!\<newline>'',
           Log LInfo ''Your apps/functions were deployed to these URLs:'',
           Log LLog ''https://web-app.example.com'']\<rparr>)"
proof -
  let ?s0 = "freshState\<lparr>sdk := Some ''token-1'', siteId := Some ''site-1'',
                        trace := [SdkWhoami ''token-1'', ListPackages]\<rparr>"
  let ?t1 = "[SdkWhoami ''token-1'', ListPackages,
           ConsoleLog, Log LLog ''Deploying unchanged-app (/repo/unchanged-app)'',
           Log LInfo ''Running build...'',
           Execa ''build'' ''/repo/unchanged-app'' [(''REACT_APP_ENV'', ''browser'')],
           Log LLog ''Preparing deploy files...'',
           SdkGetFilesDigest ''/repo/unchanged-app/build'',
           Log LLog ''Creating a new deploy...'',
           SdkCreateDeploy (Some ''site-1'') ''app'' ''/unchanged'' webAppFiles (Some False),
           Log LInfo ''No changes detected.'']"
  let ?t2 = "?t1 @
          [ConsoleLog, Log LLog ''Deploying web-app (/repo/web-app)'',
           Log LInfo ''Running build...'',
           Execa ''build'' ''/repo/web-app'' [(''REACT_APP_ENV'', ''browser'')],
           Log LLog ''Preparing deploy files...'',
           SdkGetFilesDigest ''/repo/web-app/build'',
           Log LLog ''Creating a new deploy...'',
           SdkCreateDeploy (Some ''site-1'') ''app'' ''/'' webAppFiles (Some False),
           Log LLog ''Uploading files (only new and modified files will be uploaded)...'',
           SdkPresignFiles (Some ''site-1'') ''deploy-1''
             [(''index.html'', ''text/html''), (''main.js'', ''application/javascript'')],
           FsReadFile ''/repo/web-app/build/index.html'',
           FsReadFile ''/repo/web-app/build/main.js'',
           SdkUploadPresignedFile ''https://upload/index.html'' ''<html></html>'',
           SdkUploadPresignedFile ''https://upload/main.js'' ''main();'',
           Log LSuccess ''index.html'',
           Log LSuccess ''main.js'']"
  let ?t3 = "?t2 @
          [Log LSuccess ''Deploys created successfully!'',
           Log LLog ''Activating web-app...'',
           SdkActivateDeploy ''deploy-1'',
           Sleep 5000, SdkIsDeployActive ''deploy-1'',
           Sleep 5000, SdkIsDeployActive ''deploy-1'',
           Sleep 5000, SdkIsDeployActive ''deploy-1'']"
  have env: "WEBINY_ACCESS_TOKEN exampleWorld = Some ''token-1''" "''token-1'' \<noteq> []"
    "truthy (WEBINY_SITE_ID exampleWorld)"
    "sdk_whoami exampleWorld ''token-1'' (whoamiCount freshState) = Inr (Some ''user-1'')"
    "truthy (Some ''user-1'')"
    by (simp_all add: exampleWorld_def)
  have found: "listPackages exampleWorld = Inr [unchangedApp, webApp]"
    "WEBINY_SITE_ID exampleWorld = Some ''site-1''"
    by (simp_all add: exampleWorld_def)
  have start: "deploy exampleWorld None False freshState
      = deployBatch exampleWorld [unchangedApp, webApp] ?s0"
    unfolding deploy_from_environment[OF env] found
    by (simp add: await_def freshState_def initial_def)
  let ?a = "?s0\<lparr>trace := trace ?s0 @
      [ConsoleLog, Log LLog ''Deploying unchanged-app (/repo/unchanged-app)'']\<rparr>"
  have first: "deployPackage exampleWorld (Some unchangedApp) ?a = (Return None, ?s0\<lparr>trace := ?t1\<rparr>)"
    by (subst unchanged_run) simp_all
  let ?b = "?s0\<lparr>trace := ?t1 @ [ConsoleLog, Log LLog ''Deploying web-app (/repo/web-app)'']\<rparr>"
  have second: "deployPackage exampleWorld (Some webApp) ?b
      = (Return (Some webAppDeploy), ?s0\<lparr>trace := ?t2\<rparr>)"
    by (subst webApp_run) (simp_all add: freshState_def initial_def)
  have names: "pkg_name unchangedApp = ''unchanged-app''" "pkg_root unchangedApp = ''/repo/unchanged-app''"
    "pkg_name webApp = ''web-app''" "pkg_root webApp = ''/repo/web-app''"
    by (simp_all add: unchangedApp_def webApp_def)
  have created: "createDeploys exampleWorld [unchangedApp, webApp] [] ?s0
      = (Return [(''web-app'', webAppDeploy)], ?s0\<lparr>trace := ?t2\<rparr>)"
    using first second
    by (simp add: names andThen_Return ret_def storeDeploy_def)
  let ?c = "?s0\<lparr>trace := ?t2 @ [Log LSuccess ''Deploys created successfully!'']\<rparr>"
  have active: "activateDeploys exampleWorld [''web-app''] [(''web-app'', webAppDeploy)] ?c
      = (Return [(''web-app'', webAppDeploy\<lparr>d_url := Some ''https://web-app.example.com''\<rparr>)],
         ?s0\<lparr>trace := ?t3\<rparr>)"
    by (subst activation_run) simp_all
  show ?thesis
    unfolding start deployBatch_def
    using created active
    by (simp add: andThen_Return objectKeys_webApp ret_def exit_def freshState_def initial_def)
qed

end
